theory Spec2Isabelle
  imports Complex_Main "HOL-Library.Multiset" "HOL-Library.Product_Lexorder"
begin

section \<open>Errors raised by the interpreter and by the tensor library\<close>

text \<open>
  Every exception the modelled code can raise is a value.  The string of a
  \<open>RuntimeError\<close> names the tensor operation that raised it.
\<close>

datatype error =
    RuntimeError string
  | IndexError string
  | TypeError string
  | AttributeError string
  | NameError string
  | ZeroDivisionError
  | NotImplementedError string

definition err_bind :: "error + 'a \<Rightarrow> ('a \<Rightarrow> error + 'b) \<Rightarrow> error + 'b" where
  "err_bind m f = (case m of Inl e \<Rightarrow> Inl e | Inr x \<Rightarrow> f x)"

section \<open>Single-precision numbers\<close>

text \<open>
  The entries of a float tensor: a finite number, an infinity, or not a number.
  An operation on finite numbers returns the exact result when it lies in the
  finite range of single precision, and the infinity of its sign when it lies
  beyond.  So overflow, the arithmetic of the infinities and NaN are in the
  model; rounding to 24 bits is not, nor is the loss of a sum, product or
  quotient that is too small to be represented (a rounding error below the
  smallest positive float), nor the sign of zero.  The exponential function does
  return zero below the range, and a Python number that becomes an operand of a
  float tensor is first cast to single precision, where a number too small
  becomes zero.
\<close>

datatype fl = Num real | PInf | NInf | NaN

definition float32_max :: real where
  "float32_max = (2 ^ 24 - 1) * 2 ^ 104"

definition float32_tiny :: real where
  "float32_tiny = 1 / 2 ^ 149"

definition round_fl :: "real \<Rightarrow> fl" where
  "round_fl r = (if float32_max < r then PInf else if r < - float32_max then NInf else Num r)"

definition cast32 :: "real \<Rightarrow> fl" where
  "cast32 r = (if \<bar>r\<bar> < float32_tiny then Num 0 else round_fl r)"

definition signed_inf :: "real \<Rightarrow> fl" where
  "signed_inf s = (if 0 < s then PInf else if s < 0 then NInf else NaN)"

fun fadd :: "fl \<Rightarrow> fl \<Rightarrow> fl" where
  "fadd (Num a) (Num b) = round_fl (a + b)"
| "fadd NaN _ = NaN"
| "fadd _ NaN = NaN"
| "fadd PInf NInf = NaN"
| "fadd NInf PInf = NaN"
| "fadd PInf _ = PInf"
| "fadd _ PInf = PInf"
| "fadd NInf _ = NInf"
| "fadd _ NInf = NInf"

fun fmul :: "fl \<Rightarrow> fl \<Rightarrow> fl" where
  "fmul (Num a) (Num b) = round_fl (a * b)"
| "fmul NaN _ = NaN"
| "fmul _ NaN = NaN"
| "fmul PInf (Num b) = signed_inf b"
| "fmul (Num a) PInf = signed_inf a"
| "fmul NInf (Num b) = signed_inf (- b)"
| "fmul (Num a) NInf = signed_inf (- a)"
| "fmul PInf PInf = PInf"
| "fmul NInf NInf = PInf"
| "fmul PInf NInf = NInf"
| "fmul NInf PInf = NInf"

text \<open>Division: a finite number over zero is the infinity of its sign, and zero
  over zero is NaN.\<close>

fun fdiv :: "fl \<Rightarrow> fl \<Rightarrow> fl" where
  "fdiv (Num a) (Num b) = (if b = 0 then signed_inf a else round_fl (a / b))"
| "fdiv NaN _ = NaN"
| "fdiv _ NaN = NaN"
| "fdiv (Num a) PInf = Num 0"
| "fdiv (Num a) NInf = Num 0"
| "fdiv PInf (Num b) = (if 0 \<le> b then PInf else NInf)"
| "fdiv NInf (Num b) = (if 0 \<le> b then NInf else PInf)"
| "fdiv PInf PInf = NaN"
| "fdiv PInf NInf = NaN"
| "fdiv NInf PInf = NaN"
| "fdiv NInf NInf = NaN"

fun fexp :: "fl \<Rightarrow> fl" where
  "fexp (Num x) =
     (if float32_max < exp x then PInf else if exp x < float32_tiny then Num 0 else Num (exp x))"
| "fexp PInf = PInf"
| "fexp NInf = Num 0"
| "fexp NaN = NaN"

fun fsqrt :: "fl \<Rightarrow> fl" where
  "fsqrt (Num x) = (if x < 0 then NaN else Num (sqrt x))"
| "fsqrt PInf = PInf"
| "fsqrt NInf = NaN"
| "fsqrt NaN = NaN"

text \<open>\<open>x.clamp_min(m)\<close> keeps a NaN.\<close>

fun clamp_min :: "fl \<Rightarrow> real \<Rightarrow> fl" where
  "clamp_min (Num x) m = Num (max x m)"
| "clamp_min PInf m = PInf"
| "clamp_min NInf m = Num m"
| "clamp_min NaN m = NaN"

text \<open>A sum of floats, accumulated from the left.  The library fixes no order
  of accumulation.\<close>

definition fsum :: "fl list \<Rightarrow> fl" where
  "fsum xs = foldl fadd (Num 0) xs"

text \<open>
  Sorting in descending order: the library puts NaN before every number, then
  the positive infinity, the finite numbers from the largest down, and the
  negative infinity.  A float comes no later than another when its key is not
  larger.
\<close>

fun desc_key :: "fl \<Rightarrow> nat \<times> real" where
  "desc_key NaN = (0, 0)"
| "desc_key PInf = (1, 0)"
| "desc_key (Num x) = (2, - x)"
| "desc_key NInf = (3, 0)"

text \<open>
  Which of several equal entries comes first, \<open>topk\<close> and \<open>argsort\<close> do not say,
  and they need not agree.  So the choice of the library is a parameter of the
  model: for each of the two operations, and for each row (its index and its
  entries), a rank of the positions of the row.  Entries that are equal are
  returned in the order of their ranks, and in the order of their positions
  when the ranks are equal too.  Every list of the positions that is descending
  in the entries is the order of some rank.
\<close>

record tie_break =
  topk_ties :: "nat \<Rightarrow> fl list \<Rightarrow> nat \<Rightarrow> nat"
  argsort_ties :: "nat \<Rightarrow> fl list \<Rightarrow> nat \<Rightarrow> nat"

definition order_desc :: "(nat \<Rightarrow> nat) \<Rightarrow> fl list \<Rightarrow> nat list" where
  "order_desc rank v = sort_key (\<lambda>j. (desc_key (v ! j), rank j)) [0..<length v]"

text \<open>One choice: among equal entries the lower position comes first.\<close>

definition stable_ties :: tie_break where
  "stable_ties = \<lparr>topk_ties = (\<lambda>_ _ _. 0), argsort_ties = (\<lambda>_ _ _. 0)\<rparr>"

section \<open>Two-dimensional tensors\<close>

text \<open>
  A 2-D tensor carries its shape next to its rows, so that a tensor with no
  rows or no columns still has both sizes, as \<open>t.size(0)\<close> and
  \<open>t.size(1)\<close> have in the library.
\<close>

record 'a tensor2 =
  size0 :: nat
  size1 :: nat
  rows :: "'a list list"

definition wf2 :: "'a tensor2 \<Rightarrow> bool" where
  "wf2 t \<longleftrightarrow> length (rows t) = size0 t \<and> (\<forall>r \<in> set (rows t). length r = size1 t)"

definition column :: "'a tensor2 \<Rightarrow> nat \<Rightarrow> 'a list" where
  "column t j = map (\<lambda>r. r ! j) (rows t)"

definition tmap :: "('a \<Rightarrow> 'b) \<Rightarrow> 'a tensor2 \<Rightarrow> 'b tensor2" where
  "tmap f t = \<lparr>size0 = size0 t, size1 = size1 t, rows = map (map f) (rows t)\<rparr>"

definition fdot :: "fl list \<Rightarrow> fl list \<Rightarrow> fl" where
  "fdot u v = fsum (map2 fmul u v)"

text \<open>\<open>torch.mm(a, b)\<close>: the inner sizes must agree.\<close>

definition torch_mm :: "fl tensor2 \<Rightarrow> fl tensor2 \<Rightarrow> error + fl tensor2" where
  "torch_mm a b =
     (if size1 a \<noteq> size0 b then Inl (RuntimeError ''mm'')
      else Inr \<lparr>size0 = size0 a, size1 = size1 b,
                rows = map (\<lambda>r. map (\<lambda>j. fdot r (column b j)) [0..<size1 b]) (rows a)\<rparr>)"

text \<open>\<open>t.topk(k=k, dim=-1)\<close>: values and indices of the \<open>k\<close> largest entries of
  each row, largest first, in the order the library gives the row; \<open>k\<close> outside
  \<open>[0, t.size(1)]\<close> raises.\<close>

definition topk :: "tie_break \<Rightarrow> fl tensor2 \<Rightarrow> int \<Rightarrow> error + (fl tensor2 \<times> nat tensor2)" where
  "topk lib t k =
     (if k < 0 \<or> int (size1 t) < k then Inl (RuntimeError ''topk'')
      else let idx = map (\<lambda>b. take (nat k) (order_desc (topk_ties lib b (rows t ! b)) (rows t ! b))) [0..<length (rows t)] in
        Inr (\<lparr>size0 = size0 t, size1 = nat k,
               rows = map2 (\<lambda>r js. map (\<lambda>j. r ! j) js) (rows t) idx\<rparr>,
             \<lparr>size0 = size0 t, size1 = nat k, rows = idx\<rparr>))"

text \<open>\<open>v.expand(n, -1)\<close> of a 1-D tensor: \<open>n\<close> copies of it as rows.\<close>

definition expand :: "'a list \<Rightarrow> nat \<Rightarrow> 'a tensor2" where
  "expand v n = \<lparr>size0 = n, size1 = length v, rows = replicate n v\<rparr>"

text \<open>\<open>torch.gather(input, dim=-1, index=index)\<close>: \<open>out[i][j] = input[i][index[i][j]]\<close>;
  an index outside the row raises.\<close>

definition gather :: "'a tensor2 \<Rightarrow> nat tensor2 \<Rightarrow> error + 'a tensor2" where
  "gather input index =
     (if size0 input < size0 index \<or> (\<exists>r \<in> set (rows index). \<exists>j \<in> set r. size1 input \<le> j)
      then Inl (RuntimeError ''gather'')
      else Inr \<lparr>size0 = size0 index, size1 = size1 index,
                rows = map2 (\<lambda>r js. map (\<lambda>j. r ! j) js) (rows input) (rows index)\<rparr>)"

text \<open>\<open>torch.zeros(m, n)\<close>: a negative size raises.\<close>

definition zeros :: "int \<Rightarrow> int \<Rightarrow> error + fl tensor2" where
  "zeros m n =
     (if m < 0 \<or> n < 0 then Inl (RuntimeError ''zeros'')
      else Inr \<lparr>size0 = nat m, size1 = nat n,
                rows = replicate (nat m) (replicate (nat n) (Num 0))\<rparr>)"

text \<open>\<open>t.view(-1, 1)\<close>: all entries, row by row, as one column.\<close>

definition view_col :: "'a tensor2 \<Rightarrow> 'a tensor2" where
  "view_col t = \<lparr>size0 = size0 t * size1 t, size1 = 1,
                 rows = map (\<lambda>x. [x]) (concat (rows t))\<rparr>"

text \<open>\<open>self.scatter(dim=-1, index=index, value=v)\<close>, the out-of-place scatter: a
  copy of \<open>self\<close> with \<open>out[i][index[i][j]] = v\<close>; an index outside the row
  raises.\<close>

definition scatter :: "fl tensor2 \<Rightarrow> int tensor2 \<Rightarrow> fl \<Rightarrow> error + fl tensor2" where
  "scatter self index v =
     (if size0 self < size0 index
         \<or> (\<exists>r \<in> set (rows index). \<exists>l \<in> set r. l < 0 \<or> int (size1 self) \<le> l)
      then Inl (RuntimeError ''scatter'')
      else Inr (self\<lparr>rows :=
                  map2 (\<lambda>r ls. fold (\<lambda>l r'. r'[nat l := v]) ls r) (rows self) (rows index)
                  @ drop (size0 index) (rows self)\<rparr>))"

text \<open>\<open>t.view(b, -1, c)\<close> of a 2-D tensor, read through its flat row-major data.
  The inferred size is the number of elements divided by \<open>b * c\<close>; it cannot be
  inferred when \<open>b * c = 0\<close>, and the division must be exact.\<close>

definition view3 :: "'a tensor2 \<Rightarrow> nat \<Rightarrow> int \<Rightarrow> error + 'a list list list" where
  "view3 t b c =
     (if c < 0 then Inl (RuntimeError ''view'')
      else let newsize = b * nat c; numel = size0 t * size1 t in
        if newsize = 0 \<or> numel mod newsize \<noteq> 0 then Inl (RuntimeError ''view'')
        else let d = numel div newsize in
          Inr (map (\<lambda>i. map (\<lambda>j. take (nat c) (drop ((i * d + j) * nat c) (concat (rows t))))
                            [0..<d])
                   [0..<b]))"

text \<open>\<open>t3 * w.unsqueeze(dim=-1)\<close> for \<open>t3\<close> of shape \<open>[B, K, C]\<close> and \<open>w\<close> of shape
  \<open>[B, K]\<close>: every row \<open>t3[i][j]\<close> is scaled by \<open>w[i][j]\<close>.\<close>

definition mul_unsqueeze :: "fl list list list \<Rightarrow> fl tensor2 \<Rightarrow> fl list list list" where
  "mul_unsqueeze t3 w =
     map2 (\<lambda>g ws. map2 (\<lambda>r x. map (\<lambda>y. fmul y x) r) g ws) t3 (rows w)"

text \<open>\<open>torch.sum(t3, dim=1)\<close> for \<open>t3\<close> of shape \<open>[B, K, c]\<close>.\<close>

definition sum_dim1 :: "nat \<Rightarrow> fl list list list \<Rightarrow> fl tensor2" where
  "sum_dim1 c t3 = \<lparr>size0 = length t3, size1 = c,
                    rows = map (\<lambda>g. map (\<lambda>l. fsum (map (\<lambda>r. r ! l) g)) [0..<c]) t3\<rparr>"

text \<open>\<open>t.argsort(dim=-1, descending=True)\<close>, in the order the library gives each
  row.\<close>

definition argsort :: "tie_break \<Rightarrow> fl tensor2 \<Rightarrow> nat tensor2" where
  "argsort lib t = \<lparr>size0 = size0 t, size1 = size1 t,
                    rows = map (\<lambda>b. order_desc (argsort_ties lib b (rows t ! b)) (rows t ! b))
                               [0..<length (rows t)]\<rparr>"

section \<open>The weighted kNN classifier\<close>

text \<open>The first argument is the library's order among equal entries; the others
  are the arguments of the source.  The temperature is a Python number.\<close>

definition knn_predict ::
  "tie_break \<Rightarrow> fl tensor2 \<Rightarrow> fl tensor2 \<Rightarrow> int list \<Rightarrow> int \<Rightarrow> int \<Rightarrow> real \<Rightarrow> error + nat tensor2" where
  "knn_predict lib feature feature_bank feature_labels classes knn_k knn_t =
     err_bind (torch_mm feature feature_bank) (\<lambda>sim_matrix.
     err_bind (topk lib sim_matrix knn_k) (\<lambda>(sim_weight, sim_indices).
     err_bind (gather (expand feature_labels (size0 feature)) sim_indices) (\<lambda>sim_labels.
     let sim_weight = tmap (\<lambda>s. fexp (fdiv s (cast32 knn_t))) sim_weight in
     err_bind (zeros (int (size0 feature) * knn_k) classes) (\<lambda>one_hot_label.
     err_bind (scatter one_hot_label (view_col sim_labels) (Num 1)) (\<lambda>one_hot_label.
     err_bind (view3 one_hot_label (size0 feature) classes) (\<lambda>one_hot3.
     let pred_scores = sum_dim1 (nat classes) (mul_unsqueeze one_hot3 sim_weight);
         pred_labels = argsort lib pred_scores
     in Inr pred_labels))))))"

text \<open>
  The same computation, query by query: the similarities of query \<open>b\<close>, the
  neighbours the library selects for it, the weight of a neighbour, and the
  score of a class as the library accumulates it.
\<close>

definition similarity_fl :: "fl tensor2 \<Rightarrow> fl tensor2 \<Rightarrow> nat \<Rightarrow> fl list" where
  "similarity_fl feature bank b =
     map (\<lambda>j. fdot (rows feature ! b) (column bank j)) [0..<size1 bank]"

definition selected_neighbors :: "tie_break \<Rightarrow> nat \<Rightarrow> fl list \<Rightarrow> nat \<Rightarrow> nat list" where
  "selected_neighbors lib b sims k = take k (order_desc (topk_ties lib b sims) sims)"

definition weight_fl :: "real \<Rightarrow> fl \<Rightarrow> fl" where
  "weight_fl t s = fexp (fdiv s (cast32 t))"

definition score_fl :: "fl list \<Rightarrow> int list \<Rightarrow> real \<Rightarrow> nat list \<Rightarrow> nat \<Rightarrow> fl" where
  "score_fl sims labels t nbrs c =
     fsum (map (\<lambda>j. fmul (if labels ! j = int c then Num 1 else Num 0) (weight_fl t (sims ! j)))
               nbrs)"

definition scores_fl ::
  "tie_break \<Rightarrow> fl tensor2 \<Rightarrow> fl tensor2 \<Rightarrow> int list \<Rightarrow> nat \<Rightarrow> nat \<Rightarrow> real \<Rightarrow> nat \<Rightarrow> fl list" where
  "scores_fl lib feature bank labels c k t b =
     (let sims = similarity_fl feature bank b
      in map (score_fl sims labels t (selected_neighbors lib b sims k)) [0..<c])"

text \<open>The words of the specification, over the real numbers: the similarities
  of one query, and the score of a class.\<close>

definition dot :: "real list \<Rightarrow> real list \<Rightarrow> real" where
  "dot u v = sum_list (map2 (*) u v)"

definition similarity_row :: "real tensor2 \<Rightarrow> real tensor2 \<Rightarrow> nat \<Rightarrow> real list" where
  "similarity_row feature bank b =
     map (\<lambda>j. dot (rows feature ! b) (column bank j)) [0..<size1 bank]"

definition class_score :: "real list \<Rightarrow> int list \<Rightarrow> real \<Rightarrow> nat list \<Rightarrow> nat \<Rightarrow> real" where
  "class_score sims labels t nbrs c =
     (\<Sum>j\<leftarrow>nbrs. if labels ! j = int c then exp (sims ! j / t) else 0)"

text \<open>The preconditions of the classifier: well-formed shapes that fit, a
  non-empty query batch, labels that are classes, and \<open>0 \<le> k \<le> N\<close>.\<close>

definition labels_in_range :: "int list \<Rightarrow> int \<Rightarrow> bool" where
  "labels_in_range labels classes \<longleftrightarrow> (\<forall>l \<in> set labels. 0 \<le> l \<and> l < classes)"

definition knn_pre :: "'a tensor2 \<Rightarrow> 'b tensor2 \<Rightarrow> int list \<Rightarrow> int \<Rightarrow> int \<Rightarrow> bool" where
  "knn_pre feature bank labels classes k \<longleftrightarrow>
     wf2 feature \<and> wf2 bank \<and> 0 < size0 feature \<and> size1 feature = size0 bank \<and>
     length labels = size1 bank \<and> labels_in_range labels classes \<and> 0 < classes \<and>
     0 \<le> k \<and> k \<le> int (size1 bank)"

text \<open>
  Inputs and a temperature that stay inside single precision: the temperature
  and its reciprocal are finite floats (a division by a number may be computed as
  a multiplication by its reciprocal); no similarity overflows, whatever the
  order in which the products are added; no weight \<open>exp (s / t)\<close> underflows to
  zero; and the weights of one query do not add up beyond the largest float.
\<close>

definition abs_dot :: "real list \<Rightarrow> real list \<Rightarrow> real" where
  "abs_dot u v = sum_list (map2 (\<lambda>x y. \<bar>x * y\<bar>) u v)"

definition float_safe :: "real tensor2 \<Rightarrow> real tensor2 \<Rightarrow> real \<Rightarrow> bool" where
  "float_safe feature bank t \<longleftrightarrow>
     1 / float32_max \<le> \<bar>t\<bar> \<and> \<bar>t\<bar> \<le> float32_max \<and>
     (\<forall>b < size0 feature.
        (\<forall>j < size1 bank.
           abs_dot (rows feature ! b) (column bank j) \<le> float32_max \<and>
           float32_tiny \<le> exp (similarity_row feature bank b ! j / t)) \<and>
        (\<Sum>j\<leftarrow>[0..<size1 bank]. exp (similarity_row feature bank b ! j / t)) \<le> float32_max)"

text \<open>A small bank: one query, two dimensions, three unit-norm bank columns.\<close>

definition ex_query :: "real tensor2" where
  "ex_query = \<lparr>size0 = 1, size1 = 2, rows = [[1, 0]]\<rparr>"

definition ex_columns :: "real tensor2" where
  "ex_columns = \<lparr>size0 = 2, size1 = 3, rows = [[1, 0, 3/5], [0, 1, 4/5]]\<rparr>"

definition ex_feature :: "fl tensor2" where
  "ex_feature = tmap Num ex_query"

definition ex_bank :: "fl tensor2" where
  "ex_bank = tmap Num ex_columns"



section \<open>Tensors in memory\<close>

text \<open>
  Tensors are objects.  The store is the list of the storages allocated so far,
  an address is a position in it, and an operation of the library either
  allocates a new storage for its result, or writes into the storage of an
  operand (an in-place operation: a method whose name ends in an underscore, an
  \<open>out=\<close> argument, an indexed assignment), or returns a view: a tensor that
  has no storage of its own and is read through the storage of its base, so that
  a write to either is seen through the other.
\<close>

datatype tval =
    TReal1 "real list"
  | TFloat2 "fl tensor2"
  | TFloat3 "fl list list list"
  | TInt1 "int list"
  | TInt2 "int tensor2"
  | TNat2 "nat tensor2"

type_synonym addr = nat
type_synonym store = "tval list"

definition lookup :: "store \<Rightarrow> addr \<Rightarrow> tval option" where
  "lookup h a = (if a < length h then Some (h ! a) else None)"

definition alloc :: "store \<Rightarrow> tval \<Rightarrow> addr \<times> store" where
  "alloc h v = (length h, h @ [v])"

definition overwrite :: "store \<Rightarrow> addr \<Rightarrow> tval \<Rightarrow> store" where
  "overwrite h a v = h[a := v]"

text \<open>The views that \<open>knn_predict\<close> takes: \<open>expand(n, -1)\<close> of a vector,
  \<open>view(-1, 1)\<close> and \<open>view(b, -1, c)\<close> of a matrix.  A reference to a tensor is
  the address of a storage and the views taken of it, the first one first.\<close>

datatype view = Expand nat | ViewCol | View3 nat int

datatype tref = Ref addr "view list"

fun base :: "tref \<Rightarrow> addr" where
  "base (Ref a vs) = a"

fun views :: "tref \<Rightarrow> view list" where
  "views (Ref a vs) = vs"

fun take_view :: "view \<Rightarrow> tref \<Rightarrow> tref" where
  "take_view vw (Ref a vs) = Ref a (vs @ [vw])"

fun apply_view :: "view \<Rightarrow> tval \<Rightarrow> error + tval" where
  "apply_view (Expand n) (TInt1 v) = Inr (TInt2 (expand v n))"
| "apply_view ViewCol (TInt2 t) = Inr (TInt2 (view_col t))"
| "apply_view (View3 b c) (TFloat2 t) = map_sum id TFloat3 (view3 t b c)"
| "apply_view _ _ = Inl (TypeError ''view'')"

text \<open>The value of a tensor: the storage of its base, read through its views.\<close>

definition deref :: "store \<Rightarrow> tref \<Rightarrow> error + tval" where
  "deref h r =
     (case lookup h (base r) of
        None \<Rightarrow> Inl (TypeError ''tensor'')
      | Some v \<Rightarrow> fold (\<lambda>vw x. err_bind x (apply_view vw)) (views r) (Inr v))"

section \<open>The classifier on tensors in memory\<close>

text \<open>
  \<open>knn_predict\<close> once more, statement by statement, on tensors that live in the
  store.  A computation takes the store and returns a value or an exception, and
  the store it leaves.
\<close>

type_synonym 'a mem = "store \<Rightarrow> (error + 'a) \<times> store"

definition mem_bind :: "'a mem \<Rightarrow> ('a \<Rightarrow> 'b mem) \<Rightarrow> 'b mem" where
  "mem_bind m f h = (case m h of (Inl e, h') \<Rightarrow> (Inl e, h') | (Inr x, h') \<Rightarrow> f x h')"

text \<open>The three things an operation does to the store: it allocates a storage
  for its result, it writes into the storage at an address, it takes a view.
  Taking a view checks the shape and allocates nothing.\<close>

definition mem_new :: "error + tval \<Rightarrow> tref mem" where
  "mem_new m h =
     (case m of Inl e \<Rightarrow> (Inl e, h) | Inr v \<Rightarrow> (let (a, h') = alloc h v in (Inr (Ref a []), h')))"

definition mem_write :: "addr \<Rightarrow> error + tval \<Rightarrow> tref mem" where
  "mem_write a m h =
     (case m of Inl e \<Rightarrow> (Inl e, h) | Inr v \<Rightarrow> (Inr (Ref a []), overwrite h a v))"

definition mem_view :: "view \<Rightarrow> tref \<Rightarrow> tref mem" where
  "mem_view vw r h =
     (case deref h (take_view vw r) of
        Inl e \<Rightarrow> (Inl e, h)
      | Inr _ \<Rightarrow> (Inr (take_view vw r), h))"

definition read_float2 :: "tref \<Rightarrow> fl tensor2 mem" where
  "read_float2 r h = (case deref h r of Inr (TFloat2 t) \<Rightarrow> (Inr t, h)
                      | Inl e \<Rightarrow> (Inl e, h) | _ \<Rightarrow> (Inl (TypeError ''tensor''), h))"

definition read_float3 :: "tref \<Rightarrow> fl list list list mem" where
  "read_float3 r h = (case deref h r of Inr (TFloat3 t) \<Rightarrow> (Inr t, h)
                      | Inl e \<Rightarrow> (Inl e, h) | _ \<Rightarrow> (Inl (TypeError ''tensor''), h))"

definition read_int2 :: "tref \<Rightarrow> int tensor2 mem" where
  "read_int2 r h = (case deref h r of Inr (TInt2 t) \<Rightarrow> (Inr t, h)
                    | Inl e \<Rightarrow> (Inl e, h) | _ \<Rightarrow> (Inl (TypeError ''tensor''), h))"

definition read_nat2 :: "tref \<Rightarrow> nat tensor2 mem" where
  "read_nat2 r h = (case deref h r of Inr (TNat2 t) \<Rightarrow> (Inr t, h)
                    | Inl e \<Rightarrow> (Inl e, h) | _ \<Rightarrow> (Inl (TypeError ''tensor''), h))"

text \<open>The operations \<open>knn_predict\<close> calls.  None of them is an in-place operation:
  each reads its operands and allocates its result.\<close>

definition mem_mm :: "tref \<Rightarrow> tref \<Rightarrow> tref mem" where
  "mem_mm a b =
     mem_bind (read_float2 a) (\<lambda>x. mem_bind (read_float2 b) (\<lambda>y.
       mem_new (map_sum id TFloat2 (torch_mm x y))))"

text \<open>\<open>topk\<close> allocates two tensors, the values and the indices.\<close>

definition mem_topk :: "tie_break \<Rightarrow> tref \<Rightarrow> int \<Rightarrow> (tref \<times> tref) mem" where
  "mem_topk lib a k =
     mem_bind (read_float2 a) (\<lambda>x.
       case topk lib x k of
         Inl e \<Rightarrow> (\<lambda>h. (Inl e, h))
       | Inr (w, i) \<Rightarrow>
           mem_bind (mem_new (Inr (TFloat2 w))) (\<lambda>wa.
           mem_bind (mem_new (Inr (TNat2 i))) (\<lambda>ia. (\<lambda>h. (Inr (wa, ia), h)))))"

definition mem_size0 :: "tref \<Rightarrow> nat mem" where
  "mem_size0 a = mem_bind (read_float2 a) (\<lambda>x h. (Inr (size0 x), h))"

definition mem_gather :: "tref \<Rightarrow> tref \<Rightarrow> tref mem" where
  "mem_gather a i =
     mem_bind (read_int2 a) (\<lambda>x. mem_bind (read_nat2 i) (\<lambda>y.
       mem_new (map_sum id TInt2 (gather x y))))"

definition mem_map :: "(fl \<Rightarrow> fl) \<Rightarrow> tref \<Rightarrow> tref mem" where
  "mem_map f a = mem_bind (read_float2 a) (\<lambda>x. mem_new (Inr (TFloat2 (tmap f x))))"

definition mem_zeros :: "int \<Rightarrow> int \<Rightarrow> tref mem" where
  "mem_zeros m n = mem_new (map_sum id TFloat2 (zeros m n))"

text \<open>
  \<open>scatter_\<close> is the in-place scatter: it writes the storage of \<open>self\<close>; the model
  has it for a tensor \<open>self\<close> that is no view, given by its address.  \<open>scatter\<close>,
  which \<open>knn_predict\<close> calls, is its out-of-place version: it copies \<open>self\<close> to a
  new storage and scatters into the copy.
\<close>

definition mem_clone :: "tref \<Rightarrow> tref mem" where
  "mem_clone a = mem_bind (read_float2 a) (\<lambda>x. mem_new (Inr (TFloat2 x)))"

definition mem_scatter_inplace :: "addr \<Rightarrow> tref \<Rightarrow> fl \<Rightarrow> tref mem" where
  "mem_scatter_inplace a i v =
     mem_bind (read_float2 (Ref a [])) (\<lambda>x. mem_bind (read_int2 i) (\<lambda>y.
       mem_write a (map_sum id TFloat2 (scatter x y v))))"

definition mem_scatter :: "tref \<Rightarrow> tref \<Rightarrow> fl \<Rightarrow> tref mem" where
  "mem_scatter a i v = mem_bind (mem_clone a) (\<lambda>out. mem_scatter_inplace (base out) i v)"

text \<open>\<open>t3 * w.unsqueeze(dim=-1)\<close>: the view \<open>unsqueeze\<close> of \<open>w\<close> is only read, by the
  multiplication, which allocates the product.\<close>

definition mem_mul_unsqueeze :: "tref \<Rightarrow> tref \<Rightarrow> tref mem" where
  "mem_mul_unsqueeze a w =
     mem_bind (read_float3 a) (\<lambda>x. mem_bind (read_float2 w) (\<lambda>y.
       mem_new (Inr (TFloat3 (mul_unsqueeze x y)))))"

definition mem_sum_dim1 :: "nat \<Rightarrow> tref \<Rightarrow> tref mem" where
  "mem_sum_dim1 c a = mem_bind (read_float3 a) (\<lambda>x. mem_new (Inr (TFloat2 (sum_dim1 c x))))"

definition mem_argsort :: "tie_break \<Rightarrow> tref \<Rightarrow> tref mem" where
  "mem_argsort lib a = mem_bind (read_float2 a) (\<lambda>x. mem_new (Inr (TNat2 (argsort lib x))))"

definition knn_predict_mem ::
  "tie_break \<Rightarrow> tref \<Rightarrow> tref \<Rightarrow> tref \<Rightarrow> int \<Rightarrow> int \<Rightarrow> real \<Rightarrow> tref mem" where
  "knn_predict_mem lib feature feature_bank feature_labels classes knn_k knn_t =
     mem_bind (mem_mm feature feature_bank) (\<lambda>sim_matrix.
     mem_bind (mem_topk lib sim_matrix knn_k) (\<lambda>(sim_weight, sim_indices).
     mem_bind (mem_size0 feature) (\<lambda>B.
     mem_bind (mem_view (Expand B) feature_labels) (\<lambda>expanded.
     mem_bind (mem_gather expanded sim_indices) (\<lambda>sim_labels.
     mem_bind (mem_map (\<lambda>s. fdiv s (cast32 knn_t)) sim_weight) (\<lambda>quotient.
     mem_bind (mem_map fexp quotient) (\<lambda>sim_weight.
     mem_bind (mem_zeros (int B * knn_k) classes) (\<lambda>one_hot_label.
     mem_bind (mem_view ViewCol sim_labels) (\<lambda>index.
     mem_bind (mem_scatter one_hot_label index (Num 1)) (\<lambda>one_hot_label.
     mem_bind (mem_view (View3 B classes) one_hot_label) (\<lambda>one_hot3.
     mem_bind (mem_mul_unsqueeze one_hot3 sim_weight) (\<lambda>weighted.
     mem_bind (mem_sum_dim1 (nat classes) weighted) (\<lambda>pred_scores.
     mem_argsort lib pred_scores)))))))))))))"

text \<open>What a call returns: the exception, or the value of the tensor returned.\<close>

definition result_value :: "(error + tref) \<times> store \<Rightarrow> error + tval" where
  "result_value r = (case r of (Inl e, h) \<Rightarrow> Inl e | (Inr a, h) \<Rightarrow> deref h a)"

text \<open>A store that holds the small bank: the query, the bank and the labels.\<close>

definition ex_knn_store :: store where
  "ex_knn_store = [TFloat2 ex_feature, TFloat2 ex_bank, TInt1 [0, 1, 1]]"

text \<open>Another choice of the library: among equal entries the higher position
  comes first.\<close>

definition last_ties :: tie_break where
  "last_ties = \<lparr>topk_ties = (\<lambda>_ v j. length v - j), argsort_ties = (\<lambda>_ v j. length v - j)\<rparr>"

text \<open>A row has no ties when no two of its entries are equal in the order of
  the library.\<close>

definition no_ties :: "fl list \<Rightarrow> bool" where
  "no_ties v \<longleftrightarrow> distinct (map desc_key v)"

text \<open>A computation returns a fresh tensor when what it returns is no view and
  has a storage that did not exist before.\<close>

definition returns_fresh :: "tref mem \<Rightarrow> bool" where
  "returns_fresh m \<longleftrightarrow>
     (\<forall>h r h'. m h = (Inr r, h') \<longrightarrow> views r = [] \<and> length h \<le> base r \<and> base r < length h')"

section \<open>Feature normalisation\<close>

text \<open>
  \<open>F.normalize(x, dim=1)\<close> divides every row by its norm, clamped from below by
  \<open>eps = 1e-12\<close>: \<open>x / x.norm(2, 1, keepdim=True).clamp_min(eps)\<close>.  The norm is
  the square root of the sum of the squares, computed in single precision.
\<close>

definition normalize_eps :: real where
  "normalize_eps = 1 / 10 ^ 12"

definition norm_fl :: "fl list \<Rightarrow> fl" where
  "norm_fl v = fsqrt (fsum (map (\<lambda>x. fmul x x) v))"

definition normalize_row :: "fl list \<Rightarrow> fl list" where
  "normalize_row v = map (\<lambda>x. fdiv x (clamp_min (norm_fl v) normalize_eps)) v"

text \<open>The words of the specification: the L2 norm of a vector of real numbers.\<close>

definition sum_squares :: "real list \<Rightarrow> real" where
  "sum_squares v = (\<Sum>x\<leftarrow>v. x\<^sup>2)"

definition l2_norm :: "real list \<Rightarrow> real" where
  "l2_norm v = sqrt (sum_squares v)"

text \<open>
  The encoder returns \<open>n\<close> embeddings of dimension \<open>D\<close>, a tensor of shape
  \<open>[n, D]\<close> or \<open>[n, D, 1, 1]\<close>; \<open>.squeeze()\<close> removes every dimension of size one,
  the batch dimension too when \<open>n = 1\<close>.
\<close>

datatype squeezed = Scalar fl | Vector "fl list" | Matrix "fl tensor2"

definition squeeze :: "fl tensor2 \<Rightarrow> squeezed" where
  "squeeze t =
     (if size0 t = 1 \<and> size1 t = 1 then Scalar (rows t ! 0 ! 0)
      else if size0 t = 1 then Vector (rows t ! 0)
      else if size1 t = 1 then Vector (map (\<lambda>r. r ! 0) (rows t))
      else Matrix t)"

text \<open>\<open>F.normalize(feature, dim=1)\<close>: a tensor with fewer than two dimensions has
  no dimension 1.\<close>

definition normalize_dim1 :: "squeezed \<Rightarrow> error + fl tensor2" where
  "normalize_dim1 f =
     (case f of
        Matrix t \<Rightarrow> Inr (t\<lparr>rows := map normalize_row (rows t)\<rparr>)
      | _ \<Rightarrow> Inl (IndexError ''normalize''))"

text \<open>\<open>torch.cat(ts, dim=0)\<close>: the list must not be empty, and the tensors must
  agree in their second size.\<close>

definition torch_cat :: "fl tensor2 list \<Rightarrow> error + fl tensor2" where
  "torch_cat ts =
     (case ts of
        [] \<Rightarrow> Inl (RuntimeError ''cat'')
      | t # _ \<Rightarrow>
          if \<exists>u \<in> set ts. size1 u \<noteq> size1 t then Inl (RuntimeError ''cat'')
          else Inr \<lparr>size0 = sum_list (map size0 ts), size1 = size1 t,
                    rows = concat (map rows ts)\<rparr>)"

definition torch_cat1 :: "int list list \<Rightarrow> error + int list" where
  "torch_cat1 ts = (case ts of [] \<Rightarrow> Inl (RuntimeError ''cat'') | _ \<Rightarrow> Inr (concat ts))"

text \<open>\<open>t.t()\<close> of a 2-D tensor.\<close>

definition transpose_t :: "'a tensor2 \<Rightarrow> 'a tensor2" where
  "transpose_t t = \<lparr>size0 = size1 t, size1 = size0 t,
                    rows = map (\<lambda>j. column t j) [0..<size1 t]\<rparr>"

section \<open>The monitoring module\<close>

text \<open>
  Until \<open>torch.cat\<close> has run, \<open>self.feature_bank\<close> and \<open>self.targets_bank\<close> hold
  Python lists of the batches collected so far; afterwards they hold tensors.
\<close>

datatype bank_attr = BankList "fl tensor2 list" | BankTensor "fl tensor2"

datatype targets_attr = TargetsList "int list list" | TargetsTensor "int list"

text \<open>A network is opaque but for its forward function and for the addresses
  of its parameter tensors, in the order \<open>.parameters()\<close> yields them.\<close>

record 'x network =
  forward :: "'x list \<Rightarrow> error + fl tensor2"
  parameters :: "addr list"

text \<open>
  The attributes of a \<open>BenchmarkModule\<close>.  An attribute that a method may find
  missing is an option: \<open>None\<close> when the object has no such attribute.  The
  forward function of \<open>self.resnet\<close> depends on the mode of the encoder.
  The last four fields are the part of the interpreter's state that the methods
  read and write: the gradient mode, the mode and gradient mode of every call
  of the encoder, the metrics logged, and the store of parameter tensors.
\<close>

record 'x benchmark_module =
  resnet :: "bool \<Rightarrow> 'x list \<Rightarrow> error + fl tensor2"
  resnet_training :: bool
  max_accuracy :: real
  dataloader_kNN :: "('x list \<times> int list) list"
  gpus :: int
  classes :: int
  knn_k :: int
  knn_t :: real
  feature_bank :: "bank_attr option"
  targets_bank :: "targets_attr option"
  online_resnet :: "'x network option"
  target_resnet :: "'x network option"
  predictor :: "(fl tensor2 \<Rightarrow> error + fl tensor2) option"
  mse_loss :: "(fl tensor2 \<Rightarrow> fl tensor2 \<Rightarrow> error + real) option"
  taw :: "real option"
  step :: "int option"
  total_steps :: "int option"
  grad_enabled :: bool
  encoder_calls :: "(bool \<times> bool) list"
  logged :: "(string \<times> real) list"
  heap :: store

text \<open>\<open>__init__\<close>: \<open>self.resnet\<close> is a bare \<open>nn.Module()\<close>, in training mode and
  with no forward function of its own; a subclass replaces it.\<close>

definition init ::
  "('x list \<times> int list) list \<Rightarrow> int \<Rightarrow> int \<Rightarrow> int \<Rightarrow> real \<Rightarrow> 'x benchmark_module" where
  "init dl g c k t =
     \<lparr>resnet = (\<lambda>_ _. Inl (NotImplementedError ''forward'')),
      resnet_training = True,
      max_accuracy = 0,
      dataloader_kNN = dl, gpus = g, classes = c, knn_k = k, knn_t = t,
      feature_bank = None, targets_bank = None,
      online_resnet = None, target_resnet = None, predictor = None, mse_loss = None,
      taw = None, step = None, total_steps = None,
      grad_enabled = True, encoder_calls = [], logged = [], heap = []\<rparr>"

subsection \<open>\<open>training_epoch_end\<close>: building the feature bank\<close>

text \<open>
  The loop over \<open>self.dataloader_kNN\<close>.  Moving a batch to the GPU changes where
  it is stored, not its values, so the branch on \<open>self.gpus\<close> is the identity
  here.  Both \<open>append\<close> calls need the attribute to be a list.
\<close>

fun bank_loop ::
  "'x benchmark_module \<Rightarrow> ('x list \<times> int list) list \<Rightarrow> error option \<times> 'x benchmark_module" where
  "bank_loop s [] = (None, s)"
| "bank_loop s ((img, target) # rest) =
     (let s1 = s\<lparr>encoder_calls := encoder_calls s @ [(resnet_training s, grad_enabled s)]\<rparr> in
      case resnet s1 (resnet_training s1) img of
        Inl e \<Rightarrow> (Some e, s1)
      | Inr out \<Rightarrow>
          (case normalize_dim1 (squeeze out) of
             Inl e \<Rightarrow> (Some e, s1)
           | Inr feature \<Rightarrow>
               (case feature_bank s1 of
                  Some (BankList fb) \<Rightarrow>
                    (let s2 = s1\<lparr>feature_bank := Some (BankList (fb @ [feature]))\<rparr> in
                     case targets_bank s2 of
                       Some (TargetsList tb) \<Rightarrow>
                         bank_loop (s2\<lparr>targets_bank := Some (TargetsList (tb @ [target]))\<rparr>) rest
                     | _ \<Rightarrow> (Some (AttributeError ''append''), s2))
                | _ \<Rightarrow> (Some (AttributeError ''append''), s1))))"

text \<open>
  The method: \<open>self.resnet.eval()\<close>, the two empty lists, the loop inside
  \<open>with torch.no_grad()\<close> (which restores the gradient mode when the block is
  left, also by an exception), the two concatenations, and \<open>self.resnet.train()\<close>
  as the last statement.  The first component of the result is the exception
  that left the method, if any.
\<close>

definition training_epoch_end :: "'x benchmark_module \<Rightarrow> error option \<times> 'x benchmark_module" where
  "training_epoch_end s =
     (let s1 = s\<lparr>resnet_training := False\<rparr>;
          s2 = s1\<lparr>feature_bank := Some (BankList [])\<rparr>;
          s3 = s2\<lparr>targets_bank := Some (TargetsList [])\<rparr>;
          prev = grad_enabled s3;
          (r, s4) = bank_loop (s3\<lparr>grad_enabled := False\<rparr>) (dataloader_kNN s3);
          s5 = s4\<lparr>grad_enabled := prev\<rparr>
      in case r of
           Some e \<Rightarrow> (Some e, s5)
         | None \<Rightarrow>
             (case feature_bank s5 of
                Some (BankList fb) \<Rightarrow>
                  (case torch_cat fb of
                     Inl e \<Rightarrow> (Some e, s5)
                   | Inr c \<Rightarrow>
                       (let s6 = s5\<lparr>feature_bank := Some (BankTensor (transpose_t c))\<rparr> in
                        case targets_bank s6 of
                          Some (TargetsList tb) \<Rightarrow>
                            (case torch_cat1 tb of
                               Inl e \<Rightarrow> (Some e, s6)
                             | Inr tc \<Rightarrow>
                                 (None, s6\<lparr>targets_bank := Some (TargetsTensor tc),
                                           resnet_training := True\<rparr>))
                        | _ \<Rightarrow> (Some (TypeError ''cat''), s6)))
              | _ \<Rightarrow> (Some (TypeError ''cat''), s5)))"

subsection \<open>\<open>validation_step\<close>\<close>

text \<open>\<open>(pred_labels[:, 0] == targets).float().sum().item()\<close>: the first column needs
  a column to exist; the comparison broadcasts a tensor of one element and
  refuses other lengths that differ.\<close>

definition top1_count :: "nat tensor2 \<Rightarrow> int list \<Rightarrow> error + real" where
  "top1_count pred_labels targets =
     (if size1 pred_labels = 0 then Inl (IndexError ''pred_labels'')
      else let col = map (\<lambda>r. int (r ! 0)) (rows pred_labels) in
        if length col = length targets
        then Inr (real (length (filter (\<lambda>(p, y). p = y) (zip col targets))))
        else if length targets = 1
        then Inr (real (length (filter (\<lambda>p. p = targets ! 0) col)))
        else if length col = 1
        then Inr (real (length (filter (\<lambda>y. col ! 0 = y) targets)))
        else Inl (RuntimeError ''eq''))"

text \<open>The method returns \<open>None\<close> when either attribute is missing.  Handing
  \<open>torch.mm\<close> a Python list is a type error, and a Python list of labels has no
  \<open>expand\<close>, which \<open>knn_predict\<close> finds after \<open>torch.mm\<close> and \<open>topk\<close>.  The first
  argument is the library's order among equal entries.\<close>

definition validation_step ::
  "tie_break \<Rightarrow> 'x benchmark_module \<Rightarrow> 'x list \<times> int list \<Rightarrow>
     (error + (nat \<times> real) option) \<times> 'x benchmark_module" where
  "validation_step lib s batch =
     (case (feature_bank s, targets_bank s) of
        (Some fb, Some tb) \<Rightarrow>
          (let (images, targets) = batch;
               s1 = s\<lparr>encoder_calls := encoder_calls s @ [(resnet_training s, grad_enabled s)]\<rparr>
           in case resnet s1 (resnet_training s1) images of
                Inl e \<Rightarrow> (Inl e, s1)
              | Inr out \<Rightarrow>
                  (case normalize_dim1 (squeeze out) of
                     Inl e \<Rightarrow> (Inl e, s1)
                   | Inr feature \<Rightarrow>
                       (case (fb, tb) of
                          (BankTensor bank, TargetsTensor labels) \<Rightarrow>
                            (case knn_predict lib feature bank labels (classes s1) (knn_k s1) (knn_t s1) of
                               Inl e \<Rightarrow> (Inl e, s1)
                             | Inr pred_labels \<Rightarrow>
                                 (let num = length images in
                                  case top1_count pred_labels targets of
                                    Inl e \<Rightarrow> (Inl e, s1)
                                  | Inr top1 \<Rightarrow> (Inr (Some (num, top1)), s1)))
                        | (BankTensor bank, TargetsList _) \<Rightarrow>
                            (case err_bind (torch_mm feature bank) (\<lambda>sim_matrix.
                                    topk lib sim_matrix (knn_k s1)) of
                               Inl e \<Rightarrow> (Inl e, s1)
                             | Inr _ \<Rightarrow> (Inl (AttributeError ''expand''), s1))
                        | (BankList _, _) \<Rightarrow> (Inl (TypeError ''mm''), s1))))
      | _ \<Rightarrow> (Inr None, s))"

subsection \<open>\<open>validation_epoch_end\<close>\<close>

definition validation_epoch_end ::
  "'x benchmark_module \<Rightarrow> (nat \<times> real) list \<Rightarrow> error option \<times> 'x benchmark_module" where
  "validation_epoch_end s outputs =
     (if outputs \<noteq> [] then
        let (total_num, total_top1) =
              fold (\<lambda>(num, top1) (tn, tt). (tn + num, tt + top1)) outputs (0, 0)
        in if total_num = 0 then (Some ZeroDivisionError, s)
           else let acc = total_top1 / real total_num;
                    s1 = (if acc > max_accuracy s then s\<lparr>max_accuracy := acc\<rparr> else s)
                in (None, s1\<lparr>logged := logged s1 @ [(''kNN_accuracy'', acc * 100)]\<rparr>)
      else (None, s))"

text \<open>Evaluation rounds, one after the other; a round that raises leaves the
  state as it was.\<close>

fun validation_rounds :: "'x benchmark_module \<Rightarrow> (nat \<times> real) list list \<Rightarrow> 'x benchmark_module" where
  "validation_rounds s [] = s"
| "validation_rounds s (outputs # rest) = validation_rounds (snd (validation_epoch_end s outputs)) rest"

text \<open>The words of the specification: the accuracy of a pass.\<close>

definition pass_accuracy :: "(nat \<times> real) list \<Rightarrow> real" where
  "pass_accuracy outputs = sum_list (map snd outputs) / real (sum_list (map fst outputs))"

definition valid_pass :: "(nat \<times> real) list \<Rightarrow> bool" where
  "valid_pass outputs \<longleftrightarrow>
     outputs \<noteq> [] \<and> 0 < sum_list (map fst outputs) \<and> 0 \<le> sum_list (map snd outputs)"

subsection \<open>\<open>training_step\<close>\<close>

text \<open>Reading an attribute that the object does not have raises.\<close>

definition getattr :: "string \<Rightarrow> 'a option \<Rightarrow> error + 'a" where
  "getattr name v = (case v of None \<Rightarrow> Inl (AttributeError name) | Some x \<Rightarrow> Inr x)"

text \<open>
  Parameter tensors are modelled as one-dimensional tensors.  Multiplying by a
  number and adding two tensors allocate their results.  Two tensors add when
  their sizes are equal, or when one of them has a single element, which is
  then added to every element of the other; other sizes do not add.
\<close>

definition tensor_add :: "real list \<Rightarrow> real list \<Rightarrow> error + real list" where
  "tensor_add u v =
     (if length u = length v then Inr (map2 (+) u v)
      else if length v = 1 then Inr (map (\<lambda>x. x + v ! 0) u)
      else if length u = 1 then Inr (map (\<lambda>y. u ! 0 + y) v)
      else Inl (RuntimeError ''add''))"

text \<open>
  The loop \<open>for target_params, online_params in zip(...)\<close> with its body
  \<open>target_params = target_params * self.taw + (1 - self.taw) * online_params\<close>.
  The right-hand side is a new tensor; the assignment binds the loop variable
  \<open>target_params\<close> to it.  The result is the tensor the variable names after the
  loop, and the store.
\<close>

fun ema_loop ::
  "real option \<Rightarrow> (addr \<times> addr) list \<Rightarrow> addr option \<Rightarrow> store \<Rightarrow> (error + addr option) \<times> store" where
  "ema_loop w [] target_params h = (Inr target_params, h)"
| "ema_loop w ((tp, on) # rest) target_params h =
     (case lookup h tp of
        Some (TReal1 tv) \<Rightarrow>
          (case getattr ''taw'' w of
             Inl e \<Rightarrow> (Inl e, h)
           | Inr a \<Rightarrow>
               (case lookup h on of
                  Some (TReal1 ov) \<Rightarrow>
                    (case tensor_add (map (\<lambda>x. x * a) tv) (map (\<lambda>x. (1 - a) * x) ov) of
                       Inl e \<Rightarrow> (Inl e, h)
                     | Inr v \<Rightarrow> (let (new, h') = alloc h (TReal1 v) in ema_loop w rest (Some new) h'))
                | _ \<Rightarrow> (Inl (TypeError ''mul''), h)))
      | _ \<Rightarrow> (Inl (TypeError ''mul''), h))"

text \<open>The values of the parameters of a network, read from the store.\<close>

definition parameter_values :: "store \<Rightarrow> 'x network \<Rightarrow> tval option list" where
  "parameter_values h n = map (lookup h) (parameters n)"

text \<open>
  Names: the local variables of \<open>training_step\<close> and the global names of the
  source file.  None of the interpreter's built-in names is \<open>step\<close>.
\<close>

definition training_step_locals :: "string list" where
  "training_step_locals =
     [''self'', ''batch'', ''batch_idx'', ''x1'', ''x2'', ''y'', ''z1'', ''z2'', ''p1'', ''loss'',
      ''target_params'', ''online_params'']"

definition module_globals :: "string list" where
  "module_globals =
     [''torch'', ''nn'', ''F'', ''pl'', ''math'', ''knn_predict'', ''BenchmarkModule'']"

definition lookup_name :: "string \<Rightarrow> error + unit" where
  "lookup_name name =
     (if name \<in> set training_step_locals \<or> name \<in> set module_globals then Inr ()
      else Inl (NameError name))"

text \<open>A statement that may raise: the exception leaves the method with the
  state as it is at that point.\<close>

definition or_raise :: "error + 'a \<Rightarrow> 's \<Rightarrow> ('a \<Rightarrow> (error + 'b) \<times> 's) \<Rightarrow> (error + 'b) \<times> 's" where
  "or_raise m s f = (case m of Inl e \<Rightarrow> (Inl e, s) | Inr x \<Rightarrow> f x)"

text \<open>
  The statements of \<open>training_step\<close> in order; each attribute is read where the
  source reads it.  The result is the loss or the exception, and the state at
  that point.
\<close>

definition training_step ::
  "'x benchmark_module \<Rightarrow> ('x list \<times> 'x list) \<times> int list \<Rightarrow> (error + real) \<times> 'x benchmark_module" where
  "training_step s batch =
     (let ((x1, x2), y) = batch in
      or_raise (getattr ''online_resnet'' (online_resnet s)) s (\<lambda>online.
      or_raise (forward online x1) s (\<lambda>z1.
      or_raise (getattr ''target_resnet'' (target_resnet s)) s (\<lambda>target.
      or_raise (forward target x2) s (\<lambda>z2.
      or_raise (getattr ''predictor'' (predictor s)) s (\<lambda>pred.
      or_raise (pred z1) s (\<lambda>p1.
      or_raise (getattr ''mse_loss'' (mse_loss s)) s (\<lambda>mse.
      or_raise (mse p1 z2) s (\<lambda>loss.
      let (r, h) = ema_loop (taw s) (zip (parameters target) (parameters online)) None (heap s);
          s1 = s\<lparr>heap := h\<rparr> in
      or_raise r s1 (\<lambda>target_params.
      or_raise (getattr ''taw'' (taw s1)) s1 (\<lambda>a.
      or_raise (getattr ''step'' (step s1)) s1 (\<lambda>n.
      or_raise (getattr ''total_steps'' (total_steps s1)) s1 (\<lambda>total.
      or_raise (if total = 0 then Inl ZeroDivisionError else Inr (real_of_int n / real_of_int total)) s1 (\<lambda>q.
      let s2 = s1\<lparr>taw := Some (1 - (1 - a) * (cos (pi * q) + 1) / 2)\<rparr> in
      or_raise (getattr ''step'' (step s2)) s2 (\<lambda>n'.
      let s3 = s2\<lparr>step := Some (n' + 1)\<rparr> in
      or_raise (lookup_name ''step'') s3 (\<lambda>_.
      let s4 = s3\<lparr>logged := logged s3 @ [(''train_loss'', loss)]\<rparr> in
      (Inr loss, s4)))))))))))))))))"

text \<open>A module whose training attributes are all set: two networks with one
  parameter tensor each, \<open>[1]\<close> for the target and \<open>[3]\<close> for the online network,
  and a decay of one half.\<close>

definition ex_store :: store where
  "ex_store = [TReal1 [1], TReal1 [3]]"

definition ex_target :: "nat network" where
  "ex_target = \<lparr>forward = (\<lambda>_. Inr ex_feature), parameters = [0]\<rparr>"

definition ex_online :: "nat network" where
  "ex_online = \<lparr>forward = (\<lambda>_. Inr ex_feature), parameters = [1]\<rparr>"

definition ex_training_module :: "nat benchmark_module" where
  "ex_training_module =
     (init [] 0 2 1 (1/10))
       \<lparr>online_resnet := Some ex_online, target_resnet := Some ex_target,
        predictor := Some (\<lambda>z. Inr z), mse_loss := Some (\<lambda>p z. Inr 0),
        taw := Some (1/2), step := Some 0, total_steps := Some 100, heap := ex_store\<rparr>"

section \<open>The words of the specification for the feature bank\<close>

text \<open>
  An encoder (in evaluation mode) fits a batch when it returns one embedding of
  dimension \<open>D\<close> per sample, the batch is not a single sample, and the batch has
  one label per sample.
\<close>

definition encodes :: "('x list \<Rightarrow> error + fl tensor2) \<Rightarrow> nat \<Rightarrow> 'x list \<times> int list \<Rightarrow> bool" where
  "encodes enc D b \<longleftrightarrow>
     (case enc (fst b) of
        Inl _ \<Rightarrow> False
      | Inr e \<Rightarrow> wf2 e \<and> size0 e = length (fst b) \<and> size1 e = D \<and> size0 e \<noteq> 1 \<and>
                 length (snd b) = length (fst b))"

definition bank_pre :: "'x benchmark_module \<Rightarrow> nat \<Rightarrow> bool" where
  "bank_pre s D \<longleftrightarrow>
     dataloader_kNN s \<noteq> [] \<and> D \<noteq> 1 \<and> list_all (encodes (resnet s False) D) (dataloader_kNN s)"

text \<open>The embeddings of all reference samples as the encoder returns them, in
  the order of the iterator, and their labels.\<close>

definition raw_embeddings :: "'x benchmark_module \<Rightarrow> fl list list" where
  "raw_embeddings s =
     concat (map (\<lambda>b. case resnet s False (fst b) of Inl _ \<Rightarrow> [] | Inr e \<Rightarrow> rows e)
                 (dataloader_kNN s))"

definition reference_labels :: "'x benchmark_module \<Rightarrow> int list" where
  "reference_labels s = concat (map snd (dataloader_kNN s))"

definition total_samples :: "'x benchmark_module \<Rightarrow> nat" where
  "total_samples s = sum_list (map (\<lambda>b. length (fst b)) (dataloader_kNN s))"

text \<open>The normalised embeddings of one batch.\<close>

definition batch_features :: "('x list \<Rightarrow> error + fl tensor2) \<Rightarrow> 'x list \<times> int list \<Rightarrow> fl tensor2" where
  "batch_features enc b =
     (case enc (fst b) of Inl _ \<Rightarrow> \<lparr>size0 = 0, size1 = 0, rows = []\<rparr>
      | Inr e \<Rightarrow> e\<lparr>rows := map normalize_row (rows e)\<rparr>)"

text \<open>A reference set of one batch of two samples, and an encoder that maps the
  first sample to the zero vector and the second to a unit vector.\<close>

definition ex_embeddings :: "fl tensor2" where
  "ex_embeddings = \<lparr>size0 = 2, size1 = 2, rows = [[Num 0, Num 0], [Num 1, Num 0]]\<rparr>"

definition ex_bank_module :: "nat benchmark_module" where
  "ex_bank_module = (init [([0, 2], [0, 1])] 0 2 1 (1/10))\<lparr>resnet := (\<lambda>_ _. Inr ex_embeddings)\<rparr>"

text \<open>The same encoder with an empty reference iterator, and that module
  holding a bank of no columns.\<close>

definition ex_empty_module :: "nat benchmark_module" where
  "ex_empty_module = (init [] 0 2 1 (1/10))\<lparr>resnet := (\<lambda>_ _. Inr ex_embeddings)\<rparr>"

definition ex_n0_module :: "nat benchmark_module" where
  "ex_n0_module =
     ex_empty_module\<lparr>feature_bank := Some (BankTensor \<lparr>size0 = 2, size1 = 0, rows = [[], []]\<rparr>),
                     targets_bank := Some (TargetsTensor [])\<rparr>"

text \<open>An encoder that maps the first sample to the vector \<open>(3e19, 4e19)\<close> of
  norm \<open>5e19\<close>, whose squares lie beyond single precision.\<close>

definition ex_large_embeddings :: "fl tensor2" where
  "ex_large_embeddings =
     \<lparr>size0 = 2, size1 = 2, rows = [[Num 30000000000000000000, Num 40000000000000000000], [Num 1, Num 0]]\<rparr>"

definition ex_large_module :: "nat benchmark_module" where
  "ex_large_module =
     (init [([0, 2], [0, 1])] 0 2 1 (1/10))\<lparr>resnet := (\<lambda>_ _. Inr ex_large_embeddings)\<rparr>"

section \<open>Lemmas about single-precision numbers\<close>

lemma float32_max_pos: "0 < float32_max" "1 \<le> float32_max"
  by (simp_all add: float32_max_def)

lemma float32_tiny_pos: "0 < float32_tiny" "float32_tiny \<le> 1" "float32_tiny \<le> float32_max"
  by (simp_all add: float32_tiny_def float32_max_def)

lemma float32_tiny_le_inverse: "float32_tiny \<le> 1 / float32_max"
  by (simp add: float32_tiny_def float32_max_def)

lemma round_fl_Num: "\<bar>r\<bar> \<le> float32_max \<Longrightarrow> round_fl r = Num r"
  by (auto simp: round_fl_def)

lemma cast32_Num: "float32_tiny \<le> \<bar>t\<bar> \<Longrightarrow> \<bar>t\<bar> \<le> float32_max \<Longrightarrow> cast32 t = Num t"
  by (auto simp: cast32_def round_fl_def)

lemma foldl_fadd_Num:
  "\<bar>a\<bar> + (\<Sum>x\<leftarrow>xs. \<bar>x\<bar>) \<le> float32_max \<Longrightarrow> foldl fadd (Num a) (map Num xs) = Num (a + sum_list xs)"
proof (induction xs arbitrary: a)
  case Nil
  then show ?case by simp
next
  case (Cons x xs)
  have s: "0 \<le> (\<Sum>x\<leftarrow>xs. \<bar>x\<bar>)"
    by (rule sum_list_nonneg) auto
  have "\<bar>a + x\<bar> \<le> float32_max"
    using Cons.prems s by simp
  then have r: "round_fl (a + x) = Num (a + x)"
    by (rule round_fl_Num)
  have "\<bar>a + x\<bar> + (\<Sum>x\<leftarrow>xs. \<bar>x\<bar>) \<le> float32_max"
    using Cons.prems by simp
  from Cons.IH [OF this] show ?case
    by (simp add: r add.assoc)
qed

lemma fsum_Num: "(\<Sum>x\<leftarrow>xs. \<bar>x\<bar>) \<le> float32_max \<Longrightarrow> fsum (map Num xs) = Num (sum_list xs)"
  using foldl_fadd_Num [of 0 xs] by (simp add: fsum_def)

lemma member_le_sum_list_abs: "x \<in> set xs \<Longrightarrow> \<bar>x\<bar> \<le> (\<Sum>x\<leftarrow>xs. \<bar>x :: real\<bar>)"
proof (induction xs)
  case Nil
  then show ?case by simp
next
  case (Cons y ys)
  have "0 \<le> (\<Sum>x\<leftarrow>ys. \<bar>x\<bar>)"
    by (rule sum_list_nonneg) auto
  with Cons show ?case by auto
qed

lemma map2_fmul_Num:
  "abs_dot u v \<le> float32_max \<Longrightarrow>
   map2 fmul (map Num u) (map Num v) = map Num (map2 (*) u v)"
proof (induction u arbitrary: v)
  case Nil
  then show ?case by simp
next
  case (Cons x u)
  show ?case
  proof (cases v)
    case Nil
    then show ?thesis by simp
  next
    case (Cons y v')
    have s: "0 \<le> abs_dot u v'"
      unfolding abs_dot_def by (rule sum_list_nonneg) auto
    have a: "\<bar>x * y\<bar> + abs_dot u v' \<le> float32_max"
      using Cons.prems Cons by (simp add: abs_dot_def)
    then have "round_fl (x * y) = Num (x * y)"
      using s by (intro round_fl_Num) linarith
    moreover have "map2 fmul (map Num u) (map Num v') = map Num (map2 (*) u v')"
      using a s by (intro Cons.IH) linarith
    ultimately show ?thesis
      using Cons by simp
  qed
qed

lemma fdot_Num:
  assumes "abs_dot u v \<le> float32_max"
  shows "fdot (map Num u) (map Num v) = Num (dot u v)"
proof -
  have "(\<Sum>x\<leftarrow>map2 (*) u v. \<bar>x\<bar>) = abs_dot u v"
    by (simp add: abs_dot_def comp_def case_prod_unfold)
  with assms have "fsum (map Num (map2 (*) u v)) = Num (sum_list (map2 (*) u v))"
    by (intro fsum_Num) simp
  then show ?thesis
    using assms by (simp only: fdot_def map2_fmul_Num dot_def)
qed

lemma exp_ge_two_power: "2 ^ n \<le> exp (real n)"
proof -
  have "(2::real) \<le> exp 1"
    using exp_ge_add_one_self [of 1] by simp
  then have "(2::real) ^ n \<le> exp 1 ^ n"
    by (intro power_mono) simp_all
  also have "\<dots> = exp (real n)"
    using exp_of_nat_mult [of n "1::real"] by simp
  finally show ?thesis .
qed

lemma exp_le_three_power: "exp (real n) \<le> 3 ^ n"
proof -
  have "exp (real n) = exp 1 ^ n"
    using exp_of_nat_mult [of n "1::real"] by simp
  also have "\<dots> \<le> 3 ^ n"
    using exp_le by (intro power_mono) simp_all
  finally show ?thesis .
qed

lemma exp_80: "exp 80 \<le> float32_max"
proof -
  have "exp (real 80) \<le> 3 ^ 80"
    by (rule exp_le_three_power)
  also have "(3::real) ^ 80 \<le> float32_max"
    by (simp add: float32_max_def)
  finally show ?thesis by simp
qed

lemma fexp_Num:
  assumes "float32_tiny \<le> exp x" and "exp x \<le> float32_max"
  shows "fexp (Num x) = Num (exp x)"
  using assms by simp

lemma fexp_small: "\<bar>x\<bar> \<le> 80 \<Longrightarrow> fexp (Num x) = Num (exp x)"
proof -
  assume a: "\<bar>x\<bar> \<le> 80"
  then have 1: "exp x \<le> float32_max"
    using exp_80 exp_le_cancel_iff [of x 80] by linarith
  have "exp (- x) \<le> exp (real 80)"
    using a by simp
  also have "\<dots> \<le> 3 ^ 80"
    by (rule exp_le_three_power)
  finally have "1 / 3 ^ 80 \<le> exp x"
    by (simp add: exp_minus field_simps)
  moreover have "float32_tiny \<le> 1 / 3 ^ 80"
    by (simp add: float32_tiny_def)
  ultimately have "float32_tiny \<le> exp x"
    by linarith
  with 1 show ?thesis by simp
qed


lemma fexp_underflow: "x \<le> - 150 \<Longrightarrow> fexp (Num x) = Num 0"
proof -
  assume "x \<le> - 150"
  then have "exp (real 150) \<le> exp (- x)" by simp
  with exp_ge_two_power [of 150] have "2 ^ 150 \<le> exp (- x)" by linarith
  then have "exp x \<le> 1 / 2 ^ 150"
    by (simp add: exp_minus field_simps)
  moreover have "(1::real) / 2 ^ 150 < float32_tiny"
    by (simp add: float32_tiny_def)
  moreover have "float32_tiny \<le> float32_max"
    by (rule float32_tiny_pos)
  ultimately show ?thesis by simp
qed

section \<open>Lemmas about the order of a row\<close>

lemma mset_order_desc: "mset (order_desc rank v) = mset [0..<length v]"
  by (simp add: order_desc_def)

lemma set_order_desc: "set (order_desc rank v) = {..<length v}"
  by (auto simp add: order_desc_def)

lemma length_order_desc: "length (order_desc rank v) = length v"
  by (simp add: order_desc_def)

lemma distinct_order_desc: "distinct (order_desc rank v)"
  by (simp add: order_desc_def)

lemma prod_le_fst: "(a, b) \<le> (c, d) \<Longrightarrow> a \<le> (c :: 'a :: linorder)"
  by (auto simp: less_eq_prod_def)

lemma sorted_order_desc: "sorted (map (\<lambda>j. desc_key (v ! j)) (order_desc rank v))"
proof -
  have "sorted (map (\<lambda>j. (desc_key (v ! j), rank j)) (order_desc rank v))"
    by (simp add: order_desc_def)
  then have "sorted_wrt (\<lambda>a b. (desc_key (v ! a), rank a) \<le> (desc_key (v ! b), rank b)) (order_desc rank v)"
    by (simp add: sorted_wrt_map)
  then have "sorted_wrt (\<lambda>a b. desc_key (v ! a) \<le> desc_key (v ! b)) (order_desc rank v)"
    by (rule sorted_wrt_mono_rel [rotated]) (rule prod_le_fst)
  then show ?thesis
    by (simp add: sorted_wrt_map)
qed


section \<open>Lemmas about lists and the tensor operations\<close>

lemma err_bind_Inr: "err_bind (Inr x) f = f x"
  by (simp add: err_bind_def)

lemma err_bind_Inl: "err_bind (Inl e) f = Inl e"
  by (simp add: err_bind_def)

lemma map2_map_same: "map2 f xs (map g xs) = map (\<lambda>x. f x (g x)) xs"
  by (induction xs) auto

lemma map2_map_map: "map2 f (map g xs) (map h xs) = map (\<lambda>x. f (g x) (h x)) xs"
  by (induction xs) auto

lemma map2_replicate_left: "length ys = n \<Longrightarrow> map2 f (replicate n x) ys = map (f x) ys"
  by (induction ys arbitrary: n) auto

lemma concat_rows_nth:
  "\<forall>r \<in> set xs. length r = k \<Longrightarrow> b < length xs \<Longrightarrow> j < k \<Longrightarrow> concat xs ! (b * k + j) = xs ! b ! j"
proof (induction xs arbitrary: b)
  case Nil
  then show ?case by simp
next
  case (Cons x xs)
  show ?case
  proof (cases b)
    case 0
    with Cons.prems show ?thesis by (simp add: nth_append)
  next
    case (Suc b')
    with Cons.prems have "concat xs ! (b' * k + j) = xs ! b' ! j"
      by (intro Cons.IH) auto
    with Suc Cons.prems show ?thesis by (simp add: nth_append add.assoc)
  qed
qed

lemma length_concat_rows:
  "\<forall>r \<in> set xs. length r = k \<Longrightarrow> length (concat xs) = length xs * k"
  by (induction xs) auto

lemma take_drop_concat_rows:
  "\<forall>r \<in> set xs. length r = c \<Longrightarrow> m < length xs \<Longrightarrow> take c (drop (m * c) (concat xs)) = xs ! m"
proof (induction xs arbitrary: m)
  case Nil
  then show ?case by simp
next
  case (Cons x xs)
  show ?case
  proof (cases m)
    case 0
    with Cons.prems show ?thesis by simp
  next
    case (Suc m')
    with Cons.prems have "take c (drop (m' * c) (concat xs)) = xs ! m'"
      by (intro Cons.IH) auto
    with Suc Cons.prems show ?thesis by simp
  qed
qed

lemma torch_mm_ok:
  "size1 a = size0 b \<Longrightarrow>
   torch_mm a b = Inr \<lparr>size0 = size0 a, size1 = size1 b,
     rows = map (\<lambda>r. map (\<lambda>j. fdot r (column b j)) [0..<size1 b]) (rows a)\<rparr>"
  by (simp add: torch_mm_def)

lemma topk_upt:
  assumes "0 \<le> k" and "k \<le> int n"
  shows "topk lib \<lparr>size0 = m, size1 = n, rows = map f [0..<m]\<rparr> k =
         Inr (\<lparr>size0 = m, size1 = nat k,
                rows = map (\<lambda>b. map (\<lambda>j. f b ! j) (selected_neighbors lib b (f b) (nat k))) [0..<m]\<rparr>,
              \<lparr>size0 = m, size1 = nat k,
                rows = map (\<lambda>b. selected_neighbors lib b (f b) (nat k)) [0..<m]\<rparr>)"
proof -
  have i: "map (\<lambda>b. take (nat k) (order_desc (topk_ties lib b (map f [0..<m] ! b)) (map f [0..<m] ! b)))
             [0..<m]
           = map (\<lambda>b. selected_neighbors lib b (f b) (nat k)) [0..<m]"
    by (simp add: selected_neighbors_def)
  show ?thesis
    using assms by (simp add: topk_def Let_def i map2_map_map)
qed

lemma gather_expand_ok:
  assumes "length (rows index) = size0 index"
    and "\<forall>r \<in> set (rows index). \<forall>j \<in> set r. j < length labels"
  shows "gather (expand labels (size0 index)) index =
         Inr \<lparr>size0 = size0 index, size1 = size1 index,
              rows = map (map (\<lambda>j. labels ! j)) (rows index)\<rparr>"
proof -
  have "\<not> (\<exists>r \<in> set (rows index). \<exists>j \<in> set r. length labels \<le> j)"
    using assms(2) by (auto simp: not_le)
  then show ?thesis
    using assms(1) by (simp add: gather_def expand_def map2_replicate_left)
qed

lemma zeros_ok:
  "0 \<le> m \<Longrightarrow> 0 \<le> n \<Longrightarrow>
   zeros m n = Inr \<lparr>size0 = nat m, size1 = nat n, rows = replicate (nat m) (replicate (nat n) (Num 0))\<rparr>"
  by (simp add: zeros_def)

lemma map2_fold_singleton:
  "length ls = n \<Longrightarrow>
   map2 (\<lambda>r ls. fold (\<lambda>l r'. r'[nat l := v]) ls r) (replicate n z) (map (\<lambda>x. [x]) ls)
   = map (\<lambda>l. z[nat l := v]) ls"
  by (induction ls arbitrary: n) auto

lemma scatter_zeros_ok:
  assumes "length ls = m"
    and "\<forall>l \<in> set ls. 0 \<le> l \<and> l < int c"
  shows "scatter \<lparr>size0 = m, size1 = c, rows = replicate m (replicate c (Num 0))\<rparr>
           \<lparr>size0 = m, size1 = 1, rows = map (\<lambda>x. [x]) ls\<rparr> v
         = Inr \<lparr>size0 = m, size1 = c, rows = map (\<lambda>l. (replicate c (Num 0))[nat l := v]) ls\<rparr>"
proof -
  have "\<not> (\<exists>r \<in> set (map (\<lambda>x. [x]) ls). \<exists>l \<in> set r. l < 0 \<or> int c \<le> l)"
    using assms(2) by (auto simp: not_le)
  then show ?thesis
    using assms(1) by (simp add: scatter_def map2_fold_singleton)
qed

lemma view3_ok:
  assumes "length xs = b * k" and "\<forall>r \<in> set xs. length r = c" and "0 < b" and "0 < c"
  shows "view3 \<lparr>size0 = b * k, size1 = c, rows = xs\<rparr> b (int c)
         = Inr (map (\<lambda>i. map (\<lambda>j. xs ! (i * k + j)) [0..<k]) [0..<b])"
proof -
  have d: "(b * k * c) div (b * c) = k"
    using assms(3,4) by simp
  have m: "(b * k * c) mod (b * c) = 0"
    by (simp add: mult.assoc mult.left_commute)
  have lt: "i * k + j < length xs" if "i < b" "j < k" for i j
  proof -
    have "i * k + j < i * k + k" using that by simp
    also have "\<dots> = Suc i * k" by simp
    also have "\<dots> \<le> b * k" using that by (intro mult_le_mono1) simp
    finally show ?thesis using assms(1) by simp
  qed
  have "map (\<lambda>i. map (\<lambda>j. take c (drop ((i * k + j) * c) (concat xs))) [0..<k]) [0..<b]
        = map (\<lambda>i. map (\<lambda>j. xs ! (i * k + j)) [0..<k]) [0..<b]"
    using assms(2) lt by (auto simp: take_drop_concat_rows)
  then show ?thesis
    using assms(3,4) d m by (simp add: view3_def Let_def)
qed

lemma length_similarity_fl: "length (similarity_fl feature bank b) = size1 bank"
  by (simp add: similarity_fl_def)

lemma length_selected_neighbors:
  "k \<le> length sims \<Longrightarrow> length (selected_neighbors lib b sims k) = k"
  by (simp add: selected_neighbors_def length_order_desc)

lemma set_selected_neighbors: "set (selected_neighbors lib b sims k) \<subseteq> {..<length sims}"
  using set_take_subset [of k "order_desc (topk_ties lib b sims) sims"]
  by (simp add: selected_neighbors_def set_order_desc)

lemma distinct_selected_neighbors: "distinct (selected_neighbors lib b sims k)"
  by (simp add: selected_neighbors_def distinct_order_desc)

text \<open>the votes of one query: column sums of the weighted one-hot rows\<close>

lemma vote_sum:
  assumes "length nbrs = k" and "\<forall>j \<in> set nbrs. 0 \<le> labels ! j" and "l < c"
  shows "fsum (map (\<lambda>r. r ! l)
           (map2 (\<lambda>r x. map (\<lambda>y. fmul y x) r)
              (map (\<lambda>j. (replicate c (Num 0))[nat (labels ! (nbrs ! j)) := Num 1]) [0..<k])
              (map (weight_fl t) (map (\<lambda>j. sims ! j) nbrs))))
         = score_fl sims labels t nbrs l"
proof -
  have nb: "map (\<lambda>j. sims ! j) nbrs = map (\<lambda>j. sims ! (nbrs ! j)) [0..<k]"
    using assms(1) by (simp add: list_eq_iff_nth_eq)
  have cell: "fmul (((replicate c (Num 0))[nat (labels ! (nbrs ! j)) := Num 1]) ! l)
                   (weight_fl t (sims ! (nbrs ! j)))
              = fmul (if labels ! (nbrs ! j) = int l then Num 1 else Num 0)
                     (weight_fl t (sims ! (nbrs ! j)))"
    if "j < k" for j
  proof -
    have "0 \<le> labels ! (nbrs ! j)" using assms(1,2) that by simp
    then have "nat (labels ! (nbrs ! j)) = l \<longleftrightarrow> labels ! (nbrs ! j) = int l" by auto
    then show ?thesis using assms(3) by (simp add: nth_list_update)
  qed
  have "map (\<lambda>r. r ! l)
           (map2 (\<lambda>r x. map (\<lambda>y. fmul y x) r)
              (map (\<lambda>j. (replicate c (Num 0))[nat (labels ! (nbrs ! j)) := Num 1]) [0..<k])
              (map (weight_fl t) (map (\<lambda>j. sims ! j) nbrs)))
        = map (\<lambda>j. fmul (((replicate c (Num 0))[nat (labels ! (nbrs ! j)) := Num 1]) ! l)
                         (weight_fl t (sims ! (nbrs ! j)))) [0..<k]"
    using assms(3) by (simp add: nb map2_map_map comp_def)
  also have "\<dots> = map (\<lambda>j. fmul (if labels ! (nbrs ! j) = int l then Num 1 else Num 0)
                         (weight_fl t (sims ! (nbrs ! j)))) [0..<k]"
    using cell by (intro map_cong) auto
  also have "\<dots> = map (\<lambda>n. fmul (if labels ! n = int l then Num 1 else Num 0) (weight_fl t (sims ! n)))
                      (map (\<lambda>j. nbrs ! j) [0..<k])"
    by (simp add: comp_def)
  also have "map (\<lambda>j. nbrs ! j) [0..<k] = nbrs"
    using assms(1) map_nth [of nbrs] by simp
  finally show ?thesis by (simp add: score_fl_def)
qed

lemma knn_predict_rows:
  assumes len: "length (rows feature) = size0 feature"
    and inner: "size1 feature = size0 bank"
    and lab_len: "length labels = size1 bank"
    and lab_rng: "\<forall>l \<in> set labels. 0 \<le> l \<and> l < cls"
    and k0: "0 \<le> k" and kN: "k \<le> int (size1 bank)"
    and B0: "0 < size0 feature" and C0: "0 < cls"
  shows "knn_predict lib feature bank labels cls k t =
         Inr \<lparr>size0 = size0 feature, size1 = nat cls,
              rows = map (\<lambda>b. order_desc
                                 (argsort_ties lib b (scores_fl lib feature bank labels (nat cls) (nat k) t b))
                                 (scores_fl lib feature bank labels (nat cls) (nat k) t b))
                         [0..<size0 feature]\<rparr>"
proof -
  define B where "B = size0 feature"
  define N where "N = size1 bank"
  define K where "K = nat k"
  define C where "C = nat cls"
  define sims where "sims = similarity_fl feature bank"
  define nb where "nb = (\<lambda>b. selected_neighbors lib b (sims b) K)"
  have KN: "K \<le> N" using k0 kN by (simp add: K_def N_def)
  have len_sims: "length (sims b) = N" for b
    by (simp add: sims_def N_def length_similarity_fl)
  have len_nb: "length (nb b) = K" for b
    using KN by (simp add: nb_def length_selected_neighbors len_sims)
  have nb_lt: "j < N" if "j \<in> set (nb b)" for j b
    using set_selected_neighbors [of lib b "sims b" K] that by (auto simp: nb_def len_sims)
  have Cpos: "0 < C" using C0 by (simp add: C_def)
  have Bpos: "0 < B" using B0 by (simp add: B_def)
  have intC: "int C = cls" using C0 by (simp add: C_def)
  have feat: "rows feature = map (\<lambda>b. rows feature ! b) [0..<B]"
    using len map_nth [of "rows feature"] by (simp add: B_def)
  \<comment> \<open>similarity\<close>
  define SM where "SM = \<lparr>size0 = B, size1 = N, rows = map sims [0..<B]\<rparr>"
  have "map (\<lambda>r. map (\<lambda>j. fdot r (column bank j)) [0..<N]) (rows feature) = map sims [0..<B]"
    by (subst feat) (simp add: sims_def similarity_fl_def N_def comp_def)
  then have s1: "torch_mm feature bank = Inr SM"
    using inner by (simp add: torch_mm_ok SM_def B_def N_def)
  \<comment> \<open>neighbours\<close>
  define W where "W = \<lparr>size0 = B, size1 = K, rows = map (\<lambda>b. map (\<lambda>j. sims b ! j) (nb b)) [0..<B]\<rparr>"
  define I where "I = \<lparr>size0 = B, size1 = K, rows = map nb [0..<B]\<rparr>"
  have s2: "topk lib SM k = Inr (W, I)"
    unfolding SM_def W_def I_def K_def nb_def
    using k0 kN by (intro topk_upt) (simp_all add: N_def)
  \<comment> \<open>labels\<close>
  define Lb where "Lb = \<lparr>size0 = B, size1 = K, rows = map (\<lambda>b. map (\<lambda>j. labels ! j) (nb b)) [0..<B]\<rparr>"
  have "gather (expand labels (size0 I)) I =
        Inr \<lparr>size0 = size0 I, size1 = size1 I, rows = map (map (\<lambda>j. labels ! j)) (rows I)\<rparr>"
    using nb_lt lab_len by (intro gather_expand_ok) (auto simp: I_def N_def)
  then have s3: "gather (expand labels B) I = Inr Lb"
    by (simp add: I_def Lb_def comp_def)
  \<comment> \<open>one-hot rows\<close>
  define L where "L = concat (rows Lb)"
  have rows_Lb: "\<forall>r \<in> set (rows Lb). length r = K"
    by (auto simp: Lb_def len_nb)
  have len_L: "length L = B * K"
    using length_concat_rows [OF rows_Lb] by (simp add: L_def Lb_def)
  have L_rng: "\<forall>l \<in> set L. 0 \<le> l \<and> l < cls"
    using lab_rng nb_lt lab_len by (auto simp: L_def Lb_def N_def)
  have L_nth: "L ! (b * K + j) = labels ! (nb b ! j)" if "b < B" "j < K" for b j
  proof -
    have "L ! (b * K + j) = rows Lb ! b ! j"
      unfolding L_def using rows_Lb that by (intro concat_rows_nth) (auto simp: Lb_def)
    then show ?thesis using that by (simp add: Lb_def len_nb)
  qed
  define Z where "Z = \<lparr>size0 = B * K, size1 = C, rows = replicate (B * K) (replicate C (Num 0))\<rparr>"
  have "nat (int B * k) = B * K"
    by (simp add: K_def nat_mult_distrib)
  then have s4: "zeros (int B * k) cls = Inr Z"
    using k0 C0 by (simp add: zeros_ok Z_def C_def)
  have s5: "view_col Lb = \<lparr>size0 = B * K, size1 = 1, rows = map (\<lambda>x. [x]) L\<rparr>"
    by (simp add: view_col_def Lb_def L_def)
  define onehot where "onehot = (\<lambda>l. (replicate C (Num 0))[nat l := Num 1])"
  define OH where "OH = \<lparr>size0 = B * K, size1 = C, rows = map onehot L\<rparr>"
  have s6: "scatter Z (view_col Lb) (Num 1) = Inr OH"
    unfolding s5 Z_def OH_def onehot_def
    using len_L L_rng by (intro scatter_zeros_ok) (auto simp: intC)
  define O3 where "O3 = map (\<lambda>b. map (\<lambda>j. onehot (labels ! (nb b ! j))) [0..<K]) [0..<B]"
  have lt: "b * K + j < B * K" if "b < B" "j < K" for b j
  proof -
    have "b * K + j < Suc b * K" using that by simp
    also have "\<dots> \<le> B * K" using that by (intro mult_le_mono1) simp
    finally show ?thesis .
  qed
  have "view3 \<lparr>size0 = B * K, size1 = C, rows = map onehot L\<rparr> B (int C)
        = Inr (map (\<lambda>i. map (\<lambda>j. map onehot L ! (i * K + j)) [0..<K]) [0..<B])"
    using len_L Bpos Cpos by (intro view3_ok) (auto simp: onehot_def)
  moreover have "map (\<lambda>i. map (\<lambda>j. map onehot L ! (i * K + j)) [0..<K]) [0..<B] = O3"
    unfolding O3_def using lt len_L L_nth by (auto simp: nth_map)
  ultimately have s7: "view3 OH B cls = Inr O3"
    by (simp add: OH_def intC)
  define W' where "W' = tmap (weight_fl t) W"
  have rows_W': "rows W' = map (\<lambda>b. map (weight_fl t) (map (\<lambda>j. sims b ! j) (nb b))) [0..<B]"
    by (simp add: W'_def tmap_def W_def comp_def)
  define SC where "SC = \<lparr>size0 = B, size1 = C,
                  rows = map (scores_fl lib feature bank labels C K t) [0..<B]\<rparr>"
  have score: "sum_dim1 C (mul_unsqueeze O3 W') = SC"
  proof -
    have lab0: "\<forall>j \<in> set (nb b). 0 \<le> labels ! j" for b
      using nb_lt lab_rng lab_len by (auto simp: N_def)
    have "map (\<lambda>l. fsum (map (\<lambda>r. r ! l)
             (map2 (\<lambda>r x. map (\<lambda>y. fmul y x) r)
                (map (\<lambda>j. (replicate C (Num 0))[nat (labels ! (nb b ! j)) := Num 1]) [0..<K])
                (map (weight_fl t) (map (\<lambda>j. sims b ! j) (nb b)))))) [0..<C]
          = scores_fl lib feature bank labels C K t b" for b
      unfolding scores_fl_def Let_def
      using vote_sum [OF len_nb lab0]
      by (intro map_cong) (auto simp: nb_def sims_def)
    then show ?thesis
      by (simp add: sum_dim1_def mul_unsqueeze_def O3_def rows_W' map2_map_map onehot_def comp_def SC_def)
  qed
  have w: "tmap (\<lambda>s. fexp (fdiv s (cast32 t))) W = W'"
    by (simp add: W'_def weight_fl_def [abs_def])
  have a: "argsort lib SC = \<lparr>size0 = B, size1 = C,
              rows = map (\<lambda>b. order_desc (argsort_ties lib b (scores_fl lib feature bank labels C K t b))
                                 (scores_fl lib feature bank labels C K t b)) [0..<B]\<rparr>"
    by (simp add: argsort_def SC_def)
  show ?thesis
    unfolding knn_predict_def
    by (simp add: s1 err_bind_Inr s2 s3 s4 s6 s7 Let_def w score a
        B_def [symmetric] C_def [symmetric] K_def [symmetric])
qed

lemma knn_pre_rows:
  assumes "knn_pre feature bank labels cls k"
  shows "knn_predict lib feature bank labels cls k t =
         Inr \<lparr>size0 = size0 feature, size1 = nat cls,
              rows = map (\<lambda>b. order_desc
                                 (argsort_ties lib b (scores_fl lib feature bank labels (nat cls) (nat k) t b))
                                 (scores_fl lib feature bank labels (nat cls) (nat k) t b))
                         [0..<size0 feature]\<rparr>"
  using assms unfolding knn_pre_def wf2_def labels_in_range_def
  by (intro knn_predict_rows) auto

lemma knn_predict_mm_error:
  "size1 feature \<noteq> size0 bank \<Longrightarrow>
   knn_predict lib feature bank labels cls k t = Inl (RuntimeError ''mm'')"
  by (simp add: knn_predict_def torch_mm_def err_bind_Inl)

lemma knn_predict_topk_error:
  "size1 feature = size0 bank \<Longrightarrow> k < 0 \<or> int (size1 bank) < k \<Longrightarrow>
   knn_predict lib feature bank labels cls k t = Inl (RuntimeError ''topk'')"
  by (simp add: knn_predict_def torch_mm_def err_bind_Inr topk_def err_bind_Inl)

lemma knn_pre_not_error:
  "knn_pre feature bank labels cls k \<Longrightarrow> \<not> isl (knn_predict lib feature bank labels cls k t)"
  by (simp add: knn_pre_rows)

section \<open>The classifier inside single precision\<close>

lemma exp_range_abs:
  assumes "float32_tiny \<le> exp x" and "exp x \<le> float32_max"
  shows "\<bar>x\<bar> \<le> float32_max"
proof -
  have "x \<le> exp x"
    using exp_ge_add_one_self [of x] by linarith
  then have up: "x \<le> float32_max"
    using assms(2) by simp
  have "- 150 \<le> x"
  proof (rule ccontr)
    assume "\<not> - 150 \<le> x"
    then have "x \<le> - 150" by simp
    then have "fexp (Num x) = Num 0"
      by (rule fexp_underflow)
    moreover have "fexp (Num x) = Num (exp x)"
      using assms by (rule fexp_Num)
    ultimately have "exp x = 0" by simp
    then show False by simp
  qed
  moreover have "(150::real) \<le> float32_max"
    by (simp add: float32_max_def)
  ultimately show ?thesis
    using up by simp
qed

lemma weight_fl_Num:
  assumes "float32_tiny \<le> \<bar>t\<bar>" and "\<bar>t\<bar> \<le> float32_max"
    and "float32_tiny \<le> exp (s / t)" and "exp (s / t) \<le> float32_max"
  shows "weight_fl t (Num s) = Num (exp (s / t))"
proof -
  have t0: "t \<noteq> 0"
    using assms(1) float32_tiny_pos(1) by auto
  have "round_fl (s / t) = Num (s / t)"
    using assms(3,4) by (intro round_fl_Num exp_range_abs)
  then show ?thesis
    using assms t0 by (simp add: weight_fl_def cast32_Num)
qed

lemma rows_tmap: "rows (tmap f t) = map (map f) (rows t)"
  by (simp add: tmap_def)

lemma column_tmap:
  assumes "\<forall>r \<in> set (rows t). length r = size1 t" and "j < size1 t"
  shows "column (tmap f t) j = map f (column t j)"
  using assms by (simp add: column_def tmap_def)

lemma similarity_fl_Num:
  assumes "wf2 f" and "wf2 bk" and "b < size0 f"
    and "\<forall>j < size1 bk. abs_dot (rows f ! b) (column bk j) \<le> float32_max"
  shows "similarity_fl (tmap Num f) (tmap Num bk) b = map Num (similarity_row f bk b)"
proof -
  have r: "rows (tmap Num f) ! b = map Num (rows f ! b)"
    using assms(1,3) by (simp add: rows_tmap wf2_def)
  have c: "column (tmap Num bk) j = map Num (column bk j)" if "j < size1 bk" for j
    using assms(2) that by (intro column_tmap) (simp_all add: wf2_def)
  have "fdot (rows (tmap Num f) ! b) (column (tmap Num bk) j)
        = Num (dot (rows f ! b) (column bk j))" if "j < size1 bk" for j
    using that assms(4) by (simp add: r c fdot_Num)
  then show ?thesis
    by (simp add: similarity_fl_def similarity_row_def tmap_def)
qed

lemma sum_list_subseq_le:
  assumes "distinct ns" and "set ns \<subseteq> {..<n}" and "\<And>j. 0 \<le> g j"
  shows "(\<Sum>j\<leftarrow>ns. g j) \<le> (\<Sum>j\<leftarrow>[0..<n]. (g j :: real))"
proof -
  have "(\<Sum>j\<leftarrow>ns. g j) = sum g (set ns)"
    using assms(1) by (rule sum_list_distinct_conv_sum_set)
  also have "\<dots> \<le> sum g {..<n}"
    using assms(2,3) by (intro sum_mono2) auto
  also have "\<dots> = (\<Sum>j\<leftarrow>[0..<n]. g j)"
    by (simp add: interv_sum_list_conv_sum_set_nat lessThan_atLeast0)
  finally show ?thesis .
qed

lemma score_fl_Num:
  assumes t: "float32_tiny \<le> \<bar>t\<bar>" "\<bar>t\<bar> \<le> float32_max"
    and nb: "set nbrs \<subseteq> {..<length sims}"
    and w: "\<forall>j \<in> set nbrs. float32_tiny \<le> exp (sims ! j / t)"
    and tot: "(\<Sum>j\<leftarrow>nbrs. exp (sims ! j / t)) \<le> float32_max"
  shows "score_fl (map Num sims) labels t nbrs c = Num (class_score sims labels t nbrs c)"
proof -
  let ?w = "\<lambda>j. exp (sims ! j / t)"
  have le: "?w j \<le> float32_max" if "j \<in> set nbrs" for j
  proof -
    have "?w j \<in> ?w ` set nbrs"
      using that by (rule imageI)
    then have "?w j \<in> set (map ?w nbrs)"
      by simp
    then have "\<bar>?w j\<bar> \<le> (\<Sum>x\<leftarrow>map ?w nbrs. \<bar>x\<bar>)"
      by (rule member_le_sum_list_abs)
    also have "\<dots> = (\<Sum>j\<leftarrow>nbrs. ?w j)"
      by (simp add: comp_def)
    finally show ?thesis using tot by simp
  qed
  have wt: "weight_fl t (map Num sims ! j) = Num (?w j)" if "j \<in> set nbrs" for j
  proof -
    have "j < length sims" using nb that by auto
    then show ?thesis
      using that t w le by (simp add: weight_fl_Num)
  qed
  have cell: "fmul (if labels ! j = int c then Num 1 else Num 0) (weight_fl t (map Num sims ! j))
              = Num (if labels ! j = int c then ?w j else 0)" if "j \<in> set nbrs" for j
    using wt [OF that] le [OF that] float32_max_pos(1) by (simp add: round_fl_Num)
  have m: "map (\<lambda>j. fmul (if labels ! j = int c then Num 1 else Num 0) (weight_fl t (map Num sims ! j))) nbrs
        = map Num (map (\<lambda>j. if labels ! j = int c then ?w j else 0) nbrs)"
    using cell by (simp add: comp_def)
  have "(\<Sum>x\<leftarrow>map (\<lambda>j. if labels ! j = int c then ?w j else 0) nbrs. \<bar>x\<bar>)
          = (\<Sum>j\<leftarrow>nbrs. \<bar>if labels ! j = int c then ?w j else 0\<bar>)"
    by (simp add: comp_def)
  also have "\<dots> \<le> (\<Sum>j\<leftarrow>nbrs. ?w j)"
    by (intro sum_list_mono) simp
  finally have "(\<Sum>x\<leftarrow>map (\<lambda>j. if labels ! j = int c then ?w j else 0) nbrs. \<bar>x\<bar>) \<le> float32_max"
    using tot by simp
  then have "fsum (map Num (map (\<lambda>j. if labels ! j = int c then ?w j else 0) nbrs))
             = Num (sum_list (map (\<lambda>j. if labels ! j = int c then ?w j else 0) nbrs))"
    by (rule fsum_Num)
  then show ?thesis
    unfolding score_fl_def class_score_def m .
qed

lemma length_similarity_row: "length (similarity_row feature bank b) = size1 bank"
  by (simp add: similarity_row_def)

lemma wf2_tmap: "wf2 (tmap f t) \<longleftrightarrow> wf2 t"
  by (auto simp: wf2_def tmap_def)

lemma knn_pre_tmap:
  "knn_pre (tmap g f) (tmap h bk) labels cls k \<longleftrightarrow> knn_pre f bk labels cls k"
  by (simp add: knn_pre_def wf2_tmap) (simp add: tmap_def)

lemma scores_fl_Num:
  assumes pre: "knn_pre f bk labels cls k" and safe: "float_safe f bk t" and b: "b < size0 f"
  shows "scores_fl lib (tmap Num f) (tmap Num bk) labels c (nat k) t b
         = map Num (map (class_score (similarity_row f bk b) labels t
              (selected_neighbors lib b (map Num (similarity_row f bk b)) (nat k))) [0..<c])"
proof -
  let ?sims = "similarity_row f bk b"
  let ?nbrs = "selected_neighbors lib b (map Num ?sims) (nat k)"
  have wf: "wf2 f" "wf2 bk"
    using pre by (simp_all add: knn_pre_def)
  have t: "float32_tiny \<le> \<bar>t\<bar>" "\<bar>t\<bar> \<le> float32_max"
    using safe float32_tiny_le_inverse by (simp_all add: float_safe_def)
  have dots: "\<forall>j < size1 bk. abs_dot (rows f ! b) (column bk j) \<le> float32_max"
    and tiny: "\<forall>j < size1 bk. float32_tiny \<le> exp (?sims ! j / t)"
    and tot: "(\<Sum>j\<leftarrow>[0..<size1 bk]. exp (?sims ! j / t)) \<le> float32_max"
    using safe b by (simp_all add: float_safe_def)
  have sim: "similarity_fl (tmap Num f) (tmap Num bk) b = map Num ?sims"
    using wf b dots by (rule similarity_fl_Num)
  have nb: "set ?nbrs \<subseteq> {..<length ?sims}"
    using set_selected_neighbors [of lib b "map Num ?sims" "nat k"] by simp
  then have nbN: "set ?nbrs \<subseteq> {..<size1 bk}"
    by (simp add: length_similarity_row)
  have w: "\<forall>j \<in> set ?nbrs. float32_tiny \<le> exp (?sims ! j / t)"
    using tiny nbN by auto
  have "(\<Sum>j\<leftarrow>?nbrs. exp (?sims ! j / t)) \<le> (\<Sum>j\<leftarrow>[0..<size1 bk]. exp (?sims ! j / t))"
    using nbN by (intro sum_list_subseq_le distinct_selected_neighbors) simp_all
  then have tot': "(\<Sum>j\<leftarrow>?nbrs. exp (?sims ! j / t)) \<le> float32_max"
    using tot by simp
  have "score_fl (map Num ?sims) labels t ?nbrs c' = Num (class_score ?sims labels t ?nbrs c')" for c'
    using t nb w tot' by (rule score_fl_Num)
  then show ?thesis
    by (simp add: scores_fl_def sim Let_def)
qed




section \<open>The small bank\<close>

lemma upt2: "[0..<2] = [0, 1]"
  by (simp add: upt_rec)

lemma upt3: "[0..<3] = [0, 1, 2]"
  by (simp add: numeral_3_eq_3)

lemma order_desc_pair:
  "order_desc (\<lambda>_. 0) [x, y] = (if desc_key x \<le> desc_key y then [0, 1] else [1, 0])"
  by (auto simp: order_desc_def upt2 less_eq_prod_def less_prod_def)

lemma stable_ties_rank:
  "topk_ties stable_ties b v = (\<lambda>_. 0)" "argsort_ties stable_ties b v = (\<lambda>_. 0)"
  by (simp_all add: stable_ties_def)

lemma ex_similarity_row: "similarity_row ex_query ex_columns 0 = [1, 0, 3/5]"
  by (simp add: similarity_row_def ex_query_def ex_columns_def dot_def column_def upt3)

lemma ex_knn_pre: "knn_pre ex_query ex_columns [0, 1, 1] 2 k \<longleftrightarrow> 0 \<le> k \<and> k \<le> 3"
  by (auto simp: knn_pre_def wf2_def labels_in_range_def ex_query_def ex_columns_def)

lemma ex_knn_pre_fl: "knn_pre ex_feature ex_bank [0, 1, 1] 2 k \<longleftrightarrow> 0 \<le> k \<and> k \<le> 3"
  by (simp add: ex_feature_def ex_bank_def knn_pre_tmap ex_knn_pre)

lemma ex_abs_dot:
  "j < 3 \<Longrightarrow> abs_dot (rows ex_query ! 0) (column ex_columns j) \<le> 1"
proof -
  assume "j < 3"
  then have "j = 0 \<or> j = 1 \<or> j = 2" by auto
  then show ?thesis
    by (auto simp: abs_dot_def ex_query_def ex_columns_def column_def)
qed

lemma exp_10: "exp (10::real) \<le> 3 ^ 10"
  using exp_le_three_power [of 10] by simp

lemma exp_6: "exp (6::real) \<le> 3 ^ 6"
  using exp_le_three_power [of 6] by simp

lemma float32_tiny_le_exp: "0 \<le> x \<Longrightarrow> float32_tiny \<le> exp x"
proof -
  assume "0 \<le> x"
  then have "1 \<le> exp x" by simp
  with float32_tiny_pos(2) show ?thesis by linarith
qed

lemma float32_tiny_le_exp_neg: "- 80 \<le> x \<Longrightarrow> x \<le> 0 \<Longrightarrow> float32_tiny \<le> exp x"
proof -
  assume "- 80 \<le> x" "x \<le> 0"
  then have "fexp (Num x) = Num (exp x)"
    by (intro fexp_small) simp
  then show ?thesis
    by (simp split: if_splits)
qed

lemma ex_float_safe: "float_safe ex_query ex_columns (1/10)"
proof -
  have t: "1 / float32_max \<le> \<bar>1/10 :: real\<bar>" "\<bar>1/10 :: real\<bar> \<le> float32_max"
    by (simp_all add: float32_max_def)
  have d: "\<forall>j < 3. abs_dot (rows ex_query ! 0) (column ex_columns j) \<le> float32_max"
    using ex_abs_dot float32_max_pos(2) by fastforce
  have w: "\<forall>j < 3. float32_tiny \<le> exp ([1, 0, 3/5] ! j / (1/10 :: real))"
  proof (intro allI impI)
    fix j :: nat assume "j < 3"
    then have "j = 0 \<or> j = 1 \<or> j = 2" by auto
    then show "float32_tiny \<le> exp ([1, 0, 3/5] ! j / (1/10 :: real))"
      by (auto intro!: float32_tiny_le_exp)
  qed
  have "exp 10 + (1 + exp 6) \<le> 3 ^ 10 + (1 + 3 ^ 6 :: real)"
    using exp_10 exp_6 by linarith
  also have "\<dots> \<le> float32_max"
    by (simp add: float32_max_def)
  finally have s: "(\<Sum>j\<leftarrow>[0..<3]. exp ([1, 0, 3/5] ! j / (1/10 :: real))) \<le> float32_max"
    by (simp add: upt3)
  have sz: "size0 ex_query = 1" "size1 ex_columns = 3"
    by (simp_all add: ex_query_def ex_columns_def)
  show ?thesis
    unfolding float_safe_def sz
    using t d w s by (simp add: ex_similarity_row)
qed

lemma ex_float_safe_neg: "float_safe ex_query ex_columns (- 1)"
proof -
  have t: "1 / float32_max \<le> \<bar>- 1 :: real\<bar>" "\<bar>- 1 :: real\<bar> \<le> float32_max"
    by (simp_all add: float32_max_def)
  have d: "\<forall>j < 3. abs_dot (rows ex_query ! 0) (column ex_columns j) \<le> float32_max"
    using ex_abs_dot float32_max_pos(2) by fastforce
  have w: "\<forall>j < 3. float32_tiny \<le> exp ([1, 0, 3/5] ! j / (- 1 :: real))"
  proof (intro allI impI)
    fix j :: nat assume "j < 3"
    then have "j = 0 \<or> j = 1 \<or> j = 2" by auto
    then show "float32_tiny \<le> exp ([1, 0, 3/5] ! j / (- 1 :: real))"
      by (auto intro!: float32_tiny_le_exp_neg)
  qed
  have "exp (- 1) + (1 + exp (- (3/5))) \<le> (1 + (1 + 1) :: real)"
    by (intro add_mono) simp_all
  also have "\<dots> \<le> float32_max"
    by (simp add: float32_max_def)
  finally have s: "(\<Sum>j\<leftarrow>[0..<3]. exp ([1, 0, 3/5] ! j / (- 1 :: real))) \<le> float32_max"
    by (simp add: upt3)
  have sz: "size0 ex_query = 1" "size1 ex_columns = 3"
    by (simp_all add: ex_query_def ex_columns_def)
  show ?thesis
    unfolding float_safe_def sz
    using t d w s by (simp add: ex_similarity_row)
qed

lemma ex_neighbors:
  "selected_neighbors stable_ties 0 [Num 1, Num 0, Num (3/5)] 2 = [0, 2]"
  "selected_neighbors stable_ties 0 [Num 1, Num 0, Num (3/5)] 1 = [0]"
  by (simp_all add: selected_neighbors_def order_desc_def stable_ties_def upt3 less_eq_prod_def)

lemma ex_scores:
  assumes "float_safe ex_query ex_columns t"
  shows "scores_fl stable_ties ex_feature ex_bank [0, 1, 1] 2 2 t 0
         = [Num (exp (1 / t)), Num (exp (3 / 5 / t))]"
proof -
  have pre: "knn_pre ex_query ex_columns [0, 1, 1] 2 2"
    by (simp add: ex_knn_pre)
  have b: "0 < size0 ex_query"
    by (simp add: ex_query_def)
  have "scores_fl stable_ties ex_feature ex_bank [0, 1, 1] 2 (nat 2) t 0
         = [Num (exp (1 / t)), Num (exp (3 / 5 / t))]"
    unfolding ex_feature_def ex_bank_def scores_fl_Num [OF pre assms b]
    by (simp add: ex_similarity_row ex_neighbors class_score_def upt2)
  then show ?thesis by simp
qed

lemma ex_knn_negative:
  "knn_predict stable_ties ex_feature ex_bank [0, 1, 1] 2 2 (- 1)
   = Inr \<lparr>size0 = 1, size1 = 2, rows = [[1, 0]]\<rparr>"
proof -
  have s0: "size0 ex_feature = 1"
    by (simp add: ex_feature_def ex_query_def tmap_def)
  have "knn_pre ex_feature ex_bank [0, 1, 1] 2 2"
    by (simp add: ex_knn_pre_fl)
  from knn_pre_rows [OF this, of stable_ties "- 1"] show ?thesis
    by (simp add: s0 ex_scores [OF ex_float_safe_neg] stable_ties_rank order_desc_pair less_eq_prod_def)
qed

lemma ex_knn_positive:
  "knn_predict stable_ties ex_feature ex_bank [0, 1, 1] 2 2 (1/10)
   = Inr \<lparr>size0 = 1, size1 = 2, rows = [[0, 1]]\<rparr>"
proof -
  have s0: "size0 ex_feature = 1"
    by (simp add: ex_feature_def ex_query_def tmap_def)
  have "knn_pre ex_feature ex_bank [0, 1, 1] 2 2"
    by (simp add: ex_knn_pre_fl)
  from knn_pre_rows [OF this, of stable_ties "1/10"] show ?thesis
    by (simp add: s0 ex_scores [OF ex_float_safe] stable_ties_rank order_desc_pair less_eq_prod_def)
qed


section \<open>Beyond single precision\<close>














lemma ex_feature_size0: "size0 ex_feature = 1"
  by (simp add: ex_feature_def ex_query_def tmap_def)




section \<open>Every descending order is the order of some rank\<close>

lemma filter_eq_single:
  "distinct l \<Longrightarrow> k \<in> set l \<Longrightarrow> (\<And>x. x \<in> set l \<Longrightarrow> P x \<longleftrightarrow> x = k) \<Longrightarrow> filter P l = [k]"
proof (induction l)
  case Nil
  then show ?case by simp
next
  case (Cons a l)
  show ?case
  proof (cases "a = k")
    case True
    with Cons.prems have "\<forall>x \<in> set l. \<not> P x" by auto
    then have "filter P l = []" by (simp add: filter_empty_conv)
    with True Cons.prems show ?thesis by simp
  next
    case False
    with Cons.prems have "filter P l = [k]"
      by (intro Cons.IH) auto
    with False Cons.prems show ?thesis by auto
  qed
qed

lemma position_nth:
  assumes "distinct p" and "i < length p"
  shows "length (takeWhile (\<lambda>x. x \<noteq> p ! i) p) = i"
proof -
  have "takeWhile (\<lambda>x. x \<noteq> p ! i) p = take i p"
    using assms by (intro takeWhile_eq_take_P_nth) (auto simp: nth_eq_iff_index_eq)
  then show ?thesis using assms by simp
qed

lemma order_desc_complete:
  assumes perm: "mset p = mset [0..<length v]"
    and desc: "sorted (map (\<lambda>j. desc_key (v ! j)) p)"
  shows "\<exists>rank. order_desc rank v = p"
proof -
  define rank where "rank = (\<lambda>j. length (takeWhile (\<lambda>x. x \<noteq> j) p))"
  define key where "key = (\<lambda>j. (desc_key (v ! j), rank j))"
  have dist: "distinct p"
    using perm by (metis distinct_upt mset_eq_imp_distinct_iff)
  have set_p: "set p = set [0..<length v]"
    using perm by (rule mset_eq_setD)
  have rank_nth: "rank (p ! i) = i" if "i < length p" for i
    unfolding rank_def using dist that by (rule position_nth)
  have inj: "key x = key k \<longleftrightarrow> x = k" if "x \<in> set p" "k \<in> set p" for x k
  proof -
    from that obtain i i' where i: "i < length p" "p ! i = x" and i': "i' < length p" "p ! i' = k"
      unfolding in_set_conv_nth by blast
    have rx: "rank x = i" using rank_nth [OF i(1)] i(2) by simp
    have rk: "rank k = i'" using rank_nth [OF i'(1)] i'(2) by simp
    show ?thesis
    proof
      assume "key x = key k"
      then have "rank x = rank k" by (simp add: key_def)
      with rx rk have "i = i'" by simp
      with i i' show "x = k" by simp
    next
      assume "x = k"
      then show "key x = key k" by simp
    qed
  qed
  have "sorted_wrt (\<lambda>a b. key a \<le> key b) p"
    unfolding sorted_wrt_iff_nth_less
  proof (intro allI impI)
    fix i j assume ij: "i < j" "j < length p"
    have "desc_key (v ! (p ! i)) \<le> desc_key (v ! (p ! j))"
      using desc ij by (simp add: sorted_wrt_map sorted_wrt_iff_nth_less)
    moreover have "rank (p ! i) \<le> rank (p ! j)"
      using ij by (simp add: rank_nth)
    ultimately show "key (p ! i) \<le> key (p ! j)"
      by (auto simp: key_def less_eq_prod_def)
  qed
  then have sorted: "sorted (map key p)"
    by (simp add: sorted_wrt_map)
  have "sort_key key [0..<length v] = p"
  proof (rule properties_for_sort_key [OF perm _ sorted])
    fix k assume k: "k \<in> set p"
    have "filter (\<lambda>x. key k = key x) p = [k]"
      using dist k inj by (intro filter_eq_single) auto
    moreover have "filter (\<lambda>x. key k = key x) [0..<length v] = [k]"
      using k inj set_p by (intro filter_eq_single) auto
    ultimately show "filter (\<lambda>x. key k = key x) p = filter (\<lambda>x. key k = key x) [0..<length v]"
      by simp
  qed
  then have "order_desc rank v = p"
    by (simp add: order_desc_def key_def)
  then show ?thesis by blast
qed

section \<open>The evaluation aggregator\<close>

lemma fold_totals:
  "fold (\<lambda>(num, top1) (tn, tt). (tn + num, tt + top1)) outputs (n0, t0)
   = (n0 + sum_list (map fst outputs), t0 + sum_list (map snd outputs))"
  by (induction outputs arbitrary: n0 t0) (auto simp: algebra_simps)

lemma validation_epoch_end_ok:
  assumes "outputs \<noteq> []" and "0 < sum_list (map fst outputs)"
  shows "validation_epoch_end s outputs =
         (None, s\<lparr>max_accuracy := max (max_accuracy s) (pass_accuracy outputs),
                   logged := logged s @ [(''kNN_accuracy'', pass_accuracy outputs * 100)]\<rparr>)"
proof -
  let ?n = "sum_list (map fst outputs)" and ?t = "sum_list (map snd outputs)"
  have f: "fold (\<lambda>(num, top1) (tn, tt). (tn + num, tt + top1)) outputs (0, 0) = (?n, ?t)"
    using fold_totals [of outputs 0 0] by simp
  have n: "?n \<noteq> 0" using assms(2) by linarith
  define acc where "acc = ?t / real ?n"
  have "validation_epoch_end s outputs =
        (let s1 = (if acc > max_accuracy s then s\<lparr>max_accuracy := acc\<rparr> else s)
         in (None, s1\<lparr>logged := logged s1 @ [(''kNN_accuracy'', acc * 100)]\<rparr>))"
    unfolding validation_epoch_end_def f acc_def
    using assms(1) n by (simp add: Let_def)
  then show ?thesis
    unfolding pass_accuracy_def acc_def [symmetric]
    by (cases "acc > max_accuracy s") (simp_all add: max_def)
qed

lemma validation_epoch_end_mono:
  "max_accuracy s \<le> max_accuracy (snd (validation_epoch_end s outputs))"
  by (simp add: validation_epoch_end_def Let_def split: prod.splits)

lemma validation_rounds_mono:
  "max_accuracy s \<le> max_accuracy (validation_rounds s passes)"
proof (induction passes arbitrary: s)
  case Nil
  then show ?case by simp
next
  case (Cons p ps)
  have "max_accuracy s \<le> max_accuracy (snd (validation_epoch_end s p))"
    by (rule validation_epoch_end_mono)
  also have "\<dots> \<le> max_accuracy (validation_rounds (snd (validation_epoch_end s p)) ps)"
    by (rule Cons.IH)
  finally show ?case by simp
qed

lemma validation_rounds_max:
  assumes "\<forall>p \<in> set passes. valid_pass p"
  shows "max_accuracy (validation_rounds s passes)
         = Max (insert (max_accuracy s) (set (map pass_accuracy passes)))"
  using assms
proof (induction passes arbitrary: s)
  case Nil
  then show ?case by simp
next
  case (Cons p ps)
  then have p: "p \<noteq> []" "0 < sum_list (map fst p)" and ps: "\<forall>q \<in> set ps. valid_pass q"
    by (auto simp: valid_pass_def)
  let ?s' = "snd (validation_epoch_end s p)"
  have "max_accuracy ?s' = max (max_accuracy s) (pass_accuracy p)"
    using validation_epoch_end_ok [OF p, of s] by simp
  moreover have "max_accuracy (validation_rounds ?s' ps)
         = Max (insert (max_accuracy ?s') (set (map pass_accuracy ps)))"
    by (rule Cons.IH [OF ps])
  ultimately show ?case
    by (cases "ps = []") (simp_all add: max.assoc max.commute max.left_commute)
qed

lemma pass_accuracy_nonneg: "valid_pass p \<Longrightarrow> 0 \<le> pass_accuracy p"
  by (simp add: valid_pass_def pass_accuracy_def)

lemma max_accuracy_init: "max_accuracy (init dl g c k t) = 0"
  by (simp add: init_def)

lemma validation_rounds_from_init:
  assumes "\<forall>p \<in> set (outputs # passes). valid_pass p"
  shows "max_accuracy (validation_rounds (init dl g c k t) (outputs # passes))
         = Max (set (map pass_accuracy (outputs # passes)))"
proof -
  have "max_accuracy (validation_rounds (init dl g c k t) (outputs # passes))
         = Max (insert 0 (set (map pass_accuracy (outputs # passes))))"
    using validation_rounds_max [OF assms, of "init dl g c k t"]
    by (simp only: max_accuracy_init)
  also have "\<dots> = max 0 (Max (set (map pass_accuracy (outputs # passes))))"
    by (subst Max_insert) simp_all
  also have "\<dots> = Max (set (map pass_accuracy (outputs # passes)))"
  proof -
    have "0 \<le> pass_accuracy outputs"
      using assms by (intro pass_accuracy_nonneg) simp
    also have "pass_accuracy outputs \<le> Max (set (map pass_accuracy (outputs # passes)))"
      by (intro Max_ge) simp_all
    finally show ?thesis by (simp add: max_def)
  qed
  finally show ?thesis .
qed

lemma ex_pass_accuracy:
  "pass_accuracy [(10, 7), (5, 5)] = 4/5" "pass_accuracy [(2, 1)] = 1/2"
  "pass_accuracy [(5, 4)] = 4/5" "pass_accuracy [(10, 3)] = 3/10"
  by (simp_all add: pass_accuracy_def)

lemma ex_valid_pass:
  "valid_pass [(10, 7), (5, 5)]" "valid_pass [(2, 1)]" "valid_pass [(5, 4)]" "valid_pass [(10, 3)]"
  by (simp_all add: valid_pass_def)

section \<open>The training step\<close>

lemma or_raise_Inl: "or_raise (Inl e) s f = (Inl e, s)"
  by (simp add: or_raise_def)

lemma or_raise_Inr: "or_raise (Inr x) s f = f x"
  by (simp add: or_raise_def)

lemma or_raise_isl: "(\<And>x. isl (fst (f x))) \<Longrightarrow> isl (fst (or_raise m s f))"
  by (cases m) (simp_all add: or_raise_def)

lemma lookup_name_step: "lookup_name ''step'' = Inl (NameError ''step'')"
  by (simp add: lookup_name_def training_step_locals_def module_globals_def)

lemma training_step_fresh:
  "training_step (init dl g c k t) batch = (Inl (AttributeError ''online_resnet''), init dl g c k t)"
proof -
  have "online_resnet (init dl g c k t) = None"
    by (simp add: init_def)
  then show ?thesis
    by (simp add: training_step_def getattr_def or_raise_Inl split: prod.splits)
qed

lemma training_step_never_returns: "isl (fst (training_step s batch))"
  unfolding training_step_def Let_def
  by (auto split: prod.splits intro!: or_raise_isl simp: lookup_name_step or_raise_Inl)

lemma bank_loop_online: "online_resnet (snd (bank_loop s dl)) = online_resnet s"
proof (induction s dl rule: bank_loop.induct)
  case (1 s)
  then show ?case by simp
next
  case (2 s img target rest)
  then show ?case
    by (simp add: Let_def split: sum.splits option.splits bank_attr.splits targets_attr.splits)
qed

lemma training_epoch_end_online:
  "online_resnet (snd (training_epoch_end s)) = online_resnet s"
proof -
  obtain r s4 where b: "bank_loop (s\<lparr>resnet_training := False, feature_bank := Some (BankList []),
      targets_bank := Some (TargetsList []), grad_enabled := False\<rparr>) (dataloader_kNN s) = (r, s4)"
    by (cases "bank_loop (s\<lparr>resnet_training := False, feature_bank := Some (BankList []),
      targets_bank := Some (TargetsList []), grad_enabled := False\<rparr>) (dataloader_kNN s)")
  from bank_loop_online [of "s\<lparr>resnet_training := False, feature_bank := Some (BankList []),
      targets_bank := Some (TargetsList []), grad_enabled := False\<rparr>" "dataloader_kNN s"]
  have "online_resnet s4 = online_resnet s"
    by (simp add: b)
  then show ?thesis
    by (simp add: training_epoch_end_def Let_def b
        split: sum.splits option.splits bank_attr.splits targets_attr.splits)
qed

lemma validation_step_online:
  "online_resnet (snd (validation_step lib s batch)) = online_resnet s"
  by (simp add: validation_step_def Let_def
      split: prod.splits sum.splits option.splits bank_attr.splits targets_attr.splits)

lemma validation_epoch_end_online:
  "online_resnet (snd (validation_epoch_end s outputs)) = online_resnet s"
  by (simp add: validation_epoch_end_def Let_def split: prod.splits)

lemma or_raise_online:
  "online_resnet s = v \<Longrightarrow> (\<And>x. online_resnet (snd (f x)) = v)
   \<Longrightarrow> online_resnet (snd (or_raise m s f)) = v"
  by (cases m) (simp_all add: or_raise_def)

lemma training_step_online:
  "online_resnet (snd (training_step s batch)) = online_resnet s"
  unfolding training_step_def Let_def
  by (simp split: prod.splits)
    (intro allI impI or_raise_online; (simp split: prod.splits)?; (intro allI impI or_raise_online; simp)?)

lemma lookup_alloc: "a < length h \<Longrightarrow> lookup (h @ [v]) a = lookup h a"
  by (simp add: lookup_def nth_append)

lemma ema_loop_frame:
  "ema_loop w ps loc h = (r, h') \<Longrightarrow> a < length h \<Longrightarrow> lookup h' a = lookup h a"
proof (induction w ps loc h arbitrary: r h' rule: ema_loop.induct)
  case (1 w target_params h)
  then show ?case by simp
next
  case (2 w tp on rest target_params h)
  from "2.prems" "2.IH" show ?case
    by (auto simp: alloc_def lookup_alloc split: option.splits tval.splits sum.splits)
qed

lemma ema_loop_parameter_values:
  assumes "ema_loop w ps loc h = (r, h')" and "\<forall>a \<in> set (parameters n). a < length h"
  shows "parameter_values h' n = parameter_values h n"
  using assms ema_loop_frame [OF assms(1)] by (simp add: parameter_values_def)

lemma ex_ema_loop:
  "ema_loop (Some (1/2)) (zip (parameters ex_target) (parameters ex_online)) None ex_store
   = (Inr (Some 2), ex_store @ [TReal1 [2]])"
  by (simp add: ex_target_def ex_online_def ex_store_def lookup_def getattr_def tensor_add_def alloc_def)

lemma ex_training_step:
  "training_step ex_training_module (([0], [2]), [0])
   = (Inl (NameError ''step''),
      ex_training_module\<lparr>heap := ex_store @ [TReal1 [2]], taw := Some (1/2), step := Some 1\<rparr>)"
proof -
  have a: "online_resnet ex_training_module = Some ex_online"
    "target_resnet ex_training_module = Some ex_target"
    "predictor ex_training_module = Some (\<lambda>z. Inr z)"
    "mse_loss ex_training_module = Some (\<lambda>p z. Inr 0)"
    "taw ex_training_module = Some (1/2)" "step ex_training_module = Some 0"
    "total_steps ex_training_module = Some 100" "heap ex_training_module = ex_store"
    by (simp_all add: ex_training_module_def)
  have f: "forward ex_online x = Inr ex_feature" "forward ex_target x = Inr ex_feature" for x
    by (simp_all add: ex_online_def ex_target_def)
  show ?thesis
    unfolding training_step_def
    by (simp add: a f getattr_def or_raise_Inr or_raise_Inl ex_ema_loop lookup_name_step)
qed

section \<open>The feature-bank builder\<close>

lemma bank_loop_ok:
  assumes "resnet_training s = False" and "feature_bank s = Some (BankList fb)"
    and "targets_bank s = Some (TargetsList tb)"
    and "list_all (encodes (resnet s False) D) dl" and "D \<noteq> 1"
  shows "bank_loop s dl =
         (None, s\<lparr>encoder_calls := encoder_calls s @ replicate (length dl) (False, grad_enabled s),
                   feature_bank := Some (BankList (fb @ map (batch_features (resnet s False)) dl)),
                   targets_bank := Some (TargetsList (tb @ map snd dl))\<rparr>)"
  using assms
proof (induction dl arbitrary: s fb tb)
  case Nil
  then show ?case by simp
next
  case (Cons b dl)
  obtain img target where b: "b = (img, target)" by (cases b)
  from Cons.prems(4) obtain e where e: "resnet s False img = Inr e" "size0 e \<noteq> 1" "size1 e = D"
    by (auto simp: encodes_def b split: sum.splits)
  have sq: "normalize_dim1 (squeeze e) = Inr (e\<lparr>rows := map normalize_row (rows e)\<rparr>)"
    using e Cons.prems(5) by (simp add: squeeze_def normalize_dim1_def)
  let ?s' = "s\<lparr>encoder_calls := encoder_calls s @ [(False, grad_enabled s)],
               feature_bank := Some (BankList (fb @ [e\<lparr>rows := map normalize_row (rows e)\<rparr>])),
               targets_bank := Some (TargetsList (tb @ [target]))\<rparr>"
  have step: "bank_loop s (b # dl) = bank_loop ?s' dl"
    using Cons.prems(1,2,3) e sq by (simp add: b Let_def)
  have "bank_loop ?s' dl =
         (None, ?s'\<lparr>encoder_calls := encoder_calls ?s' @ replicate (length dl) (False, grad_enabled ?s'),
                   feature_bank := Some (BankList ((fb @ [e\<lparr>rows := map normalize_row (rows e)\<rparr>])
                        @ map (batch_features (resnet ?s' False)) dl)),
                   targets_bank := Some (TargetsList ((tb @ [target]) @ map snd dl))\<rparr>)"
    using Cons.prems(1,4,5) by (intro Cons.IH) simp_all
  then show ?case
    unfolding step using e by (simp add: b batch_features_def replicate_append_same)
qed

lemma bank_loop_flags:
  "resnet_training (snd (bank_loop s dl)) = resnet_training s \<and>
   grad_enabled (snd (bank_loop s dl)) = grad_enabled s \<and>
   resnet (snd (bank_loop s dl)) = resnet s \<and>
   max_accuracy (snd (bank_loop s dl)) = max_accuracy s"
proof (induction s dl rule: bank_loop.induct)
  case (1 s)
  then show ?case by simp
next
  case (2 s img target rest)
  then show ?case
    by (simp add: Let_def split: sum.splits option.splits bank_attr.splits targets_attr.splits)
qed

lemma bank_loop_calls:
  "\<exists>n \<le> length dl. encoder_calls (snd (bank_loop s dl))
      = encoder_calls s @ replicate n (resnet_training s, grad_enabled s)"
proof (induction dl arbitrary: s)
  case Nil
  then show ?case by simp
next
  case (Cons b rest)
  obtain img target where b: "b = (img, target)" by (cases b)
  let ?c = "(resnet_training s, grad_enabled s)"
  let ?s1 = "s\<lparr>encoder_calls := encoder_calls s @ [?c]\<rparr>"
  show ?case
  proof (cases "\<exists>out f fb tb. resnet ?s1 (resnet_training ?s1) img = Inr out
        \<and> normalize_dim1 (squeeze out) = Inr f
        \<and> feature_bank ?s1 = Some (BankList fb) \<and> targets_bank ?s1 = Some (TargetsList tb)")
    case True
    then obtain out f fb tb where t: "resnet ?s1 (resnet_training ?s1) img = Inr out"
      "normalize_dim1 (squeeze out) = Inr f"
      "feature_bank ?s1 = Some (BankList fb)" "targets_bank ?s1 = Some (TargetsList tb)"
      by blast
    let ?s3 = "?s1\<lparr>feature_bank := Some (BankList (fb @ [f])),
                  targets_bank := Some (TargetsList (tb @ [target]))\<rparr>"
    have step: "bank_loop s (b # rest) = bank_loop ?s3 rest"
      using t by (simp add: b Let_def)
    from Cons.IH [of ?s3]
    obtain n where n: "n \<le> length rest"
      "encoder_calls (snd (bank_loop ?s3 rest))
        = encoder_calls ?s3 @ replicate n (resnet_training ?s3, grad_enabled ?s3)"
      by blast
    have "encoder_calls (snd (bank_loop ?s3 rest)) = encoder_calls s @ replicate (Suc n) ?c"
      using n(2) by (simp add: replicate_append_same)
    with n(1) show ?thesis
      unfolding step by (intro exI [of _ "Suc n"]) simp
  next
    case False
    then have "snd (bank_loop s (b # rest)) = ?s1
        \<or> (\<exists>fb f. snd (bank_loop s (b # rest)) = ?s1\<lparr>feature_bank := Some (BankList (fb @ [f]))\<rparr>)"
      by (auto simp: b Let_def split: sum.splits option.splits bank_attr.splits targets_attr.splits)
    then have "encoder_calls (snd (bank_loop s (b # rest))) = encoder_calls s @ replicate 1 ?c"
      by auto
    then show ?thesis
      by (intro exI [of _ 1]) simp
  qed
qed

lemma sum_squares_divide: "sum_squares (map (\<lambda>x. x / m) v) = sum_squares v / (m::real)\<^sup>2"
  unfolding sum_squares_def
  by (induction v) (simp_all add: power_divide add_divide_distrib)

lemma l2_norm_scaled:
  assumes "0 < l2_norm v"
  shows "l2_norm (map (\<lambda>x. x / l2_norm v) v) = 1"
proof -
  have "l2_norm (map (\<lambda>x. x / l2_norm v) v) = sqrt (sum_squares v / (l2_norm v)\<^sup>2)"
    by (simp add: l2_norm_def [of "map _ _"] sum_squares_divide)
  also have "\<dots> = l2_norm v / l2_norm v"
    using assms by (simp add: real_sqrt_divide l2_norm_def [symmetric])
  finally show ?thesis using assms by simp
qed

lemma sum_squares_nonneg: "0 \<le> sum_squares v"
  unfolding sum_squares_def by (rule sum_list_nonneg) auto

lemma square_le_sum_squares: "x \<in> set v \<Longrightarrow> x\<^sup>2 \<le> sum_squares v"
  unfolding sum_squares_def
proof (induction v)
  case Nil
  then show ?case by simp
next
  case (Cons y ys)
  have s: "0 \<le> (\<Sum>x\<leftarrow>ys. x\<^sup>2)"
    by (rule sum_list_nonneg) auto
  have y: "0 \<le> y\<^sup>2"
    by simp
  show ?case
  proof (cases "x = y")
    case True
    with s show ?thesis by simp
  next
    case False
    with Cons have le: "x\<^sup>2 \<le> (\<Sum>x\<leftarrow>ys. x\<^sup>2)" by simp
    have "x\<^sup>2 \<le> y\<^sup>2 + (\<Sum>x\<leftarrow>ys. x\<^sup>2)"
      by (rule add_increasing [OF y le])
    then show ?thesis by simp
  qed
qed

lemma abs_le_l2_norm: "x \<in> set v \<Longrightarrow> \<bar>x\<bar> \<le> l2_norm v"
proof -
  assume "x \<in> set v"
  then have "sqrt (x\<^sup>2) \<le> sqrt (sum_squares v)"
    by (intro real_sqrt_le_mono square_le_sum_squares)
  then show ?thesis by (simp add: l2_norm_def)
qed

lemma norm_fl_Num:
  assumes "sum_squares v \<le> float32_max"
  shows "norm_fl (map Num v) = Num (l2_norm v)"
proof -
  have sq: "fmul (Num x) (Num x) = Num (x\<^sup>2)" if "x \<in> set v" for x
  proof -
    have "\<bar>x * x\<bar> \<le> float32_max"
      using square_le_sum_squares [OF that] assms by (simp add: power2_eq_square)
    then show ?thesis
      by (simp add: round_fl_Num power2_eq_square)
  qed
  then have m: "map (\<lambda>x. fmul x x) (map Num v) = map Num (map (\<lambda>x. x\<^sup>2) v)"
    by (simp add: comp_def)
  have "(\<Sum>x\<leftarrow>map (\<lambda>x. x\<^sup>2) v. \<bar>x\<bar>) = sum_squares v"
    by (simp add: sum_squares_def comp_def)
  then have "fsum (map Num (map (\<lambda>x. x\<^sup>2) v)) = Num (sum_list (map (\<lambda>x. x\<^sup>2) v))"
    using assms by (intro fsum_Num) simp
  then have "norm_fl (map Num v) = fsqrt (Num (sum_squares v))"
    unfolding norm_fl_def m sum_squares_def by (simp only:)
  then show ?thesis
    using sum_squares_nonneg [of v] by (simp add: l2_norm_def)
qed

lemma normalize_row_Num:
  assumes "sum_squares v \<le> float32_max" and "normalize_eps \<le> l2_norm v"
  shows "normalize_row (map Num v) = map Num (map (\<lambda>x. x / l2_norm v) v)"
proof -
  have pos: "0 < l2_norm v"
    using assms(2) by (simp add: normalize_eps_def)
  have c: "clamp_min (norm_fl (map Num v)) normalize_eps = Num (l2_norm v)"
    using assms by (simp add: norm_fl_Num max_def)
  have d: "fdiv (Num x) (Num (l2_norm v)) = Num (x / l2_norm v)" if "x \<in> set v" for x
  proof -
    have "\<bar>x / l2_norm v\<bar> \<le> 1"
      using abs_le_l2_norm [OF that] pos by simp
    then have "\<bar>x / l2_norm v\<bar> \<le> float32_max"
      using float32_max_pos(2) by linarith
    then show ?thesis
      using pos by (simp add: round_fl_Num)
  qed
  show ?thesis
    unfolding normalize_row_def c using d by (simp add: comp_def)
qed

lemma normalize_row_unit:
  assumes "sum_squares v \<le> float32_max" and "normalize_eps \<le> l2_norm v"
  shows "\<exists>y. normalize_row (map Num v) = map Num y \<and> l2_norm y = 1"
proof -
  have "0 < l2_norm v"
    using assms(2) by (simp add: normalize_eps_def)
  then have "l2_norm (map (\<lambda>x. x / l2_norm v) v) = 1"
    by (rule l2_norm_scaled)
  with normalize_row_Num [OF assms] show ?thesis by blast
qed

lemma length_normalize_row: "length (normalize_row v) = length v"
  by (simp add: normalize_row_def)

lemma column_transpose_t:
  assumes "j < length (rows t)" and "length (rows t ! j) = size1 t"
  shows "column (transpose_t t) j = rows t ! j"
  using assms by (simp add: column_def transpose_t_def comp_def list_eq_iff_nth_eq)

lemma wf2_transpose_t: "length (rows t) = size0 t \<Longrightarrow> wf2 (transpose_t t)"
  by (auto simp: wf2_def transpose_t_def column_def)

lemma torch_cat_ok:
  assumes "ts \<noteq> []" and "\<forall>u \<in> set ts. size1 u = D"
  shows "torch_cat ts = Inr \<lparr>size0 = sum_list (map size0 ts), size1 = D,
                             rows = concat (map rows ts)\<rparr>"
  using assms by (cases ts) (auto simp: torch_cat_def)

lemma torch_cat1_ok: "ts \<noteq> [] \<Longrightarrow> torch_cat1 ts = Inr (concat ts)"
  by (cases ts) (simp_all add: torch_cat1_def)

lemma encodes_rows:
  assumes "list_all (encodes enc D) dl"
  shows "concat (map rows (map (batch_features enc) dl))
         = map normalize_row (concat (map (\<lambda>b. case enc (fst b) of Inl _ \<Rightarrow> [] | Inr e \<Rightarrow> rows e) dl))"
    and "sum_list (map size0 (map (batch_features enc) dl)) = sum_list (map (\<lambda>b. length (fst b)) dl)"
    and "length (concat (map (\<lambda>b. case enc (fst b) of Inl _ \<Rightarrow> [] | Inr e \<Rightarrow> rows e) dl))
         = sum_list (map (\<lambda>b. length (fst b)) dl)"
    and "length (concat (map snd dl)) = sum_list (map (\<lambda>b. length (fst b)) dl)"
    and "\<forall>u \<in> set (map (batch_features enc) dl). size1 u = D"
    and "\<forall>r \<in> set (concat (map (\<lambda>b. case enc (fst b) of Inl _ \<Rightarrow> [] | Inr e \<Rightarrow> rows e) dl)).
           length r = D"
  using assms
  by (induction dl; auto simp: encodes_def batch_features_def wf2_def split: sum.splits)+

lemma training_epoch_end_ok:
  assumes "bank_pre s D"
  shows "training_epoch_end s =
         (None, s\<lparr>resnet_training := True,
                   encoder_calls := encoder_calls s
                       @ replicate (length (dataloader_kNN s)) (False, False),
                   feature_bank := Some (BankTensor (transpose_t
                       \<lparr>size0 = total_samples s, size1 = D,
                        rows = map normalize_row (raw_embeddings s)\<rparr>)),
                   targets_bank := Some (TargetsTensor (reference_labels s))\<rparr>)"
proof -
  let ?dl = "dataloader_kNN s"
  let ?s3 = "s\<lparr>resnet_training := False, feature_bank := Some (BankList []),
      targets_bank := Some (TargetsList []), grad_enabled := False\<rparr>"
  have ne: "?dl \<noteq> []" and D: "D \<noteq> 1" and enc: "list_all (encodes (resnet s False) D) ?dl"
    using assms by (simp_all add: bank_pre_def)
  have loop: "bank_loop ?s3 ?dl =
         (None, ?s3\<lparr>encoder_calls := encoder_calls ?s3 @ replicate (length ?dl) (False, grad_enabled ?s3),
                   feature_bank := Some (BankList ([] @ map (batch_features (resnet ?s3 False)) ?dl)),
                   targets_bank := Some (TargetsList ([] @ map snd ?dl))\<rparr>)"
    using enc D by (intro bank_loop_ok) simp_all
  have cat: "torch_cat (map (batch_features (resnet s False)) ?dl)
      = Inr \<lparr>size0 = total_samples s, size1 = D, rows = map normalize_row (raw_embeddings s)\<rparr>"
    using torch_cat_ok [of "map (batch_features (resnet s False)) ?dl" D] ne encodes_rows(1,2,5) [OF enc]
    by (simp add: total_samples_def raw_embeddings_def)
  have cat1: "torch_cat1 (map snd ?dl) = Inr (reference_labels s)"
    using ne by (simp add: torch_cat1_ok reference_labels_def)
  show ?thesis
    unfolding training_epoch_end_def
    by (simp add: Let_def loop cat cat1)
qed

lemma ex_bank_pre: "bank_pre ex_bank_module 2"
  by (simp add: bank_pre_def ex_bank_module_def init_def encodes_def ex_embeddings_def wf2_def)

lemma ex_bank_raw:
  "raw_embeddings ex_bank_module = [[Num 0, Num 0], [Num 1, Num 0]]" "total_samples ex_bank_module = 2"
  "reference_labels ex_bank_module = [0, 1]"
  by (simp_all add: raw_embeddings_def total_samples_def reference_labels_def ex_bank_module_def
      init_def ex_embeddings_def)

lemma ex_sum_squares: "sum_squares [0, 0] = 0" "sum_squares [1, 0] = 1"
  by (simp_all add: sum_squares_def)

lemma ex_l2_norm: "l2_norm [0, 0] = 0" "l2_norm [1, 0] = 1"
  by (simp_all add: l2_norm_def ex_sum_squares)

lemma ex_normalize_row:
  "normalize_row [Num 0, Num 0] = [Num 0, Num 0]" "normalize_row [Num 1, Num 0] = [Num 1, Num 0]"
proof -
  have "norm_fl (map Num [0, 0]) = Num (l2_norm [0, 0])"
    by (rule norm_fl_Num) (simp add: ex_sum_squares float32_max_def)
  then have n: "norm_fl [Num 0, Num 0] = Num 0"
    by (simp add: ex_l2_norm)
  show "normalize_row [Num 0, Num 0] = [Num 0, Num 0]"
    by (simp add: normalize_row_def n normalize_eps_def round_fl_def float32_max_def)
  have "normalize_row (map Num [1, 0]) = map Num (map (\<lambda>x. x / l2_norm [1, 0]) [1, 0])"
    by (rule normalize_row_Num) (simp_all add: ex_sum_squares ex_l2_norm float32_max_def normalize_eps_def)
  then show "normalize_row [Num 1, Num 0] = [Num 1, Num 0]"
    by (simp add: ex_l2_norm)
qed

lemma ex_large_normalize_row:
  "normalize_row [Num 30000000000000000000, Num 40000000000000000000] = [Num 0, Num 0]"
proof -
  have "fmul (Num 30000000000000000000) (Num 30000000000000000000) = PInf"
    "fmul (Num 40000000000000000000) (Num 40000000000000000000) = PInf"
    by (simp_all add: round_fl_def float32_max_def)
  then have "norm_fl [Num 30000000000000000000, Num 40000000000000000000] = PInf"
    by (simp add: norm_fl_def fsum_def)
  then show ?thesis
    by (simp add: normalize_row_def)
qed

lemma ex_bank_built:
  "training_epoch_end ex_bank_module =
     (None, ex_bank_module\<lparr>resnet_training := True,
              encoder_calls := [(False, False)],
              feature_bank := Some (BankTensor \<lparr>size0 = 2, size1 = 2, rows = [[Num 0, Num 1], [Num 0, Num 0]]\<rparr>),
              targets_bank := Some (TargetsTensor [0, 1])\<rparr>)"
proof -
  have "transpose_t \<lparr>size0 = 2, size1 = 2, rows = [[Num 0, Num 0], [Num 1, Num 0]]\<rparr>
        = \<lparr>size0 = 2, size1 = 2, rows = [[Num 0, Num 1], [Num 0, Num 0]]\<rparr>"
    by (simp add: transpose_t_def column_def upt2)
  moreover have "encoder_calls ex_bank_module = []" "length (dataloader_kNN ex_bank_module) = 1"
    by (simp_all add: ex_bank_module_def init_def)
  ultimately show ?thesis
    using training_epoch_end_ok [OF ex_bank_pre]
    by (simp add: ex_bank_raw ex_normalize_row)
qed

lemma ex_large_pre: "bank_pre ex_large_module 2"
  by (simp add: bank_pre_def ex_large_module_def init_def encodes_def ex_large_embeddings_def wf2_def)

lemma ex_large_raw:
  "raw_embeddings ex_large_module = [[Num 30000000000000000000, Num 40000000000000000000], [Num 1, Num 0]]"
  "total_samples ex_large_module = 2" "reference_labels ex_large_module = [0, 1]"
  by (simp_all add: raw_embeddings_def total_samples_def reference_labels_def ex_large_module_def
      init_def ex_large_embeddings_def)

lemma ex_large_built:
  "training_epoch_end ex_large_module =
     (None, ex_large_module\<lparr>resnet_training := True,
              encoder_calls := [(False, False)],
              feature_bank := Some (BankTensor \<lparr>size0 = 2, size1 = 2, rows = [[Num 0, Num 1], [Num 0, Num 0]]\<rparr>),
              targets_bank := Some (TargetsTensor [0, 1])\<rparr>)"
proof -
  have "transpose_t \<lparr>size0 = 2, size1 = 2, rows = [[Num 0, Num 0], [Num 1, Num 0]]\<rparr>
        = \<lparr>size0 = 2, size1 = 2, rows = [[Num 0, Num 1], [Num 0, Num 0]]\<rparr>"
    by (simp add: transpose_t_def column_def upt2)
  moreover have "encoder_calls ex_large_module = []" "length (dataloader_kNN ex_large_module) = 1"
    by (simp_all add: ex_large_module_def init_def)
  ultimately show ?thesis
    using training_epoch_end_ok [OF ex_large_pre]
    by (simp add: ex_large_raw ex_normalize_row ex_large_normalize_row)
qed

section \<open>Modes of the encoder and the missing bank\<close>

lemma training_epoch_end_loop:
  obtains r s4 where
    "bank_loop (s\<lparr>resnet_training := False, feature_bank := Some (BankList []),
        targets_bank := Some (TargetsList []), grad_enabled := False\<rparr>) (dataloader_kNN s) = (r, s4)"
    "resnet_training s4 = False" "grad_enabled s4 = False"
    "\<exists>n \<le> length (dataloader_kNN s). encoder_calls s4 = encoder_calls s @ replicate n (False, False)"
proof -
  let ?s3 = "s\<lparr>resnet_training := False, feature_bank := Some (BankList []),
        targets_bank := Some (TargetsList []), grad_enabled := False\<rparr>"
  obtain r s4 where b: "bank_loop ?s3 (dataloader_kNN s) = (r, s4)"
    by (cases "bank_loop ?s3 (dataloader_kNN s)")
  have "resnet_training s4 = False" "grad_enabled s4 = False"
    using bank_loop_flags [of ?s3 "dataloader_kNN s"] by (simp_all add: b)
  moreover have "\<exists>n \<le> length (dataloader_kNN s).
      encoder_calls s4 = encoder_calls s @ replicate n (False, False)"
    using bank_loop_calls [of "dataloader_kNN s" ?s3] by (simp add: b)
  ultimately show ?thesis using b that by blast
qed

lemma builder_modes:
  "(\<exists>n \<le> length (dataloader_kNN s).
      encoder_calls (snd (training_epoch_end s)) = encoder_calls s @ replicate n (False, False)) \<and>
   grad_enabled (snd (training_epoch_end s)) = grad_enabled s \<and>
   resnet_training (snd (training_epoch_end s)) = (fst (training_epoch_end s) = None)"
proof -
  obtain r s4 where b: "bank_loop (s\<lparr>resnet_training := False, feature_bank := Some (BankList []),
        targets_bank := Some (TargetsList []), grad_enabled := False\<rparr>) (dataloader_kNN s) = (r, s4)"
    and f: "resnet_training s4 = False" "grad_enabled s4 = False"
    and c: "\<exists>n \<le> length (dataloader_kNN s). encoder_calls s4 = encoder_calls s @ replicate n (False, False)"
    by (rule training_epoch_end_loop)
  show ?thesis
    using f c
    by (simp add: training_epoch_end_def Let_def b
        split: sum.splits option.splits bank_attr.splits targets_attr.splits)
qed

lemma training_epoch_end_empty:
  assumes "dataloader_kNN s = []"
  shows "training_epoch_end s =
         (Some (RuntimeError ''cat''),
          s\<lparr>resnet_training := False, feature_bank := Some (BankList []),
            targets_bank := Some (TargetsList [])\<rparr>)"
  using assms by (simp add: training_epoch_end_def Let_def torch_cat_def)

lemma validation_step_no_bank:
  "feature_bank s = None \<or> targets_bank s = None \<Longrightarrow> validation_step lib s batch = (Inr None, s)"
  by (auto simp: validation_step_def split: option.splits)

lemma ex_encoded:
  "normalize_dim1 (squeeze ex_embeddings)
   = Inr \<lparr>size0 = 2, size1 = 2, rows = [[Num 0, Num 0], [Num 1, Num 0]]\<rparr>"
  by (simp add: normalize_dim1_def squeeze_def ex_embeddings_def ex_normalize_row)

lemma ex_empty_after:
  "training_epoch_end ex_empty_module =
     (Some (RuntimeError ''cat''),
      ex_empty_module\<lparr>resnet_training := False, feature_bank := Some (BankList []),
        targets_bank := Some (TargetsList [])\<rparr>)"
  by (rule training_epoch_end_empty) (simp add: ex_empty_module_def init_def)

lemma ex_validation_after_empty:
  "fst (validation_step lib (snd (training_epoch_end ex_empty_module)) ([0, 2], [0, 1]))
   = Inl (TypeError ''mm'')"
proof -
  have "resnet ex_empty_module b x = Inr ex_embeddings" for b x
    by (simp add: ex_empty_module_def)
  then show ?thesis
    by (simp add: ex_empty_after validation_step_def ex_encoded)
qed

lemma ex_validation_n0:
  "validation_step lib ex_n0_module ([0, 2], [0, 1])
   = (Inl (RuntimeError ''topk''), ex_n0_module\<lparr>encoder_calls := [(True, True)]\<rparr>)"
proof -
  have r: "resnet ex_n0_module b x = Inr ex_embeddings" for b x
    by (simp add: ex_n0_module_def ex_empty_module_def)
  have a: "feature_bank ex_n0_module = Some (BankTensor \<lparr>size0 = 2, size1 = 0, rows = [[], []]\<rparr>)"
    "targets_bank ex_n0_module = Some (TargetsTensor [])"
    "classes ex_n0_module = 2" "knn_k ex_n0_module = 1" "knn_t ex_n0_module = 1/10"
    "encoder_calls ex_n0_module = []" "resnet_training ex_n0_module" "grad_enabled ex_n0_module"
    by (simp_all add: ex_n0_module_def ex_empty_module_def init_def)
  have k: "knn_predict lib \<lparr>size0 = 2, size1 = 2, rows = [[Num 0, Num 0], [Num 1, Num 0]]\<rparr>
             \<lparr>size0 = 2, size1 = 0, rows = [[], []]\<rparr> [] 2 1 (1/10) = Inl (RuntimeError ''topk'')"
    by (rule knn_predict_topk_error) simp_all
  show ?thesis
    by (simp add: validation_step_def a r ex_encoded k)
qed

section \<open>The classifier leaves its inputs alone\<close>

lemma lookup_append:
  "lookup (h @ ext) a =
     (if a < length h then lookup h a
      else if a - length h < length ext then Some (ext ! (a - length h)) else None)"
  by (auto simp: lookup_def nth_append)

lemma tmap_tmap: "tmap f (tmap g t) = tmap (\<lambda>x. f (g x)) t"
  by (simp add: tmap_def comp_def)

lemma lookup_Some_less: "lookup h a = Some v \<Longrightarrow> a < length h"
  by (simp add: lookup_def split: if_splits)

lemma deref_base_less: "\<not> isl (deref h r) \<Longrightarrow> base r < length h"
  by (auto simp: deref_def lookup_def split: if_splits)

lemma deref_append: "\<not> isl (deref h r) \<Longrightarrow> deref (h @ ext) r = deref h r"
  using deref_base_less [of h r] by (simp add: deref_def lookup_append)

lemma deref_take_view: "deref h (take_view vw r) = err_bind (deref h r) (apply_view vw)"
  by (cases r) (simp add: deref_def err_bind_def split: option.splits)

lemma deref_Ref:
  "deref h (Ref a vs) =
     (case lookup h a of
        None \<Rightarrow> Inl (TypeError ''tensor'')
      | Some v \<Rightarrow> fold (\<lambda>vw x. err_bind x (apply_view vw)) vs (Inr v))"
  by (simp add: deref_def split: option.splits)

lemmas mem_ops =
  mem_mm_def mem_topk_def mem_size0_def mem_gather_def mem_map_def mem_zeros_def
  mem_clone_def mem_scatter_inplace_def mem_scatter_def mem_mul_unsqueeze_def mem_sum_dim1_def
  mem_argsort_def read_float2_def read_float3_def read_int2_def read_nat2_def
  mem_new_def mem_write_def mem_view_def mem_bind_def alloc_def overwrite_def

lemma knn_predict_mem_refines:
  assumes "deref h fa = Inr (TFloat2 F)" and "deref h ba = Inr (TFloat2 Bk)"
    and "deref h la = Inr (TInt1 L)"
  shows "result_value (knn_predict_mem lib fa ba la c k t h)
         = (case knn_predict lib F Bk L c k t of Inl e \<Rightarrow> Inl e | Inr p \<Rightarrow> Inr (TNat2 p))"
  unfolding knn_predict_mem_def knn_predict_def
  using assms
  by (simp add: mem_ops deref_append deref_take_view deref_Ref lookup_append list_update_append
      tmap_tmap result_value_def err_bind_def Let_def
      split: sum.splits prod.splits)

lemma mem_bind_extends:
  assumes "\<And>h. \<exists>ext. snd (m h) = h @ ext" and "\<And>x h. \<exists>ext. snd (f x h) = h @ ext"
  shows "\<exists>ext. snd (mem_bind m f h) = h @ ext"
proof (cases "m h")
  case (Pair r h')
  from assms(1) [of h] Pair obtain e1 where e1: "h' = h @ e1" by auto
  show ?thesis
  proof (cases r)
    case (Inl e)
    with Pair e1 show ?thesis by (simp add: mem_bind_def)
  next
    case (Inr x)
    from assms(2) [of x h'] obtain e2 where "snd (f x h') = h' @ e2" by auto
    with Pair Inr e1 show ?thesis by (simp add: mem_bind_def)
  qed
qed

lemma mem_new_extends: "\<exists>ext. snd (mem_new m h) = h @ ext"
  by (cases m) (simp_all add: mem_new_def alloc_def)

lemma mem_view_extends: "\<exists>ext. snd (mem_view vw r h) = h @ ext"
  by (simp add: mem_view_def split: sum.splits)

lemma read_extends:
  "\<exists>ext. snd (read_float2 a h) = h @ ext" "\<exists>ext. snd (read_float3 a h) = h @ ext"
  "\<exists>ext. snd (read_int2 a h) = h @ ext" "\<exists>ext. snd (read_nat2 a h) = h @ ext"
  by (simp_all add: read_float2_def read_float3_def read_int2_def read_nat2_def
      split: sum.splits tval.splits)

text \<open>the out-of-place scatter writes, but only into the copy it has made\<close>

lemma mem_scatter_extends: "\<exists>ext. snd (mem_scatter a i v h) = h @ ext"
proof (cases "deref h a")
  case (Inl e)
  then show ?thesis
    by (simp add: mem_scatter_def mem_clone_def mem_bind_def read_float2_def)
next
  case (Inr x)
  show ?thesis
  proof (cases x)
    case (TFloat2 t)
    have "snd (mem_scatter a i v h) = h @ [TFloat2 t] \<or>
          (\<exists>u. snd (mem_scatter a i v h) = h @ [u])"
      using Inr TFloat2
      by (simp add: mem_scatter_def mem_clone_def mem_scatter_inplace_def mem_bind_def
          read_float2_def read_int2_def mem_new_def mem_write_def alloc_def overwrite_def
          deref_Ref lookup_append
          split: sum.splits tval.splits)
    then show ?thesis by blast
  qed (use Inr in \<open>simp_all add: mem_scatter_def mem_clone_def mem_bind_def read_float2_def\<close>)
qed

lemma mem_op_extends:
  "\<exists>ext. snd (mem_mm a b h) = h @ ext" "\<exists>ext. snd (mem_topk lib a k h) = h @ ext"
  "\<exists>ext. snd (mem_size0 a h) = h @ ext"
  "\<exists>ext. snd (mem_gather a b h) = h @ ext" "\<exists>ext. snd (mem_map f a h) = h @ ext"
  "\<exists>ext. snd (mem_zeros i j h) = h @ ext"
  "\<exists>ext. snd (mem_mul_unsqueeze a b h) = h @ ext" "\<exists>ext. snd (mem_sum_dim1 n a h) = h @ ext"
  "\<exists>ext. snd (mem_argsort lib a h) = h @ ext"
  unfolding mem_mm_def mem_topk_def mem_size0_def mem_gather_def mem_map_def
    mem_zeros_def mem_mul_unsqueeze_def mem_sum_dim1_def mem_argsort_def
  by (intro allI impI mem_bind_extends mem_new_extends read_extends
      | simp split: sum.splits prod.splits)+

lemma knn_predict_mem_extends:
  "\<exists>ext. snd (knn_predict_mem lib fa ba la c k t h) = h @ ext"
  unfolding knn_predict_mem_def
  by (intro allI impI mem_bind_extends mem_op_extends mem_view_extends mem_scatter_extends
      | simp split: prod.splits)+

text \<open>the tensor returned has a storage of its own\<close>

lemma mem_bind_fresh:
  assumes "\<And>h. \<exists>ext. snd (m h) = h @ ext" and "\<And>x. returns_fresh (f x)"
  shows "returns_fresh (mem_bind m f)"
  unfolding returns_fresh_def
proof (intro allI impI)
  fix h r h' assume a: "mem_bind m f h = (Inr r, h')"
  obtain y h1 where m: "m h = (y, h1)" by (cases "m h")
  from assms(1) [of h] m obtain ext where h1: "h1 = h @ ext" by auto
  show "views r = [] \<and> length h \<le> base r \<and> base r < length h'"
  proof (cases y)
    case (Inl e)
    with a m show ?thesis by (simp add: mem_bind_def)
  next
    case (Inr x)
    with a m have "f x h1 = (Inr r, h')" by (simp add: mem_bind_def)
    with assms(2) [of x] have "views r = [] \<and> length h1 \<le> base r \<and> base r < length h'"
      unfolding returns_fresh_def by blast
    with h1 show ?thesis by simp
  qed
qed

lemma mem_new_fresh: "returns_fresh (mem_new m)"
  by (cases m) (auto simp: returns_fresh_def mem_new_def alloc_def)

lemma mem_argsort_fresh: "returns_fresh (mem_argsort lib a)"
  unfolding mem_argsort_def
  by (intro mem_bind_fresh read_extends mem_new_fresh)

lemma knn_predict_mem_fresh: "returns_fresh (knn_predict_mem lib fa ba la c k t)"
  unfolding knn_predict_mem_def
  by (intro allI impI mem_bind_fresh mem_op_extends mem_view_extends mem_scatter_extends
        mem_argsort_fresh
      | simp split: prod.splits)+

text \<open>an in-place operation on an operand does change it\<close>

lemma ex_scatter_inplace:
  "snd (mem_scatter_inplace 0 (Ref 1 []) (Num 1)
         [TFloat2 \<lparr>size0 = 1, size1 = 2, rows = [[Num 0, Num 0]]\<rparr>,
          TInt2 \<lparr>size0 = 1, size1 = 1, rows = [[1]]\<rparr>])
   = [TFloat2 \<lparr>size0 = 1, size1 = 2, rows = [[Num 0, Num 1]]\<rparr>,
      TInt2 \<lparr>size0 = 1, size1 = 1, rows = [[1]]\<rparr>]"
  by (simp add: mem_scatter_inplace_def mem_bind_def read_float2_def read_int2_def mem_write_def
      overwrite_def deref_Ref lookup_def scatter_def)

text \<open>a view is read through the storage of its base\<close>

lemma ex_view_alias:
  "deref [TInt1 [0, 1]] (take_view (Expand 2) (Ref 0 []))
     = Inr (TInt2 \<lparr>size0 = 2, size1 = 2, rows = [[0, 1], [0, 1]]\<rparr>)"
  "deref (overwrite [TInt1 [0, 1]] 0 (TInt1 [1, 1])) (take_view (Expand 2) (Ref 0 []))
     = Inr (TInt2 \<lparr>size0 = 2, size1 = 2, rows = [[1, 1], [1, 1]]\<rparr>)"
  by (simp_all add: deref_Ref lookup_def overwrite_def err_bind_def expand_def numeral_2_eq_2)

section \<open>Where the choice of the library does not matter\<close>

lemma order_desc_no_ties:
  assumes "no_ties v"
  shows "order_desc rank' v = order_desc rank v"
proof -
  let ?p = "order_desc rank v"
  let ?key = "\<lambda>j. (desc_key (v ! j), rank' j)"
  have inj: "desc_key (v ! a) = desc_key (v ! b) \<longleftrightarrow> a = b" if "a < length v" "b < length v" for a b
    using assms that by (auto simp: no_ties_def distinct_conv_nth)
  have dist: "distinct ?p" by (rule distinct_order_desc)
  have set_p: "set ?p = {..<length v}" by (rule set_order_desc)
  have "sorted_wrt (\<lambda>a b. desc_key (v ! a) \<le> desc_key (v ! b)) ?p"
    using sorted_order_desc [of v rank] by (simp add: sorted_wrt_map)
  then have "sorted_wrt (\<lambda>a b. ?key a \<le> ?key b) ?p"
    unfolding sorted_wrt_iff_nth_less
  proof (intro allI impI)
    fix i j assume s: "\<forall>i j. i < j \<longrightarrow> j < length ?p \<longrightarrow> desc_key (v ! (?p ! i)) \<le> desc_key (v ! (?p ! j))"
      and ij: "i < j" "j < length ?p"
    have le: "desc_key (v ! (?p ! i)) \<le> desc_key (v ! (?p ! j))"
      using s ij by blast
    have "?p ! i \<noteq> ?p ! j"
      using dist ij by (simp add: nth_eq_iff_index_eq)
    moreover have "?p ! i < length v" "?p ! j < length v"
      using set_p ij nth_mem [of i ?p] nth_mem [of j ?p] by auto
    ultimately have "desc_key (v ! (?p ! i)) \<noteq> desc_key (v ! (?p ! j))"
      using inj by blast
    with le have "desc_key (v ! (?p ! i)) < desc_key (v ! (?p ! j))"
      by simp
    then show "?key (?p ! i) \<le> ?key (?p ! j)"
      by (simp add: less_eq_prod_def)
  qed
  then have sorted: "sorted (map ?key ?p)"
    by (simp add: sorted_wrt_map)
  have "sort_key ?key [0..<length v] = ?p"
  proof (rule properties_for_sort_key [OF mset_order_desc _ sorted])
    fix k assume k: "k \<in> set ?p"
    then have kl: "k < length v" using set_p by auto
    have "filter (\<lambda>x. ?key k = ?key x) ?p = [k]"
      using dist k inj kl set_p by (intro filter_eq_single) auto
    moreover have "filter (\<lambda>x. ?key k = ?key x) [0..<length v] = [k]"
      using inj kl by (intro filter_eq_single) auto
    ultimately show "filter (\<lambda>x. ?key k = ?key x) ?p = filter (\<lambda>x. ?key k = ?key x) [0..<length v]"
      by simp
  qed
  then show ?thesis
    by (simp add: order_desc_def)
qed

lemma knn_predict_no_ties:
  assumes pre: "knn_pre feature bank labels cls k"
    and sims: "\<forall>b < size0 feature. no_ties (similarity_fl feature bank b)"
    and scores: "\<forall>b < size0 feature. no_ties (scores_fl lib feature bank labels (nat cls) (nat k) t b)"
  shows "knn_predict lib' feature bank labels cls k t = knn_predict lib feature bank labels cls k t"
proof -
  have nb: "selected_neighbors lib' b (similarity_fl feature bank b) (nat k)
            = selected_neighbors lib b (similarity_fl feature bank b) (nat k)"
    if "b < size0 feature" for b
  proof -
    have "no_ties (similarity_fl feature bank b)"
      using sims that by simp
    then have "order_desc (topk_ties lib' b (similarity_fl feature bank b)) (similarity_fl feature bank b)
        = order_desc (topk_ties lib b (similarity_fl feature bank b)) (similarity_fl feature bank b)"
      by (rule order_desc_no_ties)
    then show ?thesis
      by (simp add: selected_neighbors_def)
  qed
  have sc: "scores_fl lib' feature bank labels (nat cls) (nat k) t b
            = scores_fl lib feature bank labels (nat cls) (nat k) t b"
    if "b < size0 feature" for b
    using nb [OF that] by (simp add: scores_fl_def Let_def)
  have "order_desc (argsort_ties lib' b (scores_fl lib' feature bank labels (nat cls) (nat k) t b))
            (scores_fl lib' feature bank labels (nat cls) (nat k) t b)
        = order_desc (argsort_ties lib b (scores_fl lib feature bank labels (nat cls) (nat k) t b))
            (scores_fl lib feature bank labels (nat cls) (nat k) t b)"
    if "b < size0 feature" for b
    unfolding sc [OF that]
    using scores that by (intro order_desc_no_ties) simp
  then show ?thesis
    unfolding knn_pre_rows [OF pre] by simp
qed

lemma ex_no_ties:
  "\<forall>b < size0 ex_feature. no_ties (similarity_fl ex_feature ex_bank b)"
  "\<forall>b < size0 ex_feature. no_ties (scores_fl stable_ties ex_feature ex_bank [0, 1, 1] (nat 2) (nat 2) (1/10) b)"
proof -
  have wf: "wf2 ex_query" "wf2 ex_columns" "0 < size0 ex_query"
    by (simp_all add: wf2_def ex_query_def ex_columns_def)
  have d: "\<forall>j < size1 ex_columns. abs_dot (rows ex_query ! 0) (column ex_columns j) \<le> float32_max"
    using ex_abs_dot float32_max_pos(2) by (fastforce simp: ex_columns_def)
  have "similarity_fl ex_feature ex_bank 0 = map Num (similarity_row ex_query ex_columns 0)"
    unfolding ex_feature_def ex_bank_def using wf d by (rule similarity_fl_Num)
  then have "no_ties (similarity_fl ex_feature ex_bank 0)"
    by (simp add: ex_similarity_row no_ties_def)
  then show "\<forall>b < size0 ex_feature. no_ties (similarity_fl ex_feature ex_bank b)"
    by (simp add: ex_feature_size0)
  have "no_ties (scores_fl stable_ties ex_feature ex_bank [0, 1, 1] 2 2 (1/10) 0)"
    by (simp add: ex_scores [OF ex_float_safe] no_ties_def)
  then show "\<forall>b < size0 ex_feature.
      no_ties (scores_fl stable_ties ex_feature ex_bank [0, 1, 1] (nat 2) (nat 2) (1/10) b)"
    by (simp add: ex_feature_size0)
qed

section \<open>The claims\<close>

subsection \<open>The ranking returned by the classifier\<close>




subsection \<open>One neighbour\<close>




subsection \<open>The feature bank\<close>

text \<open>
  Claim C3, as the code has it.  When the reference iterator is not empty, the
  encoder returns one embedding of dimension \<open>D \<noteq> 1\<close> per sample, no batch is a
  single sample and every batch has one label per sample, the builder raises
  nothing and leaves a well-formed \<open>D \<times> N\<close> bank, \<open>N\<close> the total number of reference
  samples, and the length-\<open>N\<close> vector of all labels in the order of the iterator.
  Column \<open>j\<close> of the bank is \<open>F.normalize\<close> of the embedding of sample \<open>j\<close>, so
  bank and labels are aligned.  The column is a vector of finite numbers of unit
  norm when that embedding consists of finite numbers, the sum of its squares
  does not exceed the largest float, and its norm is at least \<open>eps = 1e-12\<close>.
\<close>

theorem training_epoch_end_bank:
  assumes "bank_pre s D"
  shows "fst (training_epoch_end s) = None \<and>
         (\<exists>fb. feature_bank (snd (training_epoch_end s)) = Some (BankTensor fb) \<and>
            wf2 fb \<and> size0 fb = D \<and> size1 fb = total_samples s \<and>
            targets_bank (snd (training_epoch_end s)) = Some (TargetsTensor (reference_labels s)) \<and>
            length (reference_labels s) = total_samples s \<and>
            length (raw_embeddings s) = total_samples s \<and>
            (\<forall>j < total_samples s.
               column fb j = normalize_row (raw_embeddings s ! j) \<and>
               (\<forall>x. raw_embeddings s ! j = map Num x \<and> sum_squares x \<le> float32_max \<and>
                     normalize_eps \<le> l2_norm x
                  \<longrightarrow> (\<exists>y. column fb j = map Num y \<and> l2_norm y = 1))))"
proof -
  let ?c = "\<lparr>size0 = total_samples s, size1 = D, rows = map normalize_row (raw_embeddings s)\<rparr>"
  have enc: "list_all (encodes (resnet s False) D) (dataloader_kNN s)"
    using assms by (simp add: bank_pre_def)
  have len_raw: "length (raw_embeddings s) = total_samples s"
    using encodes_rows(3) [OF enc] by (simp add: raw_embeddings_def total_samples_def)
  have len_lab: "length (reference_labels s) = total_samples s"
    using encodes_rows(4) [OF enc] by (simp add: reference_labels_def total_samples_def)
  have row_len: "\<forall>r \<in> set (raw_embeddings s). length r = D"
    using encodes_rows(6) [OF enc] by (simp add: raw_embeddings_def)
  have wf: "wf2 (transpose_t ?c)"
    by (rule wf2_transpose_t) (simp add: len_raw)
  have col: "column (transpose_t ?c) j = normalize_row (raw_embeddings s ! j)"
    if "j < total_samples s" for j
  proof -
    have "length (normalize_row (raw_embeddings s ! j)) = D"
      using that row_len len_raw by (simp add: length_normalize_row)
    then show ?thesis
      using that len_raw column_transpose_t [of j ?c] by simp
  qed
  have unit: "\<exists>y. column (transpose_t ?c) j = map Num y \<and> l2_norm y = 1"
    if "j < total_samples s" "raw_embeddings s ! j = map Num x" "sum_squares x \<le> float32_max"
      "normalize_eps \<le> l2_norm x" for j x
    using that normalize_row_unit [of x] by (simp add: col)
  show ?thesis
    unfolding training_epoch_end_ok [OF assms]
    using wf len_raw len_lab col unit
    by (intro conjI exI [of _ "transpose_t ?c"]) (simp_all add: transpose_t_def)
qed

theorem training_epoch_end_bank_witness:
  "bank_pre ex_bank_module 2 \<and>
   fst (training_epoch_end ex_bank_module) = None \<and>
   raw_embeddings ex_bank_module ! 1 = map Num [1, 0] \<and>
   sum_squares [1, 0] \<le> float32_max \<and> normalize_eps \<le> l2_norm [1, 0] \<and>
   (\<exists>fb. feature_bank (snd (training_epoch_end ex_bank_module)) = Some (BankTensor fb) \<and>
      wf2 fb \<and> size0 fb = 2 \<and> size1 fb = 2 \<and>
      (\<exists>y. column fb 1 = map Num y \<and> l2_norm y = 1)) \<and>
   targets_bank (snd (training_epoch_end ex_bank_module)) = Some (TargetsTensor [0, 1])"
proof -
  from training_epoch_end_bank [OF ex_bank_pre] obtain fb where
    fb: "fst (training_epoch_end ex_bank_module) = None"
      "feature_bank (snd (training_epoch_end ex_bank_module)) = Some (BankTensor fb)"
      "wf2 fb" "size0 fb = 2" "size1 fb = total_samples ex_bank_module"
      "targets_bank (snd (training_epoch_end ex_bank_module))
         = Some (TargetsTensor (reference_labels ex_bank_module))"
    and col: "\<forall>j < total_samples ex_bank_module.
               column fb j = normalize_row (raw_embeddings ex_bank_module ! j) \<and>
               (\<forall>x. raw_embeddings ex_bank_module ! j = map Num x \<and> sum_squares x \<le> float32_max \<and>
                     normalize_eps \<le> l2_norm x
                  \<longrightarrow> (\<exists>y. column fb j = map Num y \<and> l2_norm y = 1))"
    by blast
  have h: "raw_embeddings ex_bank_module ! 1 = map Num [1, 0]"
    "sum_squares [1, 0] \<le> float32_max" "normalize_eps \<le> l2_norm [1, 0]"
    by (simp_all add: ex_bank_raw ex_sum_squares ex_l2_norm normalize_eps_def float32_max_def)
  have "(1::nat) < total_samples ex_bank_module"
    by (simp add: ex_bank_raw)
  with col h have "\<exists>y. column fb 1 = map Num y \<and> l2_norm y = 1"
    by blast
  with fb ex_bank_pre h show ?thesis
    by (auto simp: ex_bank_raw)
qed

text \<open>
  The claim as stated fails.  An embedding that is the zero vector gives a bank
  column of norm zero.  And the embedding \<open>(3e19, 4e19)\<close>, of norm \<open>5e19\<close>, gives
  the zero column too: its squares are infinite in single precision, so is the
  norm, and a finite number divided by infinity is zero.
\<close>

theorem training_epoch_end_zero_column:
  "dataloader_kNN ex_bank_module = [([0, 2], [0, 1])] \<and>
   resnet ex_bank_module False [0, 2]
     = Inr \<lparr>size0 = 2, size1 = 2, rows = [[Num 0, Num 0], [Num 1, Num 0]]\<rparr> \<and>
   fst (training_epoch_end ex_bank_module) = None \<and>
   feature_bank (snd (training_epoch_end ex_bank_module))
     = Some (BankTensor \<lparr>size0 = 2, size1 = 2, rows = [[Num 0, Num 1], [Num 0, Num 0]]\<rparr>) \<and>
   column \<lparr>size0 = 2, size1 = 2, rows = [[Num 0, Num 1], [Num 0, Num 0]]\<rparr> 0 = map Num [0, 0] \<and>
   l2_norm [0, 0] = 0 \<and>
   dataloader_kNN ex_large_module = [([0, 2], [0, 1])] \<and>
   resnet ex_large_module False [0, 2]
     = Inr \<lparr>size0 = 2, size1 = 2,
            rows = [[Num 30000000000000000000, Num 40000000000000000000], [Num 1, Num 0]]\<rparr> \<and>
   normalize_eps \<le> l2_norm [30000000000000000000, 40000000000000000000] \<and>
   fst (training_epoch_end ex_large_module) = None \<and>
   feature_bank (snd (training_epoch_end ex_large_module))
     = Some (BankTensor \<lparr>size0 = 2, size1 = 2, rows = [[Num 0, Num 1], [Num 0, Num 0]]\<rparr>)"
proof -
  have "1 \<le> sqrt (sum_squares [30000000000000000000, 40000000000000000000])"
    by (rule real_sqrt_ge_one) (simp add: sum_squares_def)
  moreover have "normalize_eps \<le> 1"
    by (simp add: normalize_eps_def)
  ultimately have "normalize_eps \<le> l2_norm [30000000000000000000, 40000000000000000000]"
    unfolding l2_norm_def by linarith
  moreover have "dataloader_kNN ex_large_module = [([0, 2], [0, 1])]"
    "resnet ex_large_module False [0, 2]
     = Inr \<lparr>size0 = 2, size1 = 2,
            rows = [[Num 30000000000000000000, Num 40000000000000000000], [Num 1, Num 0]]\<rparr>"
    by (simp_all add: ex_large_module_def init_def ex_large_embeddings_def)
  moreover have "dataloader_kNN ex_bank_module = [([0, 2], [0, 1])]"
    "resnet ex_bank_module False [0, 2]
     = Inr \<lparr>size0 = 2, size1 = 2, rows = [[Num 0, Num 0], [Num 1, Num 0]]\<rparr>"
    by (simp_all add: ex_bank_module_def init_def ex_embeddings_def)
  ultimately show ?thesis
    by (simp add: ex_bank_built ex_large_built ex_l2_norm column_def)
qed

subsection \<open>Validation without a bank\<close>

text \<open>
  Claim C4, as the code has it.  While the module has no \<open>feature_bank\<close> or no
  \<open>targets_bank\<close> attribute, as before the first bank is built, a validation step
  skips classification: it returns \<open>None\<close> and changes nothing, so the encoder and
  \<open>knn_predict\<close> are not called and nothing is raised (whatever order the library
  gives to equal entries).  From an empty reference
  iterator the builder builds no bank: \<open>torch.cat\<close> raises on the empty list, and
  both attributes are left as empty Python lists.
\<close>

theorem validation_step_skips:
  "(feature_bank s = None \<or> targets_bank s = None \<longrightarrow> validation_step lib s batch = (Inr None, s)) \<and>
   (dataloader_kNN s = [] \<longrightarrow>
      fst (training_epoch_end s) = Some (RuntimeError ''cat'') \<and>
      feature_bank (snd (training_epoch_end s)) = Some (BankList []) \<and>
      targets_bank (snd (training_epoch_end s)) = Some (TargetsList []))"
  using validation_step_no_bank [of s lib batch] training_epoch_end_empty [of s]
  by simp

theorem validation_step_skips_witness:
  "feature_bank ex_empty_module = None \<and>
   validation_step stable_ties ex_empty_module ([0, 2], [0, 1]) = (Inr None, ex_empty_module) \<and>
   dataloader_kNN ex_empty_module = [] \<and>
   fst (training_epoch_end ex_empty_module) = Some (RuntimeError ''cat'')"
proof -
  have "feature_bank ex_empty_module = None" "dataloader_kNN ex_empty_module = []"
    by (simp_all add: ex_empty_module_def init_def)
  then show ?thesis
    using validation_step_skips [of ex_empty_module stable_ties "([0, 2], [0, 1])"] by simp
qed

text \<open>The claim as stated fails: from an empty reference iterator the builder
  raises and leaves empty lists, not a bank of no columns, and the next
  validation step attempts the prediction and raises; a validation step on a
  bank of no columns calls the encoder and \<open>knn_predict\<close>, which raises in \<open>topk\<close>.\<close>

theorem validation_step_not_skipped:
  "fst (training_epoch_end ex_empty_module) = Some (RuntimeError ''cat'') \<and>
   feature_bank (snd (training_epoch_end ex_empty_module)) = Some (BankList []) \<and>
   fst (validation_step stable_ties (snd (training_epoch_end ex_empty_module)) ([0, 2], [0, 1]))
     = Inl (TypeError ''mm'') \<and>
   feature_bank ex_n0_module = Some (BankTensor \<lparr>size0 = 2, size1 = 0, rows = [[], []]\<rparr>) \<and>
   fst (validation_step stable_ties ex_n0_module ([0, 2], [0, 1])) = Inl (RuntimeError ''topk'') \<and>
   encoder_calls (snd (validation_step stable_ties ex_n0_module ([0, 2], [0, 1]))) = [(True, True)]"
proof -
  have "fst (training_epoch_end ex_empty_module) = Some (RuntimeError ''cat'')"
    and "feature_bank (snd (training_epoch_end ex_empty_module)) = Some (BankList [])"
    by (simp_all add: ex_empty_after)
  moreover have "feature_bank ex_n0_module
      = Some (BankTensor \<lparr>size0 = 2, size1 = 0, rows = [[], []]\<rparr>)"
    by (simp add: ex_n0_module_def)
  moreover have "fst (validation_step stable_ties ex_n0_module ([0, 2], [0, 1])) = Inl (RuntimeError ''topk'')"
    and "encoder_calls (snd (validation_step stable_ties ex_n0_module ([0, 2], [0, 1]))) = [(True, True)]"
    by (simp_all add: ex_validation_n0)
  ultimately show ?thesis
    using ex_validation_after_empty by blast
qed

subsection \<open>Invalid arguments of the classifier\<close>

text \<open>
  Claim C5, as the code has it.  \<open>knn_predict\<close> raises at the call, and returns no
  prediction, when the query dimension differs from the number of bank rows (in
  \<open>torch.mm\<close>) and when \<open>k < 0\<close> or \<open>k > N\<close> (in \<open>topk\<close>).  The temperature is not
  checked: when the other preconditions hold the call returns a ranking for every
  temperature, positive or not.  All of this holds whatever order the library gives
  to equal entries.
\<close>

theorem knn_predict_rejects:
  "(size1 feature \<noteq> size0 bank \<longrightarrow>
      knn_predict lib feature bank labels cls k t = Inl (RuntimeError ''mm'')) \<and>
   (size1 feature = size0 bank \<and> (k < 0 \<or> int (size1 bank) < k) \<longrightarrow>
      knn_predict lib feature bank labels cls k t = Inl (RuntimeError ''topk'')) \<and>
   (knn_pre feature bank labels cls k \<longrightarrow>
      \<not> isl (knn_predict lib feature bank labels cls k t))"
  using knn_predict_mm_error [of feature bank lib labels cls k t]
    knn_predict_topk_error [of feature bank k lib labels cls t]
    knn_pre_not_error [of feature bank labels cls k lib t]
  by blast

theorem knn_predict_rejects_witness:
  "size1 ex_bank \<noteq> size0 ex_bank \<and>
   knn_predict stable_ties ex_bank ex_bank [0, 1, 1] 2 2 (1/10) = Inl (RuntimeError ''mm'') \<and>
   size1 ex_feature = size0 ex_bank \<and> int (size1 ex_bank) < 4 \<and>
   knn_predict stable_ties ex_feature ex_bank [0, 1, 1] 2 4 (1/10) = Inl (RuntimeError ''topk'') \<and>
   knn_predict stable_ties ex_feature ex_bank [0, 1, 1] 2 (- 1) (1/10) = Inl (RuntimeError ''topk'') \<and>
   knn_pre ex_feature ex_bank [0, 1, 1] 2 2 \<and>
   \<not> isl (knn_predict stable_ties ex_feature ex_bank [0, 1, 1] 2 2 0)"
proof -
  have a: "size1 ex_bank \<noteq> size0 ex_bank" "size1 ex_feature = size0 ex_bank"
    "int (size1 ex_bank) < 4"
    by (simp_all add: ex_bank_def ex_feature_def ex_columns_def ex_query_def tmap_def)
  have p: "knn_pre ex_feature ex_bank [0, 1, 1] 2 2"
    by (simp add: ex_knn_pre_fl)
  show ?thesis
    using a p
      knn_predict_rejects [of ex_bank ex_bank stable_ties "[0, 1, 1]" 2 2 "1/10"]
      knn_predict_rejects [of ex_feature ex_bank stable_ties "[0, 1, 1]" 2 4 "1/10"]
      knn_predict_rejects [of ex_feature ex_bank stable_ties "[0, 1, 1]" 2 "- 1" "1/10"]
      knn_predict_rejects [of ex_feature ex_bank stable_ties "[0, 1, 1]" 2 2 0]
    by simp
qed

text \<open>The claim as stated fails: a temperature of \<open>-1\<close> is not rejected.\<close>

theorem knn_predict_negative_temperature:
  "(- 1 :: real) \<le> 0 \<and>
   knn_predict stable_ties ex_feature ex_bank [0, 1, 1] 2 2 (- 1)
     = Inr \<lparr>size0 = 1, size1 = 2, rows = [[1, 0]]\<rparr>"
  by (simp add: ex_knn_negative)

subsection \<open>The mode of the encoder\<close>

text \<open>
  Claim C6, as the code has it.  The builder calls the encoder only in evaluation
  mode and with gradient tracking disabled, at most once per batch, and leaves
  the gradient mode as it found it on every path.  It puts the encoder back into
  training mode exactly when it completes without an exception: \<open>self.resnet.train()\<close>
  is its last statement, and an exception raised before leaves the encoder in
  evaluation mode.
\<close>

theorem training_epoch_end_modes:
  "(\<exists>n \<le> length (dataloader_kNN s).
      encoder_calls (snd (training_epoch_end s)) = encoder_calls s @ replicate n (False, False)) \<and>
   grad_enabled (snd (training_epoch_end s)) = grad_enabled s \<and>
   (fst (training_epoch_end s) = None \<longrightarrow> resnet_training (snd (training_epoch_end s))) \<and>
   (fst (training_epoch_end s) \<noteq> None \<longrightarrow> \<not> resnet_training (snd (training_epoch_end s)))"
  using builder_modes [of s] by simp

theorem training_epoch_end_modes_witness:
  "fst (training_epoch_end ex_bank_module) = None \<and>
   resnet_training (snd (training_epoch_end ex_bank_module)) \<and>
   fst (training_epoch_end ex_empty_module) \<noteq> None \<and>
   \<not> resnet_training (snd (training_epoch_end ex_empty_module)) \<and>
   grad_enabled (snd (training_epoch_end ex_empty_module)) = grad_enabled ex_empty_module"
proof -
  have 1: "fst (training_epoch_end ex_bank_module) = None"
    by (simp add: ex_bank_built)
  have "dataloader_kNN ex_empty_module = []"
    by (simp add: ex_empty_module_def init_def)
  then have 2: "fst (training_epoch_end ex_empty_module) \<noteq> None"
    by (simp add: training_epoch_end_empty)
  show ?thesis
    using 1 2 training_epoch_end_modes [of ex_bank_module] training_epoch_end_modes [of ex_empty_module]
    by blast
qed

text \<open>The claim as stated fails: a freshly constructed module is in training
  mode; with an empty reference iterator the builder raises in \<open>torch.cat\<close>, and
  with a batch to encode it raises in the encoder; both times it returns control
  with the encoder in evaluation mode.\<close>

theorem training_epoch_end_stays_in_eval:
  "resnet_training (init [] 0 2 1 (1/10) :: nat benchmark_module) \<and>
   fst (training_epoch_end (init [] 0 2 1 (1/10) :: nat benchmark_module))
     = Some (RuntimeError ''cat'') \<and>
   \<not> resnet_training (snd (training_epoch_end (init [] 0 2 1 (1/10) :: nat benchmark_module))) \<and>
   resnet_training (init [([0, 2], [0, 1])] 0 2 1 (1/10) :: nat benchmark_module) \<and>
   fst (training_epoch_end (init [([0, 2], [0, 1])] 0 2 1 (1/10) :: nat benchmark_module))
     = Some (NotImplementedError ''forward'') \<and>
   \<not> resnet_training (snd (training_epoch_end (init [([0, 2], [0, 1])] 0 2 1 (1/10) :: nat benchmark_module)))"
proof -
  have "training_epoch_end (init [([0, 2], [0, 1])] 0 2 1 (1/10) :: nat benchmark_module)
        = (Some (NotImplementedError ''forward''),
           (init [([0, 2], [0, 1])] 0 2 1 (1/10))\<lparr>resnet_training := False,
               feature_bank := Some (BankList []), targets_bank := Some (TargetsList []),
               encoder_calls := [(False, False)]\<rparr>)"
    by (simp add: training_epoch_end_def init_def Let_def)
  moreover have "dataloader_kNN (init [] 0 2 1 (1/10) :: nat benchmark_module) = []"
    "resnet_training (init dl 0 2 1 (1/10) :: nat benchmark_module)" for dl
    by (simp_all add: init_def)
  ultimately show ?thesis
    by (simp add: training_epoch_end_empty)
qed

subsection \<open>The running accuracy\<close>

text \<open>
  Claim C7.  For a validation pass with outputs, a positive number of samples
  and a non-negative number of correct predictions, \<open>validation_epoch_end\<close>
  raises nothing, sets \<open>max_accuracy\<close> to the larger of its old value and
  \<open>total_correct / total_samples\<close>, and logs that accuracy as a percentage.
  \<open>max_accuracy\<close> never decreases, over one round or many, and after any number of
  rounds it is the largest value among its start and the accuracies observed; from
  a freshly constructed module that is the largest accuracy observed.
\<close>

theorem validation_epoch_end_accuracy:
  assumes "\<forall>p \<in> set (outputs # passes). valid_pass p"
  shows "fst (validation_epoch_end s outputs) = None \<and>
         max_accuracy (snd (validation_epoch_end s outputs))
           = max (max_accuracy s) (pass_accuracy outputs) \<and>
         logged (snd (validation_epoch_end s outputs))
           = logged s @ [(''kNN_accuracy'', pass_accuracy outputs * 100)] \<and>
         max_accuracy s \<le> max_accuracy (snd (validation_epoch_end s outputs)) \<and>
         max_accuracy s \<le> max_accuracy (validation_rounds s (outputs # passes)) \<and>
         max_accuracy (validation_rounds s (outputs # passes))
           = Max (insert (max_accuracy s) (set (map pass_accuracy (outputs # passes)))) \<and>
         max_accuracy (validation_rounds (init dl g c k t) (outputs # passes))
           = Max (set (map pass_accuracy (outputs # passes)))"
proof -
  have o: "outputs \<noteq> []" "0 < sum_list (map fst outputs)"
    using assms by (auto simp: valid_pass_def)
  note ok = validation_epoch_end_ok [OF o, of s]
  have "fst (validation_epoch_end s outputs) = None"
    by (simp add: ok)
  moreover have "max_accuracy (snd (validation_epoch_end s outputs))
         = max (max_accuracy s) (pass_accuracy outputs)"
    by (simp add: ok)
  moreover have "logged (snd (validation_epoch_end s outputs))
         = logged s @ [(''kNN_accuracy'', pass_accuracy outputs * 100)]"
    by (simp add: ok)
  moreover have "max_accuracy s \<le> max_accuracy (snd (validation_epoch_end s outputs))"
    by (rule validation_epoch_end_mono)
  moreover have "max_accuracy s \<le> max_accuracy (validation_rounds s (outputs # passes))"
    by (rule validation_rounds_mono)
  moreover have "max_accuracy (validation_rounds s (outputs # passes))
         = Max (insert (max_accuracy s) (set (map pass_accuracy (outputs # passes))))"
    by (rule validation_rounds_max [OF assms])
  moreover have "max_accuracy (validation_rounds (init dl g c k t) (outputs # passes))
         = Max (set (map pass_accuracy (outputs # passes)))"
    by (rule validation_rounds_from_init [OF assms])
  ultimately show ?thesis by blast
qed

theorem validation_epoch_end_accuracy_witness:
  "valid_pass [(10, 7), (5, 5)] \<and> valid_pass [(2, 1)] \<and> valid_pass [(5, 4)] \<and> valid_pass [(10, 3)] \<and>
   max_accuracy (snd (validation_epoch_end (init [] 0 10 200 (1/10) :: nat benchmark_module)
      [(10, 7), (5, 5)])) = 12/15 \<and>
   max_accuracy (validation_rounds (init [] 0 10 200 (1/10) :: nat benchmark_module)
      [[(2, 1)], [(5, 4)], [(10, 3)]]) = 8/10"
proof -
  have 1: "\<forall>p \<in> set ([(10, 7), (5, 5)] # []). valid_pass p"
    by (simp add: ex_valid_pass)
  have 2: "\<forall>p \<in> set ([(2, 1)] # [[(5, 4)], [(10, 3)]]). valid_pass p"
    by (simp add: ex_valid_pass)
  have "max_accuracy (snd (validation_epoch_end (init [] 0 10 200 (1/10) :: nat benchmark_module)
      [(10, 7), (5, 5)])) = 12/15"
    using validation_epoch_end_accuracy [OF 1, where s = "init [] 0 10 200 (1/10) :: nat benchmark_module"
        and dl = "[] :: (nat list \<times> int list) list" and g = 0 and c = 10 and k = 200 and t = "1/10"]
    by (simp add: ex_pass_accuracy max_accuracy_init)
  moreover have "max_accuracy (validation_rounds (init [] 0 10 200 (1/10) :: nat benchmark_module)
      [[(2, 1)], [(5, 4)], [(10, 3)]]) = 8/10"
    using validation_epoch_end_accuracy [OF 2, where s = "init [] 0 10 200 (1/10) :: nat benchmark_module"
        and dl = "[] :: (nat list \<times> int list) list" and g = 0 and c = 10 and k = 200 and t = "1/10"]
    by (simp add: ex_pass_accuracy)
  ultimately show ?thesis
    by (simp add: ex_valid_pass)
qed

subsection \<open>The moving average of the target network\<close>

text \<open>
  Claim C8.  The loop over the paired parameters computes the blend
  \<open>taw * target + (1 - taw) * online\<close> as a new tensor and binds the loop variable
  to it; no parameter tensor of the target network is written.  With the target
  parameter \<open>[1]\<close>, the online parameter \<open>[3]\<close> and \<open>taw = 1/2\<close> the blend is \<open>[2]\<close>,
  and after the loop, and after the whole training step, the target parameter is
  still \<open>[1]\<close>.
\<close>

theorem ema_loop_rebinds_local:
  "ema_loop (Some (1/2)) (zip (parameters ex_target) (parameters ex_online)) None ex_store
     = (Inr (Some 2), ex_store @ [TReal1 [2]]) \<and>
   parameter_values ex_store ex_target = [Some (TReal1 [1])] \<and>
   parameter_values (ex_store @ [TReal1 [2]]) ex_target = [Some (TReal1 [1])] \<and>
   fst (training_step ex_training_module (([0], [2]), [0])) = Inl (NameError ''step'') \<and>
   parameter_values (heap (snd (training_step ex_training_module (([0], [2]), [0])))) ex_target
     = [Some (TReal1 [1])] \<and>
   lookup (ex_store @ [TReal1 [2]]) 2 = Some (TReal1 [2])"
proof -
  have p: "parameters ex_target = [0]"
    by (simp add: ex_target_def)
  have "parameter_values ex_store ex_target = [Some (TReal1 [1])]"
    and "parameter_values (ex_store @ [TReal1 [2]]) ex_target = [Some (TReal1 [1])]"
    and "lookup (ex_store @ [TReal1 [2]]) 2 = Some (TReal1 [2])"
    by (simp_all add: parameter_values_def p ex_store_def lookup_def)
  moreover have "heap (snd (training_step ex_training_module (([0], [2]), [0])))
      = ex_store @ [TReal1 [2]]"
    and "fst (training_step ex_training_module (([0], [2]), [0])) = Inl (NameError ''step'')"
    by (simp_all add: ex_training_step)
  ultimately show ?thesis
    using ex_ema_loop by simp
qed

subsection \<open>The inputs of the classifier\<close>

text \<open>
  Claim C9.  The store can be written, and a view is read through the storage of
  its base.  When the three arguments are tensors of the store (views or not)
  with the values of a query batch, a bank and a label vector, a call of
  \<open>knn_predict\<close> leaves every storage that existed before the call as it was, so
  the three inputs have the values they had; the only write of the call, that of
  the out-of-place \<open>scatter\<close>, goes into the copy that \<open>scatter\<close> has made.  The
  tensor returned is no view and has a storage that did not exist before, so it
  shares none with the inputs.  What the call returns, exception or ranking, is
  the value of the function \<open>knn_predict\<close> on the values of its arguments: a second
  call after the first returns the same, and so does a call in any other store
  in which the arguments have the same values.  This is relative to the order
  the library gives to equal entries, the first argument; when no row of
  similarities and no row of scores has two equal entries, the result is the same
  for every such order.
\<close>

theorem knn_predict_mem_pure:
  assumes "deref h fa = Inr (TFloat2 F)" and "deref h ba = Inr (TFloat2 Bk)"
    and "deref h la = Inr (TInt1 L)"
  shows "take (length h) (snd (knn_predict_mem lib fa ba la c k t h)) = h \<and>
         deref (snd (knn_predict_mem lib fa ba la c k t h)) fa = Inr (TFloat2 F) \<and>
         deref (snd (knn_predict_mem lib fa ba la c k t h)) ba = Inr (TFloat2 Bk) \<and>
         deref (snd (knn_predict_mem lib fa ba la c k t h)) la = Inr (TInt1 L) \<and>
         (\<forall>r. fst (knn_predict_mem lib fa ba la c k t h) = Inr r \<longrightarrow>
               views r = [] \<and> length h \<le> base r) \<and>
         result_value (knn_predict_mem lib fa ba la c k t h)
           = (case knn_predict lib F Bk L c k t of Inl e \<Rightarrow> Inl e | Inr p \<Rightarrow> Inr (TNat2 p)) \<and>
         result_value (knn_predict_mem lib fa ba la c k t (snd (knn_predict_mem lib fa ba la c k t h)))
           = result_value (knn_predict_mem lib fa ba la c k t h) \<and>
         (\<forall>h' fa' ba' la'.
            deref h' fa' = Inr (TFloat2 F) \<and> deref h' ba' = Inr (TFloat2 Bk) \<and>
            deref h' la' = Inr (TInt1 L) \<longrightarrow>
            result_value (knn_predict_mem lib fa' ba' la' c k t h')
              = result_value (knn_predict_mem lib fa ba la c k t h)) \<and>
         (knn_pre F Bk L c k \<and>
          (\<forall>b < size0 F. no_ties (similarity_fl F Bk b) \<and>
                          no_ties (scores_fl lib F Bk L (nat c) (nat k) t b)) \<longrightarrow>
          (\<forall>lib'. result_value (knn_predict_mem lib' fa ba la c k t h)
                     = result_value (knn_predict_mem lib fa ba la c k t h)))"
proof -
  let ?h1 = "snd (knn_predict_mem lib fa ba la c k t h)"
  obtain ext where ext: "?h1 = h @ ext"
    using knn_predict_mem_extends [of lib fa ba la c k t h] by blast
  have ok: "\<not> isl (deref h fa)" "\<not> isl (deref h ba)" "\<not> isl (deref h la)"
    using assms by simp_all
  have 1: "take (length h) ?h1 = h"
    by (simp add: ext)
  have 2: "deref ?h1 fa = Inr (TFloat2 F)" "deref ?h1 ba = Inr (TFloat2 Bk)"
    "deref ?h1 la = Inr (TInt1 L)"
    using assms ok by (simp_all add: ext deref_append)
  have 3: "\<forall>r. fst (knn_predict_mem lib fa ba la c k t h) = Inr r \<longrightarrow>
               views r = [] \<and> length h \<le> base r"
  proof (intro allI impI)
    fix r assume "fst (knn_predict_mem lib fa ba la c k t h) = Inr r"
    then have "knn_predict_mem lib fa ba la c k t h = (Inr r, ?h1)"
      by (simp add: prod_eq_iff)
    with knn_predict_mem_fresh [of lib fa ba la c k t]
    show "views r = [] \<and> length h \<le> base r"
      unfolding returns_fresh_def by blast
  qed
  note ref = knn_predict_mem_refines
  have 4: "result_value (knn_predict_mem lib fa ba la c k t ?h1)
           = result_value (knn_predict_mem lib fa ba la c k t h)"
    by (simp only: ref [OF 2] ref [OF assms])
  have 5: "\<forall>h' fa' ba' la'.
            deref h' fa' = Inr (TFloat2 F) \<and> deref h' ba' = Inr (TFloat2 Bk) \<and>
            deref h' la' = Inr (TInt1 L) \<longrightarrow>
            result_value (knn_predict_mem lib fa' ba' la' c k t h')
              = result_value (knn_predict_mem lib fa ba la c k t h)"
    by (simp add: ref assms)
  have 6: "knn_pre F Bk L c k \<and>
          (\<forall>b < size0 F. no_ties (similarity_fl F Bk b) \<and>
                          no_ties (scores_fl lib F Bk L (nat c) (nat k) t b)) \<longrightarrow>
          (\<forall>lib'. result_value (knn_predict_mem lib' fa ba la c k t h)
                     = result_value (knn_predict_mem lib fa ba la c k t h))"
  proof (intro impI allI)
    fix lib'
    assume a: "knn_pre F Bk L c k \<and>
          (\<forall>b < size0 F. no_ties (similarity_fl F Bk b) \<and>
                          no_ties (scores_fl lib F Bk L (nat c) (nat k) t b))"
    then have "knn_predict lib' F Bk L c k t = knn_predict lib F Bk L c k t"
      by (intro knn_predict_no_ties) simp_all
    then show "result_value (knn_predict_mem lib' fa ba la c k t h)
                     = result_value (knn_predict_mem lib fa ba la c k t h)"
      by (simp only: ref [OF assms])
  qed
  show ?thesis
    using 1 2 3 4 5 6 ref [OF assms, of lib c k t] by blast
qed

theorem knn_predict_mem_pure_witness:
  "deref ex_knn_store (Ref 0 []) = Inr (TFloat2 ex_feature) \<and>
   deref ex_knn_store (Ref 1 []) = Inr (TFloat2 ex_bank) \<and>
   deref ex_knn_store (Ref 2 []) = Inr (TInt1 [0, 1, 1]) \<and>
   take (length ex_knn_store)
     (snd (knn_predict_mem stable_ties (Ref 0 []) (Ref 1 []) (Ref 2 []) 2 2 (1/10) ex_knn_store))
     = ex_knn_store \<and>
   (\<exists>r. fst (knn_predict_mem stable_ties (Ref 0 []) (Ref 1 []) (Ref 2 []) 2 2 (1/10) ex_knn_store)
          = Inr r \<and> views r = [] \<and> length ex_knn_store \<le> base r) \<and>
   result_value (knn_predict_mem stable_ties (Ref 0 []) (Ref 1 []) (Ref 2 []) 2 2 (1/10) ex_knn_store)
     = Inr (TNat2 \<lparr>size0 = 1, size1 = 2, rows = [[0, 1]]\<rparr>) \<and>
   knn_pre ex_feature ex_bank [0, 1, 1] 2 2 \<and>
   result_value (knn_predict_mem last_ties (Ref 0 []) (Ref 1 []) (Ref 2 []) 2 2 (1/10) ex_knn_store)
     = Inr (TNat2 \<lparr>size0 = 1, size1 = 2, rows = [[0, 1]]\<rparr>)"
proof -
  have l: "deref ex_knn_store (Ref 0 []) = Inr (TFloat2 ex_feature)"
    "deref ex_knn_store (Ref 1 []) = Inr (TFloat2 ex_bank)"
    "deref ex_knn_store (Ref 2 []) = Inr (TInt1 [0, 1, 1])"
    by (simp_all add: ex_knn_store_def deref_Ref lookup_def)
  have pre: "knn_pre ex_feature ex_bank [0, 1, 1] 2 2"
    by (simp add: ex_knn_pre_fl)
  have nt: "\<forall>b < size0 ex_feature. no_ties (similarity_fl ex_feature ex_bank b) \<and>
      no_ties (scores_fl stable_ties ex_feature ex_bank [0, 1, 1] (nat 2) (nat 2) (1/10) b)"
    using ex_no_ties by blast
  note th = knn_predict_mem_pure [OF l, of stable_ties 2 2 "1/10"]
  let ?call = "\<lambda>lib. knn_predict_mem lib (Ref 0 []) (Ref 1 []) (Ref 2 []) 2 2 (1/10) ex_knn_store"
  from th have frame: "take (length ex_knn_store) (snd (?call stable_ties)) = ex_knn_store"
    by blast
  from th have "result_value (?call stable_ties)
      = (case knn_predict stable_ties ex_feature ex_bank [0, 1, 1] 2 2 (1/10) of
           Inl e \<Rightarrow> Inl e | Inr p \<Rightarrow> Inr (TNat2 p))"
    by blast
  then have res: "result_value (?call stable_ties)
      = Inr (TNat2 \<lparr>size0 = 1, size1 = 2, rows = [[0, 1]]\<rparr>)"
    by (simp add: ex_knn_positive)
  from th pre nt have "\<forall>lib'. result_value (?call lib') = result_value (?call stable_ties)"
    by blast
  then have "result_value (?call last_ties) = result_value (?call stable_ties)"
    by blast
  with res have other: "result_value (?call last_ties)
      = Inr (TNat2 \<lparr>size0 = 1, size1 = 2, rows = [[0, 1]]\<rparr>)"
    by simp
  obtain y h1 where call: "?call stable_ties = (y, h1)"
    by (cases "?call stable_ties")
  with res obtain r where r: "y = Inr r"
    by (cases y) (simp_all add: result_value_def)
  from th call r have "views r = [] \<and> length ex_knn_store \<le> base r"
    by simp
  with call r have fresh: "\<exists>r. fst (?call stable_ties) = Inr r \<and> views r = [] \<and>
      length ex_knn_store \<le> base r"
    by simp
  from l frame fresh res pre other show ?thesis
    by blast
qed

subsection \<open>The training step\<close>

text \<open>
  Claim C10.  On a freshly constructed module \<open>training_step\<close> raises at its first
  attribute read, \<open>self.online_resnet\<close>, and leaves the module as it was.  No
  method gives the module that attribute, so the same holds after any calls of
  the other methods.  Whatever attributes a module has, \<open>training_step\<close> returns no
  loss: the name \<open>step\<close> of the \<open>print\<close> statement is bound nowhere.
\<close>

theorem training_step_raises:
  "training_step (init dl g c k t) batch
     = (Inl (AttributeError ''online_resnet''), init dl g c k t) \<and>
   online_resnet (snd (training_epoch_end s)) = online_resnet s \<and>
   online_resnet (snd (validation_step lib s vbatch)) = online_resnet s \<and>
   online_resnet (snd (validation_epoch_end s outputs)) = online_resnet s \<and>
   online_resnet (snd (training_step s batch)) = online_resnet s \<and>
   (online_resnet s = None \<longrightarrow>
      training_step s batch = (Inl (AttributeError ''online_resnet''), s)) \<and>
   isl (fst (training_step s batch))"
proof -
  have "online_resnet s = None \<longrightarrow>
      training_step s batch = (Inl (AttributeError ''online_resnet''), s)"
    by (simp add: training_step_def getattr_def or_raise_Inl split: prod.splits)
  then show ?thesis
    using training_step_fresh [of dl g c k t batch] training_epoch_end_online [of s]
      validation_step_online [of lib s vbatch] validation_epoch_end_online [of s outputs]
      training_step_online [of s batch] training_step_never_returns [of s batch]
    by blast
qed

theorem training_step_raises_witness:
  "online_resnet (init [] 0 10 200 (1/10) :: nat benchmark_module) = None \<and>
   training_step (init [] 0 10 200 (1/10) :: nat benchmark_module) (([0], [1]), [3])
     = (Inl (AttributeError ''online_resnet''), init [] 0 10 200 (1/10)) \<and>
   isl (fst (training_step (init [] 0 10 200 (1/10) :: nat benchmark_module) (([0], [1]), [3])))"
proof -
  have n: "online_resnet (init [] 0 10 200 (1/10) :: nat benchmark_module) = None"
    by (simp add: init_def)
  from training_step_raises [where s = "init [] 0 10 200 (1/10) :: nat benchmark_module"
      and batch = "(([0], [1]), [3])" and dl = "[]" and g = 0 and c = 10 and k = 200 and t = "1/10"
      and vbatch = "([], [])" and outputs = "[]" and lib = stable_ties]
  show ?thesis using n by blast
qed

end
